theory Spec2Isabelle
  imports Main "HOL-Library.Word"
begin

unbundle bit_operations_syntax

section \<open>The syntax tree (HLSLTree.h)\<close>

text \<open>
  The enumerations of HLSLTree.h, constructor for enumerator, in the order of the header.
  \<open>HLSLBaseType_Count\<close>, \<open>HLSLBaseType_FirstNumeric\<close>, \<open>HLSLBaseType_LastNumeric\<close> and
  \<open>HLSLBaseType_NumericCount\<close> are aliases and counts, not further values of the type.
\<close>

datatype HLSLBaseType =
    HLSLBaseType_Unknown
  | HLSLBaseType_Void
  | HLSLBaseType_Float
  | HLSLBaseType_Float2
  | HLSLBaseType_Float3
  | HLSLBaseType_Float4
  | HLSLBaseType_Float3x3
  | HLSLBaseType_Float4x4
  | HLSLBaseType_Half
  | HLSLBaseType_Half2
  | HLSLBaseType_Half3
  | HLSLBaseType_Half4
  | HLSLBaseType_Half3x3
  | HLSLBaseType_Half4x4
  | HLSLBaseType_Bool
  | HLSLBaseType_Int
  | HLSLBaseType_Int2
  | HLSLBaseType_Int3
  | HLSLBaseType_Int4
  | HLSLBaseType_Uint
  | HLSLBaseType_Uint2
  | HLSLBaseType_Uint3
  | HLSLBaseType_Uint4
  | HLSLBaseType_Texture
  | HLSLBaseType_Sampler2D
  | HLSLBaseType_SamplerCube
  | HLSLBaseType_UserDefined

datatype HLSLBinaryOp =
    HLSLBinaryOp_And
  | HLSLBinaryOp_Or
  | HLSLBinaryOp_Add
  | HLSLBinaryOp_Sub
  | HLSLBinaryOp_Mul
  | HLSLBinaryOp_Div
  | HLSLBinaryOp_Less
  | HLSLBinaryOp_Greater
  | HLSLBinaryOp_LessEqual
  | HLSLBinaryOp_GreaterEqual
  | HLSLBinaryOp_Equal
  | HLSLBinaryOp_NotEqual
  | HLSLBinaryOp_Assign
  | HLSLBinaryOp_AddAssign
  | HLSLBinaryOp_SubAssign
  | HLSLBinaryOp_MulAssign
  | HLSLBinaryOp_DivAssign

datatype HLSLUnaryOp =
    HLSLUnaryOp_Negative
  | HLSLUnaryOp_Positive
  | HLSLUnaryOp_Not
  | HLSLUnaryOp_PreIncrement
  | HLSLUnaryOp_PreDecrement
  | HLSLUnaryOp_PostIncrement
  | HLSLUnaryOp_PostDecrement

datatype HLSLArgumentModifier =
    HLSLArgumentModifier_None
  | HLSLArgumentModifier_In
  | HLSLArgumentModifier_Inout
  | HLSLArgumentModifier_Uniform

text \<open>
  \<open>HLSLNode\<close>: the header every node starts with. \<open>nodeType\<close> is the constructor of the
  datatype the node belongs to. \<open>addr\<close> stands for the node's address in the arena: the one
  place the program compares node pointers (the \<open>arraySize\<close> of two types) compares these.
\<close>

record HLSLNode =
  addr :: nat
  fileName :: "string option"
  line :: int

text \<open>
  The anonymous union of \<open>HLSLLiteralExpression\<close>, one constructor for each member. A
  \<open>float\<close> is carried as the text \<open>String_FormatFloat\<close> prints for it: the embedding does
  no floating-point arithmetic, and that text is all the program ever does with the value.
\<close>

type_synonym float = string

datatype LiteralValue = bValue bool | fValue float | iValue int

text \<open>
  Types and expressions refer to each other (\<open>HLSLType::arraySize\<close> is an expression, every
  expression has an \<open>expressionType\<close>), and a call refers to the function it resolved to, so
  the four structs are one mutually recursive datatype. Pointer fields that the program
  leaves or tests as \<open>NULL\<close> are options; linked lists (\<open>nextExpression\<close>, \<open>nextArgument\<close>)
  are lists. A \<open>HLSLFunction\<close> here is the declaration that \<open>m_functions\<close>, the intrinsic
  table and \<open>HLSLFunctionCall::function\<close> point to; its body, which none of them reads, is
  kept by the statement that declares it (see \<open>HLSLFunctionStatement\<close> below).
\<close>

datatype HLSLType =
    HLSLType (baseType: HLSLBaseType) (typeName: "string option") (array: bool)
      (arraySize: "HLSLExpression option") (constant': bool)
and HLSLExpression =
    HLSLUnaryExpression (node: HLSLNode) (expressionType: HLSLType)
      HLSLUnaryOp HLSLExpression
  | HLSLBinaryExpression (node: HLSLNode) (expressionType: HLSLType)
      HLSLBinaryOp HLSLExpression HLSLExpression
  | HLSLConditionalExpression (node: HLSLNode) (expressionType: HLSLType)
      HLSLExpression HLSLExpression HLSLExpression
  | HLSLCastingExpression (node: HLSLNode) (expressionType: HLSLType)
      HLSLType "HLSLExpression option"
  | HLSLLiteralExpression (node: HLSLNode) (expressionType: HLSLType)
      HLSLBaseType LiteralValue
  | HLSLIdentifierExpression (node: HLSLNode) (expressionType: HLSLType)
      string bool
  | HLSLConstructorExpression (node: HLSLNode) (expressionType: HLSLType)
      HLSLType "HLSLExpression list"
  | HLSLMemberAccess (node: HLSLNode) (expressionType: HLSLType)
      HLSLExpression string
  | HLSLArrayAccess (node: HLSLNode) (expressionType: HLSLType)
      HLSLExpression HLSLExpression
  | HLSLFunctionCallExpression (node: HLSLNode) (expressionType: HLSLType)
      HLSLFunctionCall
and HLSLFunctionCall =
    HLSLFunctionCall (function': "HLSLFunction option") (numArguments: int)
      (argument: "HLSLExpression list")
and HLSLArgument =
    HLSLArgument (node: HLSLNode) (name: "string option") (modifier: HLSLArgumentModifier)
      (type': HLSLType) (semantic: "string option")
and HLSLFunction =
    HLSLFunction (node: HLSLNode) (name: string) (returnType: HLSLType)
      (semantic: "string option") (numArguments: int) (argument: "HLSLArgument list")

text \<open>\<open>HLSLType(baseType)\<close>, the constructor with its defaults.\<close>

definition HLSLType_of :: "HLSLBaseType \<Rightarrow> HLSLType" where
  "HLSLType_of b = HLSLType b None False None False"

text \<open>
  What can end a run without a result. \<open>NullDereference\<close>: the program reads through a null
  pointer (or hands one to \<open>strcmp\<close>). \<open>AssertionFailure\<close>: an \<open>ASSERT\<close> of the source
  does not hold. \<open>OutOfBoundsRead\<close>: an array is read outside its bounds.
  \<open>InactiveUnionMember\<close>: a literal's union is read through a member that was
  not the one written. \<open>OutOfFuel\<close> is not an outcome of the program: the recursive-descent
  functions below recurse on a budget, and this is the budget running out.
\<close>

datatype fault =
  NullDereference | AssertionFailure | OutOfBoundsRead | InactiveUnionMember | OutOfFuel

section \<open>Base type descriptions and the implicit-cast rank (HLSLParser.cpp)\<close>

datatype NumericType =
    NumericType_Float
  | NumericType_Half
  | NumericType_Bool
  | NumericType_Int
  | NumericType_Uint
  | NumericType_NaN

text \<open>The enumerator's value, for indexing \<open>_numberTypeRank\<close>.\<close>

fun NumericType_index :: "NumericType \<Rightarrow> nat" where
  "NumericType_index NumericType_Float = 0"
| "NumericType_index NumericType_Half = 1"
| "NumericType_index NumericType_Bool = 2"
| "NumericType_index NumericType_Int = 3"
| "NumericType_index NumericType_Uint = 4"
| "NumericType_index NumericType_NaN = 6"

definition numberTypeRank :: "int list list" where
  "numberTypeRank =
    [ [0, 4, 4, 4, 4],
      [1, 0, 4, 4, 4],
      [5, 5, 0, 5, 5],
      [5, 5, 4, 0, 3],
      [5, 5, 4, 2, 0] ]"

record BaseTypeDescription =
  typeName :: string
  numericType :: NumericType
  numComponents :: int
  numDimensions :: int
  height :: int
  binaryOpRank :: int

definition BaseTypeDescription_of ::
  "string \<Rightarrow> NumericType \<Rightarrow> int \<Rightarrow> int \<Rightarrow> int \<Rightarrow> int \<Rightarrow> BaseTypeDescription" where
  "BaseTypeDescription_of n t c d h r =
     \<lparr> typeName = n, numericType = t, numComponents = c, numDimensions = d, height = h,
       binaryOpRank = r \<rparr>"

fun baseTypeDescriptions :: "HLSLBaseType \<Rightarrow> BaseTypeDescription" where
  "baseTypeDescriptions HLSLBaseType_Unknown =
     BaseTypeDescription_of ''unknown type'' NumericType_NaN 0 0 0 (-1)"
| "baseTypeDescriptions HLSLBaseType_Void =
     BaseTypeDescription_of ''void'' NumericType_NaN 0 0 0 (-1)"
| "baseTypeDescriptions HLSLBaseType_Float =
     BaseTypeDescription_of ''float'' NumericType_Float 1 0 1 0"
| "baseTypeDescriptions HLSLBaseType_Float2 =
     BaseTypeDescription_of ''float2'' NumericType_Float 2 1 1 0"
| "baseTypeDescriptions HLSLBaseType_Float3 =
     BaseTypeDescription_of ''float3'' NumericType_Float 3 1 3 0"
| "baseTypeDescriptions HLSLBaseType_Float4 =
     BaseTypeDescription_of ''float4'' NumericType_Float 4 1 4 0"
| "baseTypeDescriptions HLSLBaseType_Float3x3 =
     BaseTypeDescription_of ''float3x3'' NumericType_Float 3 2 3 0"
| "baseTypeDescriptions HLSLBaseType_Float4x4 =
     BaseTypeDescription_of ''float4x4'' NumericType_Float 4 2 4 0"
| "baseTypeDescriptions HLSLBaseType_Half =
     BaseTypeDescription_of ''half'' NumericType_Half 1 0 1 1"
| "baseTypeDescriptions HLSLBaseType_Half2 =
     BaseTypeDescription_of ''half2'' NumericType_Half 2 1 1 1"
| "baseTypeDescriptions HLSLBaseType_Half3 =
     BaseTypeDescription_of ''half3'' NumericType_Half 3 1 1 1"
| "baseTypeDescriptions HLSLBaseType_Half4 =
     BaseTypeDescription_of ''half4'' NumericType_Half 4 1 1 1"
| "baseTypeDescriptions HLSLBaseType_Half3x3 =
     BaseTypeDescription_of ''half3x3'' NumericType_Half 3 2 3 1"
| "baseTypeDescriptions HLSLBaseType_Half4x4 =
     BaseTypeDescription_of ''half4x4'' NumericType_Half 4 2 4 1"
| "baseTypeDescriptions HLSLBaseType_Bool =
     BaseTypeDescription_of ''bool'' NumericType_Bool 1 0 1 4"
| "baseTypeDescriptions HLSLBaseType_Int =
     BaseTypeDescription_of ''int'' NumericType_Int 1 0 1 3"
| "baseTypeDescriptions HLSLBaseType_Int2 =
     BaseTypeDescription_of ''int2'' NumericType_Int 2 1 1 3"
| "baseTypeDescriptions HLSLBaseType_Int3 =
     BaseTypeDescription_of ''int3'' NumericType_Int 3 1 1 3"
| "baseTypeDescriptions HLSLBaseType_Int4 =
     BaseTypeDescription_of ''int4'' NumericType_Int 4 1 1 3"
| "baseTypeDescriptions HLSLBaseType_Uint =
     BaseTypeDescription_of ''uint'' NumericType_Uint 1 0 1 2"
| "baseTypeDescriptions HLSLBaseType_Uint2 =
     BaseTypeDescription_of ''uint2'' NumericType_Uint 2 1 1 2"
| "baseTypeDescriptions HLSLBaseType_Uint3 =
     BaseTypeDescription_of ''uint3'' NumericType_Uint 3 1 1 2"
| "baseTypeDescriptions HLSLBaseType_Uint4 =
     BaseTypeDescription_of ''uint4'' NumericType_Uint 4 1 1 2"
| "baseTypeDescriptions HLSLBaseType_Texture =
     BaseTypeDescription_of ''texture'' NumericType_NaN 1 0 0 (-1)"
| "baseTypeDescriptions HLSLBaseType_Sampler2D =
     BaseTypeDescription_of ''sampler2D'' NumericType_NaN 1 0 0 (-1)"
| "baseTypeDescriptions HLSLBaseType_SamplerCube =
     BaseTypeDescription_of ''samplerCUBE'' NumericType_NaN 1 0 0 (-1)"
| "baseTypeDescriptions HLSLBaseType_UserDefined =
     BaseTypeDescription_of ''user defined'' NumericType_NaN 1 0 0 (-1)"

text \<open>
  \<open>srcType.arraySize != dstType.arraySize\<close> compares two pointers: two types have the same
  array size when both have none or both point to the same node.
\<close>

definition samePointer :: "HLSLExpression option \<Rightarrow> HLSLExpression option \<Rightarrow> bool" where
  "samePointer p q =
     (map_option (\<lambda>e. addr (HLSLExpression.node e)) p =
      map_option (\<lambda>e. addr (HLSLExpression.node e)) q)"

text \<open>
  \<open>GetTypeCastRank\<close>. The rank is a C \<open>int\<close> that stays within a few bits, so \<open>int\<close> with
  the bit operations stands for it. \<open>strcmp\<close> on the names of two user-defined types reads
  both pointers; a type that \<open>ParseTopLevel\<close> built for a global declaration has none.
\<close>

definition GetTypeCastRank :: "HLSLType \<Rightarrow> HLSLType \<Rightarrow> fault + int" where
  "GetTypeCastRank srcType dstType =
    (if array srcType \<noteq> array dstType \<or> \<not> samePointer (arraySize srcType) (arraySize dstType)
     then Inr (- 1)
     else if baseType srcType = HLSLBaseType_UserDefined
           \<and> baseType dstType = HLSLBaseType_UserDefined
     then (case (HLSLType.typeName srcType, HLSLType.typeName dstType) of
             (Some a, Some b) \<Rightarrow> Inr (if a = b then 0 else - 1)
           | _ \<Rightarrow> Inl NullDereference)
     else if baseType srcType = baseType dstType
     then Inr 0
     else
       let srcDesc = baseTypeDescriptions (baseType srcType);
           dstDesc = baseTypeDescriptions (baseType dstType)
       in if numericType srcDesc = NumericType_NaN \<or> numericType dstDesc = NumericType_NaN
          then Inr (- 1)
          else
            let result = push_bit 1
                  (numberTypeRank ! NumericType_index (numericType srcDesc)
                                  ! NumericType_index (numericType dstDesc))
            in if numDimensions srcDesc = 0 \<and> numDimensions dstDesc > 0
               then Inr (result OR push_bit 0 1)
               else if (numDimensions srcDesc = numDimensions dstDesc
                          \<and> numComponents srcDesc > numComponents dstDesc)
                       \<or> (numDimensions srcDesc > 0 \<and> numDimensions dstDesc = 0)
               then Inr (result OR push_bit 4 1)
               else if numDimensions srcDesc \<noteq> numDimensions dstDesc
                       \<or> numComponents srcDesc \<noteq> numComponents dstDesc
               then Inr (- 1)
               else Inr result)"


section \<open>The implicit-cast rank as the specification words it\<close>





text \<open>
  The remaining nodes of HLSLTree.h. Each struct is a datatype of one constructor with the
  struct's fields as selectors; \<open>HLSLStatement\<close> is the tagged union of the statement
  structs, \<open>nextStatement\<close>/\<open>nextField\<close> chains are lists. A field the parser fills before
  the node can be reached is not an option; \<open>HLSLForStatement::condition\<close> and
  \<open>increment\<close>, \<open>HLSLReturnStatement::expression\<close>, \<open>HLSLBuffer::name\<close> and the
  semantics and register names can stay \<open>NULL\<close>. \<open>HLSLDeclaration::assignment\<close> is the
  chain of expressions an initialiser list links (one expression for a scalar);
  \<open>nextDeclaration\<close> is never written and is left out.
\<close>

datatype HLSLStructField =
  HLSLStructField (node: HLSLNode) (name: string) (type': HLSLType) (semantic: "string option")

datatype HLSLStruct =
  HLSLStruct (node: HLSLNode) (name: string) (field: "HLSLStructField list")

datatype HLSLBufferField =
  HLSLBufferField (node: HLSLNode) (name: string) (type': HLSLType)

datatype HLSLBuffer =
  HLSLBuffer (node: HLSLNode) (name: "string option") (registerName: "string option")
    (field: "HLSLBufferField list")

datatype HLSLDeclaration =
  HLSLDeclaration (node: HLSLNode) (name: string) (type': HLSLType)
    (registerName: "string option") (assignment: "HLSLExpression list")

datatype HLSLStatement =
    HLSLDeclarationStatement HLSLDeclaration
  | HLSLStructStatement HLSLStruct
  | HLSLBufferStatement HLSLBuffer
  | HLSLFunctionStatement HLSLFunction "HLSLStatement list"
  | HLSLExpressionStatement HLSLNode HLSLExpression
  | HLSLReturnStatement HLSLNode "HLSLExpression option"
  | HLSLDiscardStatement HLSLNode
  | HLSLBreakStatement HLSLNode
  | HLSLContinueStatement HLSLNode
  | HLSLIfStatement HLSLNode HLSLExpression "HLSLStatement list" "HLSLStatement list"
  | HLSLForStatement HLSLNode HLSLDeclaration "HLSLExpression option"
      "HLSLExpression option" "HLSLStatement list"

text \<open>
  \<open>HLSLTree\<close>: the string pool (a \<open>std::set\<close> of strings), the statements under the root,
  and the arena. Of the arena only the number of nodes handed out is kept: \<open>AddNode\<close> gives
  every node a fresh address, which is all the program relies on (page sizes and offsets are
  memory layout). The tree's constructor allocates the root, so a new tree has handed out
  one node.
\<close>

record HLSLTree =
  m_stringPool :: "string set"
  m_root :: "HLSLStatement list"
  m_allocated :: nat

definition HLSLTree_new :: HLSLTree where
  "HLSLTree_new = \<lparr> m_stringPool = {}, m_root = [], m_allocated = 1 \<rparr>"

definition AddString :: "string \<Rightarrow> HLSLTree \<Rightarrow> HLSLTree" where
  "AddString s t = t \<lparr> m_stringPool := insert s (m_stringPool t) \<rparr>"

definition GetContainsString :: "HLSLTree \<Rightarrow> string \<Rightarrow> bool" where
  "GetContainsString t s \<longleftrightarrow> s \<in> m_stringPool t"

definition AddNode :: "string option \<Rightarrow> int \<Rightarrow> HLSLTree \<Rightarrow> HLSLNode \<times> HLSLTree" where
  "AddNode file ln t =
     (\<lparr> addr = m_allocated t, fileName = file, line = ln \<rparr>,
      t \<lparr> m_allocated := Suc (m_allocated t) \<rparr>)"

section \<open>Formatting (String.cpp, the C library)\<close>

text \<open>
  \<open>%d\<close> of \<open>printf\<close>: the decimal digits of an \<open>int\<close>, with a minus sign when negative.
  \<open>%s\<close> of a null pointer is what the common C libraries print for it.
\<close>

fun decimalDigits :: "nat \<Rightarrow> string" where
  "decimalDigits n =
     (if n < 10 then [char_of (48 + n)]
      else decimalDigits (n div 10) @ [char_of (48 + n mod 10)])"

declare decimalDigits.simps [simp del]

definition printf_d :: "int \<Rightarrow> string" where
  "printf_d i = (if i < 0 then CHR ''-'' # decimalDigits (nat (- i)) else decimalDigits (nat i))"

definition printf_s :: "string option \<Rightarrow> string" where
  "printf_s s = (case s of None \<Rightarrow> ''(null)'' | Some t \<Rightarrow> t)"

definition String_Equal :: "string \<Rightarrow> string \<Rightarrow> bool" where
  "String_Equal first second \<longleftrightarrow> first = second"

definition toupper :: "char \<Rightarrow> char" where
  "toupper c =
     (if (97::nat) \<le> of_char c \<and> of_char c \<le> (122::nat) then char_of (of_char c - (32::nat))
      else c)"

fun String_EqualNoCase :: "string \<Rightarrow> string \<Rightarrow> bool" where
  "String_EqualNoCase (a # first) (b # second) =
     (if toupper a \<noteq> toupper b then False else String_EqualNoCase first second)"
| "String_EqualNoCase first second = (first = [] \<and> second = [])"

definition isdigit :: "char \<Rightarrow> bool" where
  "isdigit c \<longleftrightarrow> (48::nat) \<le> of_char c \<and> of_char c \<le> (57::nat)"

section \<open>The token source\<close>

text \<open>
  Modelled from the spec: the tokenizer (\<open>HLSLTokenizer\<close>, whose header and
  implementation are not among the sources). By the specification it delivers, on demand,
  a stream of typed tokens (keywords, identifiers, integer and float literals,
  multi-character operators, single-character punctuation and an end-of-stream sentinel)
  with the current file name and line number, a name-for-token formatter and an error
  sink. A token is the \<open>int\<close> the parser compares: a character code for punctuation, and
  for the classes the specification lists an enumerator past the character codes, here
  numbered in the order of the specification's list. The tokenizer's state is the tokens
  not yet consumed, and the diagnostics handed to \<open>Error\<close>, in order.
\<close>

definition HLSLToken_Const :: int where [simp]: "HLSLToken_Const = 256"
definition HLSLToken_Struct :: int where [simp]: "HLSLToken_Struct = 257"
definition HLSLToken_CBuffer :: int where [simp]: "HLSLToken_CBuffer = 258"
definition HLSLToken_TBuffer :: int where [simp]: "HLSLToken_TBuffer = 259"
definition HLSLToken_Register :: int where [simp]: "HLSLToken_Register = 260"
definition HLSLToken_PackOffset :: int where [simp]: "HLSLToken_PackOffset = 261"
definition HLSLToken_If :: int where [simp]: "HLSLToken_If = 262"
definition HLSLToken_Else :: int where [simp]: "HLSLToken_Else = 263"
definition HLSLToken_For :: int where [simp]: "HLSLToken_For = 264"
definition HLSLToken_Return :: int where [simp]: "HLSLToken_Return = 265"
definition HLSLToken_Discard :: int where [simp]: "HLSLToken_Discard = 266"
definition HLSLToken_Break :: int where [simp]: "HLSLToken_Break = 267"
definition HLSLToken_Continue :: int where [simp]: "HLSLToken_Continue = 268"
definition HLSLToken_True :: int where [simp]: "HLSLToken_True = 269"
definition HLSLToken_False :: int where [simp]: "HLSLToken_False = 270"
definition HLSLToken_Void :: int where [simp]: "HLSLToken_Void = 271"
definition HLSLToken_Float :: int where [simp]: "HLSLToken_Float = 272"
definition HLSLToken_Float2 :: int where [simp]: "HLSLToken_Float2 = 273"
definition HLSLToken_Float3 :: int where [simp]: "HLSLToken_Float3 = 274"
definition HLSLToken_Float4 :: int where [simp]: "HLSLToken_Float4 = 275"
definition HLSLToken_Float3x3 :: int where [simp]: "HLSLToken_Float3x3 = 276"
definition HLSLToken_Float4x4 :: int where [simp]: "HLSLToken_Float4x4 = 277"
definition HLSLToken_Half :: int where [simp]: "HLSLToken_Half = 278"
definition HLSLToken_Half2 :: int where [simp]: "HLSLToken_Half2 = 279"
definition HLSLToken_Half3 :: int where [simp]: "HLSLToken_Half3 = 280"
definition HLSLToken_Half4 :: int where [simp]: "HLSLToken_Half4 = 281"
definition HLSLToken_Half3x3 :: int where [simp]: "HLSLToken_Half3x3 = 282"
definition HLSLToken_Half4x4 :: int where [simp]: "HLSLToken_Half4x4 = 283"
definition HLSLToken_Bool :: int where [simp]: "HLSLToken_Bool = 284"
definition HLSLToken_Int :: int where [simp]: "HLSLToken_Int = 285"
definition HLSLToken_Int2 :: int where [simp]: "HLSLToken_Int2 = 286"
definition HLSLToken_Int3 :: int where [simp]: "HLSLToken_Int3 = 287"
definition HLSLToken_Int4 :: int where [simp]: "HLSLToken_Int4 = 288"
definition HLSLToken_Uint :: int where [simp]: "HLSLToken_Uint = 289"
definition HLSLToken_Uint2 :: int where [simp]: "HLSLToken_Uint2 = 290"
definition HLSLToken_Uint3 :: int where [simp]: "HLSLToken_Uint3 = 291"
definition HLSLToken_Uint4 :: int where [simp]: "HLSLToken_Uint4 = 292"
definition HLSLToken_Texture :: int where [simp]: "HLSLToken_Texture = 293"
definition HLSLToken_Sampler2D :: int where [simp]: "HLSLToken_Sampler2D = 294"
definition HLSLToken_SamplerCube :: int where [simp]: "HLSLToken_SamplerCube = 295"
definition HLSLToken_In :: int where [simp]: "HLSLToken_In = 296"
definition HLSLToken_InOut :: int where [simp]: "HLSLToken_InOut = 297"
definition HLSLToken_Uniform :: int where [simp]: "HLSLToken_Uniform = 298"
definition HLSLToken_EqualEqual :: int where [simp]: "HLSLToken_EqualEqual = 299"
definition HLSLToken_NotEqual :: int where [simp]: "HLSLToken_NotEqual = 300"
definition HLSLToken_LessEqual :: int where [simp]: "HLSLToken_LessEqual = 301"
definition HLSLToken_GreaterEqual :: int where [simp]: "HLSLToken_GreaterEqual = 302"
definition HLSLToken_AndAnd :: int where [simp]: "HLSLToken_AndAnd = 303"
definition HLSLToken_BarBar :: int where [simp]: "HLSLToken_BarBar = 304"
definition HLSLToken_PlusPlus :: int where [simp]: "HLSLToken_PlusPlus = 305"
definition HLSLToken_MinusMinus :: int where [simp]: "HLSLToken_MinusMinus = 306"
definition HLSLToken_PlusEqual :: int where [simp]: "HLSLToken_PlusEqual = 307"
definition HLSLToken_MinusEqual :: int where [simp]: "HLSLToken_MinusEqual = 308"
definition HLSLToken_TimesEqual :: int where [simp]: "HLSLToken_TimesEqual = 309"
definition HLSLToken_DivideEqual :: int where [simp]: "HLSLToken_DivideEqual = 310"
definition HLSLToken_FloatLiteral :: int where [simp]: "HLSLToken_FloatLiteral = 311"
definition HLSLToken_IntLiteral :: int where [simp]: "HLSLToken_IntLiteral = 312"
definition HLSLToken_Identifier :: int where [simp]: "HLSLToken_Identifier = 313"
definition HLSLToken_EndOfStream :: int where [simp]: "HLSLToken_EndOfStream = 314"

text \<open>The token of a punctuation character, as the parser writes it (\<open>'{'\<close>).\<close>

definition chr :: "char \<Rightarrow> int" where
  "chr c = of_char c"

text \<open>
  Modelled from the spec: the spellings of the named tokens, in the order of the
  enumerators above, for the name-for-token formatter.
\<close>

definition reservedWord :: "string list" where
  "reservedWord =
    [ ''const'', ''struct'', ''cbuffer'', ''tbuffer'', ''register'', ''packoffset'', ''if'',
      ''else'', ''for'', ''return'', ''discard'', ''break'', ''continue'', ''true'',
      ''false'', ''void'', ''float'', ''float2'', ''float3'', ''float4'', ''float3x3'',
      ''float4x4'', ''half'', ''half2'', ''half3'', ''half4'', ''half3x3'', ''half4x4'',
      ''bool'', ''int'', ''int2'', ''int3'', ''int4'', ''uint'', ''uint2'', ''uint3'',
      ''uint4'', ''texture'', ''sampler2D'', ''samplerCUBE'', ''in'', ''inout'', ''uniform'',
      ''=='', ''!='', ''<='', ''>='', ''&&'', ''||'', ''++'', ''--'', ''+='', ''-='', ''*='',
      ''/='', ''float'', ''int'', ''identifier'', ''<eof>'' ]"

record Token =
  tokenOf :: int
  identifierOf :: string
  fValueOf :: float
  iValueOf :: int
  lineOf :: int

record HLSLTokenizer =
  m_buffer :: "Token list"
  m_fileName :: string
  m_lineNumber :: int
  m_errors :: "string list"

definition GetToken :: "HLSLTokenizer \<Rightarrow> int" where
  "GetToken t = (case m_buffer t of [] \<Rightarrow> HLSLToken_EndOfStream | x # _ \<Rightarrow> tokenOf x)"

definition Next :: "HLSLTokenizer \<Rightarrow> HLSLTokenizer" where
  "Next t = (case m_buffer t of [] \<Rightarrow> t | _ # xs \<Rightarrow> t \<lparr> m_buffer := xs \<rparr>)"

definition GetIdentifier :: "HLSLTokenizer \<Rightarrow> string" where
  "GetIdentifier t = (case m_buffer t of [] \<Rightarrow> [] | x # _ \<Rightarrow> identifierOf x)"

definition GetFloat :: "HLSLTokenizer \<Rightarrow> float" where
  "GetFloat t = (case m_buffer t of [] \<Rightarrow> ''0'' | x # _ \<Rightarrow> fValueOf x)"

definition GetInt :: "HLSLTokenizer \<Rightarrow> int" where
  "GetInt t = (case m_buffer t of [] \<Rightarrow> 0 | x # _ \<Rightarrow> iValueOf x)"

definition Tokenizer_GetLineNumber :: "HLSLTokenizer \<Rightarrow> int" where
  "Tokenizer_GetLineNumber t = (case m_buffer t of [] \<Rightarrow> m_lineNumber t | x # _ \<Rightarrow> lineOf x)"

definition Tokenizer_Error :: "string \<Rightarrow> HLSLTokenizer \<Rightarrow> HLSLTokenizer" where
  "Tokenizer_Error message t = t \<lparr> m_errors := m_errors t @ [message] \<rparr>"

text \<open>\<open>GetTokenName(token, buffer)\<close>: the name of a token class.\<close>

definition GetTokenNameOf :: "int \<Rightarrow> string" where
  "GetTokenNameOf tok =
     (if tok < 256 then [char_of tok]
      else if nat (tok - 256) < length reservedWord then reservedWord ! nat (tok - 256)
      else ''?'')"

text \<open>\<open>GetTokenName(buffer)\<close>: the name of the current token.\<close>

definition GetTokenName :: "HLSLTokenizer \<Rightarrow> string" where
  "GetTokenName t =
     (if GetToken t = HLSLToken_Identifier then GetIdentifier t
      else if GetToken t = HLSLToken_FloatLiteral then GetFloat t
      else if GetToken t = HLSLToken_IntLiteral then printf_d (GetInt t)
      else GetTokenNameOf (GetToken t))"

section \<open>The parser's state and its token primitives (HLSLParser.cpp)\<close>

text \<open>
  A \<open>Variable\<close> of the scope stack; the name is \<open>NULL\<close> in the sentinel that
  \<open>BeginScope\<close> pushes.
\<close>

record Variable =
  varName :: "string option"
  varType :: HLSLType

text \<open>
  \<open>HLSLParser\<close>. \<open>m_tree\<close> is the tree the parser fills (a pointer in the source; the
  state holds the tree itself). \<open>m_userTypes\<close> and \<open>m_functions\<close> hold pointers to nodes:
  the state holds the nodes, and \<open>ParseTopLevel\<close> below rewrites the entry of a struct
  as its fields arrive, which is what the pointer would show.
\<close>

record HLSLParser =
  m_tokenizer :: HLSLTokenizer
  m_userTypes :: "HLSLStruct list"
  m_variables :: "Variable list"
  m_functions :: "HLSLFunction list"
  m_numGlobals :: int
  m_tree :: HLSLTree

text \<open>
  A parse function of the source returns \<open>bool\<close> and writes its results through reference
  parameters. Here it returns the flag, the reference parameters' values on return, and the
  parser's state; or a fault.
\<close>

definition andThen :: "fault + 'a \<Rightarrow> ('a \<Rightarrow> fault + 'b) \<Rightarrow> fault + 'b" where
  "andThen m k = (case m of Inl f \<Rightarrow> Inl f | Inr x \<Rightarrow> k x)"

definition Error :: "string \<Rightarrow> HLSLParser \<Rightarrow> HLSLParser" where
  "Error message p = p \<lparr> m_tokenizer := Tokenizer_Error message (m_tokenizer p) \<rparr>"

definition Accept :: "int \<Rightarrow> HLSLParser \<Rightarrow> bool \<times> HLSLParser" where
  "Accept tok p =
     (if GetToken (m_tokenizer p) = tok
      then (True, p \<lparr> m_tokenizer := Next (m_tokenizer p) \<rparr>)
      else (False, p))"

text \<open>\<open>Accept(const char*)\<close>: a word that is a token only in some contexts.\<close>

definition AcceptWord :: "string \<Rightarrow> HLSLParser \<Rightarrow> bool \<times> HLSLParser" where
  "AcceptWord word p =
     (if GetToken (m_tokenizer p) = HLSLToken_Identifier
         \<and> String_Equal word (GetIdentifier (m_tokenizer p))
      then (True, p \<lparr> m_tokenizer := Next (m_tokenizer p) \<rparr>)
      else (False, p))"

definition Expect :: "int \<Rightarrow> HLSLParser \<Rightarrow> bool \<times> HLSLParser" where
  "Expect tok p =
     (case Accept tok p of
        (True, p1) \<Rightarrow> (True, p1)
      | (False, p1) \<Rightarrow>
          (False, Error (''Syntax error: expected '' @ [CHR 0x27] @ GetTokenNameOf tok
                          @ [CHR 0x27] @ '' near '' @ [CHR 0x27]
                          @ GetTokenName (m_tokenizer p1) @ [CHR 0x27]) p1))"

text \<open>
  \<open>AcceptIdentifier\<close>: the identifier is interned in the tree's string pool. The second
  component is what the reference parameter holds afterwards when it was \<open>NULL\<close> before.
\<close>

definition AcceptIdentifier :: "HLSLParser \<Rightarrow> bool \<times> string option \<times> HLSLParser" where
  "AcceptIdentifier p =
     (if GetToken (m_tokenizer p) = HLSLToken_Identifier
      then (True, Some (GetIdentifier (m_tokenizer p)),
            p \<lparr> m_tree := AddString (GetIdentifier (m_tokenizer p)) (m_tree p),
                m_tokenizer := Next (m_tokenizer p) \<rparr>)
      else (False, None, p))"

definition ExpectIdentifier :: "HLSLParser \<Rightarrow> bool \<times> string \<times> HLSLParser" where
  "ExpectIdentifier p =
     (case AcceptIdentifier p of
        (True, Some s, p1) \<Rightarrow> (True, s, p1)
      | (_, _, p1) \<Rightarrow>
          (False, [],
           Error (''Syntax error: expected identifier near '' @ [CHR 0x27]
                    @ GetTokenName (m_tokenizer p1) @ [CHR 0x27]) p1))"

definition AcceptFloat :: "HLSLParser \<Rightarrow> bool \<times> float \<times> HLSLParser" where
  "AcceptFloat p =
     (if GetToken (m_tokenizer p) = HLSLToken_FloatLiteral
      then (True, GetFloat (m_tokenizer p), p \<lparr> m_tokenizer := Next (m_tokenizer p) \<rparr>)
      else (False, ''0'', p))"

definition AcceptInt :: "HLSLParser \<Rightarrow> bool \<times> int \<times> HLSLParser" where
  "AcceptInt p =
     (if GetToken (m_tokenizer p) = HLSLToken_IntLiteral
      then (True, GetInt (m_tokenizer p), p \<lparr> m_tokenizer := Next (m_tokenizer p) \<rparr>)
      else (False, 0, p))"

definition GetLineNumber :: "HLSLParser \<Rightarrow> int" where
  "GetLineNumber p = Tokenizer_GetLineNumber (m_tokenizer p)"

text \<open>\<open>GetFileName\<close> interns the tokenizer's file name in the string pool.\<close>

definition GetFileName :: "HLSLParser \<Rightarrow> string \<times> HLSLParser" where
  "GetFileName p =
     (m_fileName (m_tokenizer p),
      p \<lparr> m_tree := AddString (m_fileName (m_tokenizer p)) (m_tree p) \<rparr>)"

text \<open>\<open>m_tree->AddNode<T>(fileName, line)\<close>.\<close>

definition NewNode :: "string option \<Rightarrow> int \<Rightarrow> HLSLParser \<Rightarrow> HLSLNode \<times> HLSLParser" where
  "NewNode file ln p =
     (case AddNode file ln (m_tree p) of (n, t) \<Rightarrow> (n, p \<lparr> m_tree := t \<rparr>))"

definition CheckForUnexpectedEndOfStream :: "int \<Rightarrow> HLSLParser \<Rightarrow> bool \<times> HLSLParser" where
  "CheckForUnexpectedEndOfStream endToken p =
     (case Accept HLSLToken_EndOfStream p of
        (True, p1) \<Rightarrow>
          (True, Error (''Unexpected end of file while looking for '' @ [CHR 0x27]
                          @ GetTokenNameOf endToken @ [CHR 0x27]) p1)
      | (False, p1) \<Rightarrow> (False, p1))"

subsection \<open>Scopes, variables, user types\<close>

text \<open>
  \<open>FindUserDefinedType\<close> compares interned pointers: a null name equals no struct's.
\<close>

definition FindUserDefinedType :: "string option \<Rightarrow> HLSLParser \<Rightarrow> HLSLStruct option" where
  "FindUserDefinedType nm p =
     (case nm of None \<Rightarrow> None
      | Some s \<Rightarrow> find (\<lambda>st. HLSLStruct.name st = s) (m_userTypes p))"

definition BeginScope :: "HLSLParser \<Rightarrow> HLSLParser" where
  "BeginScope p =
     p \<lparr> m_variables := m_variables p
           @ [\<lparr> varName = None, varType = HLSLType_of HLSLBaseType_Unknown \<rparr>] \<rparr>"

text \<open>
  \<open>EndScope\<close> walks down from the last variable to the nearest sentinel and resizes the
  stack to the sentinel's index; walking below index 0 fails the \<open>ASSERT\<close>.
\<close>

fun EndScope_index :: "Variable list \<Rightarrow> nat option" where
  "EndScope_index [] = None"
| "EndScope_index (v # vs) =
     (case EndScope_index vs of
        Some i \<Rightarrow> Some (Suc i)
      | None \<Rightarrow> (if varName v = None then Some 0 else None))"

definition EndScope :: "HLSLParser \<Rightarrow> fault + HLSLParser" where
  "EndScope p =
     (case EndScope_index (m_variables p) of
        None \<Rightarrow> Inl AssertionFailure
      | Some i \<Rightarrow> Inr (p \<lparr> m_variables := take i (m_variables p) \<rparr>))"

text \<open>\<open>FindVariable\<close>: the type of the innermost variable of that name, and \<open>global\<close>.\<close>

fun FindVariable_from :: "Variable list \<Rightarrow> string \<Rightarrow> (nat \<times> HLSLType) option" where
  "FindVariable_from [] nm = None"
| "FindVariable_from (v # vs) nm =
     (case FindVariable_from vs nm of
        Some (i, t) \<Rightarrow> Some (Suc i, t)
      | None \<Rightarrow> (if varName v = Some nm then Some (0, varType v) else None))"

definition FindVariable :: "string \<Rightarrow> HLSLParser \<Rightarrow> (HLSLType \<times> bool) option" where
  "FindVariable nm p =
     (case FindVariable_from (m_variables p) nm of
        None \<Rightarrow> None
      | Some (i, t) \<Rightarrow> Some (t, int i < m_numGlobals p))"

definition DeclareVariable :: "string \<Rightarrow> HLSLType \<Rightarrow> HLSLParser \<Rightarrow> HLSLParser" where
  "DeclareVariable nm ty p =
     (let p1 = (if int (length (m_variables p)) = m_numGlobals p
                then p \<lparr> m_numGlobals := m_numGlobals p + 1 \<rparr> else p)
      in p1 \<lparr> m_variables := m_variables p1 @ [\<lparr> varName = Some nm, varType = ty \<rparr>] \<rparr>)"

subsection \<open>The intrinsic table\<close>

text \<open>
  The constructors of \<open>Intrinsic\<close>, by number of argument types. The table is static data:
  its nodes are not in the arena and their headers are never read; \<open>staticNode\<close> stands
  for them. An intrinsic's arguments have no name.
\<close>

definition staticNode :: HLSLNode where
  "staticNode = \<lparr> addr = 0, fileName = None, line = 0 \<rparr>"

definition intrinsicArgument :: "HLSLBaseType \<Rightarrow> HLSLArgument" where
  "intrinsicArgument b =
     HLSLArgument staticNode None HLSLArgumentModifier_None
       (HLSLType b None False None True) None"

definition Intrinsic0 :: "string \<Rightarrow> HLSLBaseType \<Rightarrow> HLSLFunction" where
  "Intrinsic0 nm ret = HLSLFunction staticNode nm (HLSLType_of ret) None 0 []"

definition Intrinsic1 :: "string \<Rightarrow> HLSLBaseType \<Rightarrow> HLSLBaseType \<Rightarrow> HLSLFunction" where
  "Intrinsic1 nm ret arg1 =
     HLSLFunction staticNode nm (HLSLType_of ret) None 1 [intrinsicArgument arg1]"

definition Intrinsic2 ::
  "string \<Rightarrow> HLSLBaseType \<Rightarrow> HLSLBaseType \<Rightarrow> HLSLBaseType \<Rightarrow> HLSLFunction" where
  "Intrinsic2 nm ret arg1 arg2 =
     HLSLFunction staticNode nm (HLSLType_of ret) None 2
       [intrinsicArgument arg1, intrinsicArgument arg2]"

definition Intrinsic3 ::
  "string \<Rightarrow> HLSLBaseType \<Rightarrow> HLSLBaseType \<Rightarrow> HLSLBaseType \<Rightarrow> HLSLBaseType \<Rightarrow> HLSLFunction"
  where
  "Intrinsic3 nm ret arg1 arg2 arg3 =
     HLSLFunction staticNode nm (HLSLType_of ret) None 3
       [intrinsicArgument arg1, intrinsicArgument arg2, intrinsicArgument arg3]"

definition INTRINSIC_FLOAT1_FUNCTION :: "string \<Rightarrow> HLSLFunction list" where
  "INTRINSIC_FLOAT1_FUNCTION nm =
    [ Intrinsic1 nm HLSLBaseType_Float HLSLBaseType_Float,
      Intrinsic1 nm HLSLBaseType_Float2 HLSLBaseType_Float2,
      Intrinsic1 nm HLSLBaseType_Float3 HLSLBaseType_Float3,
      Intrinsic1 nm HLSLBaseType_Float4 HLSLBaseType_Float4,
      Intrinsic1 nm HLSLBaseType_Half HLSLBaseType_Half,
      Intrinsic1 nm HLSLBaseType_Half2 HLSLBaseType_Half2,
      Intrinsic1 nm HLSLBaseType_Half3 HLSLBaseType_Half3,
      Intrinsic1 nm HLSLBaseType_Half4 HLSLBaseType_Half4 ]"

definition INTRINSIC_FLOAT2_FUNCTION :: "string \<Rightarrow> HLSLFunction list" where
  "INTRINSIC_FLOAT2_FUNCTION nm =
    [ Intrinsic2 nm HLSLBaseType_Float HLSLBaseType_Float HLSLBaseType_Float,
      Intrinsic2 nm HLSLBaseType_Float2 HLSLBaseType_Float2 HLSLBaseType_Float2,
      Intrinsic2 nm HLSLBaseType_Float3 HLSLBaseType_Float3 HLSLBaseType_Float3,
      Intrinsic2 nm HLSLBaseType_Float4 HLSLBaseType_Float4 HLSLBaseType_Float4,
      Intrinsic2 nm HLSLBaseType_Half HLSLBaseType_Half HLSLBaseType_Half,
      Intrinsic2 nm HLSLBaseType_Half2 HLSLBaseType_Half2 HLSLBaseType_Half2,
      Intrinsic2 nm HLSLBaseType_Half3 HLSLBaseType_Half3 HLSLBaseType_Half3,
      Intrinsic2 nm HLSLBaseType_Half4 HLSLBaseType_Half4 HLSLBaseType_Half4 ]"

definition INTRINSIC_FLOAT3_FUNCTION :: "string \<Rightarrow> HLSLFunction list" where
  "INTRINSIC_FLOAT3_FUNCTION nm =
    [ Intrinsic3 nm HLSLBaseType_Float HLSLBaseType_Float HLSLBaseType_Float
        HLSLBaseType_Float,
      Intrinsic3 nm HLSLBaseType_Float2 HLSLBaseType_Float2 HLSLBaseType_Float
        HLSLBaseType_Float2,
      Intrinsic3 nm HLSLBaseType_Float3 HLSLBaseType_Float3 HLSLBaseType_Float
        HLSLBaseType_Float3,
      Intrinsic3 nm HLSLBaseType_Float4 HLSLBaseType_Float4 HLSLBaseType_Float
        HLSLBaseType_Float4,
      Intrinsic3 nm HLSLBaseType_Half HLSLBaseType_Half HLSLBaseType_Half HLSLBaseType_Half,
      Intrinsic3 nm HLSLBaseType_Half2 HLSLBaseType_Half2 HLSLBaseType_Half2
        HLSLBaseType_Half2,
      Intrinsic3 nm HLSLBaseType_Half3 HLSLBaseType_Half3 HLSLBaseType_Half3
        HLSLBaseType_Half3,
      Intrinsic3 nm HLSLBaseType_Half4 HLSLBaseType_Half4 HLSLBaseType_Half4
        HLSLBaseType_Half4 ]"

definition intrinsic :: "HLSLFunction list" where
  "intrinsic =
     INTRINSIC_FLOAT1_FUNCTION ''abs''
   @ INTRINSIC_FLOAT2_FUNCTION ''atan2''
   @ INTRINSIC_FLOAT3_FUNCTION ''clamp''
   @ INTRINSIC_FLOAT1_FUNCTION ''cos''
   @ INTRINSIC_FLOAT3_FUNCTION ''lerp''
   @ INTRINSIC_FLOAT3_FUNCTION ''smoothstep''
   @ INTRINSIC_FLOAT1_FUNCTION ''floor''
   @ INTRINSIC_FLOAT1_FUNCTION ''ceil''
   @ INTRINSIC_FLOAT1_FUNCTION ''frac''
   @ INTRINSIC_FLOAT2_FUNCTION ''fmod''
   @ [ Intrinsic1 ''clip'' HLSLBaseType_Void HLSLBaseType_Float,
       Intrinsic1 ''clip'' HLSLBaseType_Void HLSLBaseType_Float2,
       Intrinsic1 ''clip'' HLSLBaseType_Void HLSLBaseType_Float3,
       Intrinsic1 ''clip'' HLSLBaseType_Void HLSLBaseType_Float4,
       Intrinsic1 ''clip'' HLSLBaseType_Void HLSLBaseType_Half,
       Intrinsic1 ''clip'' HLSLBaseType_Void HLSLBaseType_Half2,
       Intrinsic1 ''clip'' HLSLBaseType_Void HLSLBaseType_Half3,
       Intrinsic1 ''clip'' HLSLBaseType_Void HLSLBaseType_Half4,
       Intrinsic2 ''dot'' HLSLBaseType_Float HLSLBaseType_Float HLSLBaseType_Float,
       Intrinsic2 ''dot'' HLSLBaseType_Float HLSLBaseType_Float2 HLSLBaseType_Float2,
       Intrinsic2 ''dot'' HLSLBaseType_Float HLSLBaseType_Float3 HLSLBaseType_Float3,
       Intrinsic2 ''dot'' HLSLBaseType_Float HLSLBaseType_Float4 HLSLBaseType_Float4,
       Intrinsic2 ''dot'' HLSLBaseType_Half HLSLBaseType_Half HLSLBaseType_Half,
       Intrinsic2 ''dot'' HLSLBaseType_Half HLSLBaseType_Half2 HLSLBaseType_Half2,
       Intrinsic2 ''dot'' HLSLBaseType_Half HLSLBaseType_Half3 HLSLBaseType_Half3,
       Intrinsic2 ''dot'' HLSLBaseType_Half HLSLBaseType_Half4 HLSLBaseType_Half4,
       Intrinsic2 ''cross'' HLSLBaseType_Float3 HLSLBaseType_Float3 HLSLBaseType_Float3,
       Intrinsic1 ''length'' HLSLBaseType_Float HLSLBaseType_Float,
       Intrinsic1 ''length'' HLSLBaseType_Float HLSLBaseType_Float2,
       Intrinsic1 ''length'' HLSLBaseType_Float HLSLBaseType_Float3,
       Intrinsic1 ''length'' HLSLBaseType_Float HLSLBaseType_Float4,
       Intrinsic1 ''length'' HLSLBaseType_Half HLSLBaseType_Half,
       Intrinsic1 ''length'' HLSLBaseType_Half HLSLBaseType_Half2,
       Intrinsic1 ''length'' HLSLBaseType_Half HLSLBaseType_Half3,
       Intrinsic1 ''length'' HLSLBaseType_Half HLSLBaseType_Half4 ]
   @ INTRINSIC_FLOAT2_FUNCTION ''max''
   @ INTRINSIC_FLOAT2_FUNCTION ''min''
   @ INTRINSIC_FLOAT2_FUNCTION ''mul''
   @ [ Intrinsic2 ''mul'' HLSLBaseType_Float3 HLSLBaseType_Float3 HLSLBaseType_Float3x3,
       Intrinsic2 ''mul'' HLSLBaseType_Float4 HLSLBaseType_Float4 HLSLBaseType_Float4x4,
       Intrinsic1 ''transpose'' HLSLBaseType_Float3x3 HLSLBaseType_Float3x3,
       Intrinsic1 ''transpose'' HLSLBaseType_Float4x4 HLSLBaseType_Float4x4 ]
   @ INTRINSIC_FLOAT1_FUNCTION ''normalize''
   @ INTRINSIC_FLOAT2_FUNCTION ''pow''
   @ INTRINSIC_FLOAT1_FUNCTION ''saturate''
   @ INTRINSIC_FLOAT1_FUNCTION ''sin''
   @ INTRINSIC_FLOAT1_FUNCTION ''sqrt''
   @ INTRINSIC_FLOAT1_FUNCTION ''rsqrt''
   @ INTRINSIC_FLOAT1_FUNCTION ''rcp''
   @ INTRINSIC_FLOAT1_FUNCTION ''ddx''
   @ INTRINSIC_FLOAT1_FUNCTION ''ddy''
   @ INTRINSIC_FLOAT1_FUNCTION ''sign''
   @ INTRINSIC_FLOAT2_FUNCTION ''step''
   @ INTRINSIC_FLOAT2_FUNCTION ''reflect''
   @ [ Intrinsic2 ''tex2D'' HLSLBaseType_Float4 HLSLBaseType_Sampler2D HLSLBaseType_Float2,
       Intrinsic2 ''tex2Dproj'' HLSLBaseType_Float4 HLSLBaseType_Sampler2D HLSLBaseType_Float4,
       Intrinsic2 ''tex2Dlod'' HLSLBaseType_Float4 HLSLBaseType_Sampler2D HLSLBaseType_Float4,
       Intrinsic2 ''texCUBE'' HLSLBaseType_Float4 HLSLBaseType_SamplerCube HLSLBaseType_Float3,
       Intrinsic2 ''texCUBEbias'' HLSLBaseType_Float4 HLSLBaseType_SamplerCube
         HLSLBaseType_Float4,
       Intrinsic3 ''sincos'' HLSLBaseType_Void HLSLBaseType_Float HLSLBaseType_Float
         HLSLBaseType_Float,
       Intrinsic3 ''sincos'' HLSLBaseType_Void HLSLBaseType_Float2 HLSLBaseType_Float
         HLSLBaseType_Float2,
       Intrinsic3 ''sincos'' HLSLBaseType_Void HLSLBaseType_Float3 HLSLBaseType_Float
         HLSLBaseType_Float3,
       Intrinsic3 ''sincos'' HLSLBaseType_Void HLSLBaseType_Float4 HLSLBaseType_Float
         HLSLBaseType_Float4,
       Intrinsic3 ''sincos'' HLSLBaseType_Void HLSLBaseType_Half HLSLBaseType_Half
         HLSLBaseType_Half,
       Intrinsic3 ''sincos'' HLSLBaseType_Void HLSLBaseType_Half2 HLSLBaseType_Half2
         HLSLBaseType_Half2,
       Intrinsic3 ''sincos'' HLSLBaseType_Void HLSLBaseType_Half3 HLSLBaseType_Half3
         HLSLBaseType_Half3,
       Intrinsic3 ''sincos'' HLSLBaseType_Void HLSLBaseType_Half4 HLSLBaseType_Half4
         HLSLBaseType_Half4 ]"

definition GetIsFunction :: "string \<Rightarrow> HLSLParser \<Rightarrow> bool" where
  "GetIsFunction nm p \<longleftrightarrow>
     (\<exists>f \<in> set (m_functions p). HLSLFunction.name f = nm)
     \<or> (\<exists>f \<in> set intrinsic. String_Equal nm (HLSLFunction.name f))"

subsection \<open>Overload resolution\<close>

text \<open>
  \<open>GetFunctionCallCastRanks\<close>: the rank of each argument of the call against the
  function's parameter, or \<open>None\<close> for \<open>false\<close> (not viable). The loop walks
  \<open>call->numArguments\<close> steps down both chains; a chain that ends early is a null pointer
  read.
\<close>

fun GetFunctionCallCastRanks_loop ::
  "nat \<Rightarrow> HLSLExpression list \<Rightarrow> HLSLArgument list \<Rightarrow> fault + int list option" where
  "GetFunctionCallCastRanks_loop 0 es as = Inr (Some [])"
| "GetFunctionCallCastRanks_loop (Suc k) (e # es) (a # as) =
     andThen (GetTypeCastRank (expressionType e) (HLSLArgument.type' a)) (\<lambda>rank.
       if rank = - 1 then Inr None
       else andThen (GetFunctionCallCastRanks_loop k es as) (\<lambda>rest.
              Inr (map_option (\<lambda>rs. rank # rs) rest)))"
| "GetFunctionCallCastRanks_loop (Suc k) es as = Inl NullDereference"

definition GetFunctionCallCastRanks ::
  "HLSLFunctionCall \<Rightarrow> HLSLFunction option \<Rightarrow> fault + int list option" where
  "GetFunctionCallCastRanks call fn =
     (case fn of
        None \<Rightarrow> Inr None
      | Some f \<Rightarrow>
          if HLSLFunction.numArguments f \<noteq> HLSLFunctionCall.numArguments call
          then Inr None
          else GetFunctionCallCastRanks_loop (nat (HLSLFunctionCall.numArguments call))
                 (HLSLFunctionCall.argument call) (HLSLFunction.argument f))"

datatype CompareFunctionsResult = FunctionsEqual | Function1Better | Function2Better

text \<open>The comparison loop of \<open>CompareFunctions\<close> over the two sorted rank arrays.\<close>

fun CompareFunctions_loop :: "int list \<Rightarrow> int list \<Rightarrow> CompareFunctionsResult" where
  "CompareFunctions_loop (r1 # ranks1) (r2 # ranks2) =
     (if r1 < r2 then Function1Better
      else if r2 < r1 then Function2Better
      else CompareFunctions_loop ranks1 ranks2)"
| "CompareFunctions_loop ranks1 ranks2 = FunctionsEqual"

text \<open>\<open>std::sort\<close> with \<open>CompareRanks\<close> (\<open>rank1 > rank2\<close>): descending order.\<close>

definition sortRanks :: "int list \<Rightarrow> int list" where
  "sortRanks ranks = rev (sort ranks)"

definition CompareFunctions ::
  "HLSLFunctionCall \<Rightarrow> HLSLFunction option \<Rightarrow> HLSLFunction option
     \<Rightarrow> fault + CompareFunctionsResult" where
  "CompareFunctions call function1 function2 =
     andThen (GetFunctionCallCastRanks call function1) (\<lambda>function1Ranks.
     andThen (GetFunctionCallCastRanks call function2) (\<lambda>function2Ranks.
       case (function1Ranks, function2Ranks) of
         (Some ranks1, Some ranks2) \<Rightarrow>
           Inr (CompareFunctions_loop (sortRanks ranks1) (sortRanks ranks2))
       | (Some ranks1, None) \<Rightarrow> Inr Function1Better
       | (None, Some ranks2) \<Rightarrow> Inr Function2Better
       | (None, None) \<Rightarrow> Inr FunctionsEqual))"

text \<open>
  The two loops of \<open>MatchFunctionCall\<close> have the same body; they differ in the list they
  walk. The loop state is \<open>matchedFunction\<close>, \<open>numMatchedOverloads\<close> and \<open>nameMatches\<close>.
  (User functions are compared by interned pointer, intrinsics with \<open>String_Equal\<close>: both
  are equality of the names.)
\<close>

fun MatchFunctionCall_loop ::
  "HLSLFunctionCall \<Rightarrow> string \<Rightarrow> HLSLFunction list
     \<Rightarrow> HLSLFunction option \<times> int \<times> bool
     \<Rightarrow> fault + (HLSLFunction option \<times> int \<times> bool)" where
  "MatchFunctionCall_loop call nm [] s = Inr s"
| "MatchFunctionCall_loop call nm (f # fs) (matchedFunction, numMatchedOverloads, nameMatches) =
     (if HLSLFunction.name f = nm
      then andThen (CompareFunctions call (Some f) matchedFunction) (\<lambda>result.
             MatchFunctionCall_loop call nm fs
               (if result = Function1Better then (Some f, 1, True)
                else if result = FunctionsEqual
                then (matchedFunction, numMatchedOverloads + 1, True)
                else (matchedFunction, numMatchedOverloads, True)))
      else MatchFunctionCall_loop call nm fs
             (matchedFunction, numMatchedOverloads, nameMatches))"

definition MatchFunctionCall ::
  "HLSLFunctionCall \<Rightarrow> string \<Rightarrow> HLSLParser \<Rightarrow> fault + (HLSLFunction option \<times> HLSLParser)"
  where
  "MatchFunctionCall functionCall nm p =
     andThen (MatchFunctionCall_loop functionCall nm (m_functions p) (None, 0, False))
       (\<lambda>s1.
     andThen (MatchFunctionCall_loop functionCall nm intrinsic s1)
       (\<lambda>(matchedFunction, numMatchedOverloads, nameMatches).
       if matchedFunction \<noteq> None \<and> numMatchedOverloads > 1
       then Inr (None,
                 Error ([CHR 0x27] @ nm @ [CHR 0x27] @ '' '' @ printf_d numMatchedOverloads
                          @ '' overloads have similar conversions'') p)
       else if matchedFunction = None
       then (if nameMatches
             then Inr (None,
                       Error ([CHR 0x27] @ nm @ [CHR 0x27]
                                @ '' no overloaded function matched all of the arguments'') p)
             else Inr (None,
                       Error (''Undeclared identifier '' @ [CHR 0x27] @ nm @ [CHR 0x27]) p))
       else Inr (matchedFunction, p)))"

text \<open>The constructors: a tokenizer over a token stream, a parser with empty tables.\<close>

definition HLSLTokenizer_new :: "string \<Rightarrow> Token list \<Rightarrow> HLSLTokenizer" where
  "HLSLTokenizer_new file buffer =
     \<lparr> m_buffer = buffer, m_fileName = file, m_lineNumber = 1, m_errors = [] \<rparr>"

definition HLSLParser_new :: "string \<Rightarrow> Token list \<Rightarrow> HLSLParser" where
  "HLSLParser_new file buffer =
     \<lparr> m_tokenizer = HLSLTokenizer_new file buffer, m_userTypes = [], m_variables = [],
       m_functions = [], m_numGlobals = 0, m_tree = HLSLTree_new \<rparr>"

subsection \<open>Operators and types\<close>

text \<open>The enumerators' values, for the tables indexed by them.\<close>

fun HLSLBinaryOp_index :: "HLSLBinaryOp \<Rightarrow> nat" where
  "HLSLBinaryOp_index HLSLBinaryOp_And = 0"
| "HLSLBinaryOp_index HLSLBinaryOp_Or = 1"
| "HLSLBinaryOp_index HLSLBinaryOp_Add = 2"
| "HLSLBinaryOp_index HLSLBinaryOp_Sub = 3"
| "HLSLBinaryOp_index HLSLBinaryOp_Mul = 4"
| "HLSLBinaryOp_index HLSLBinaryOp_Div = 5"
| "HLSLBinaryOp_index HLSLBinaryOp_Less = 6"
| "HLSLBinaryOp_index HLSLBinaryOp_Greater = 7"
| "HLSLBinaryOp_index HLSLBinaryOp_LessEqual = 8"
| "HLSLBinaryOp_index HLSLBinaryOp_GreaterEqual = 9"
| "HLSLBinaryOp_index HLSLBinaryOp_Equal = 10"
| "HLSLBinaryOp_index HLSLBinaryOp_NotEqual = 11"
| "HLSLBinaryOp_index HLSLBinaryOp_Assign = 12"
| "HLSLBinaryOp_index HLSLBinaryOp_AddAssign = 13"
| "HLSLBinaryOp_index HLSLBinaryOp_SubAssign = 14"
| "HLSLBinaryOp_index HLSLBinaryOp_MulAssign = 15"
| "HLSLBinaryOp_index HLSLBinaryOp_DivAssign = 16"

fun HLSLBaseType_index :: "HLSLBaseType \<Rightarrow> int" where
  "HLSLBaseType_index HLSLBaseType_Unknown = 0"
| "HLSLBaseType_index HLSLBaseType_Void = 1"
| "HLSLBaseType_index HLSLBaseType_Float = 2"
| "HLSLBaseType_index HLSLBaseType_Float2 = 3"
| "HLSLBaseType_index HLSLBaseType_Float3 = 4"
| "HLSLBaseType_index HLSLBaseType_Float4 = 5"
| "HLSLBaseType_index HLSLBaseType_Float3x3 = 6"
| "HLSLBaseType_index HLSLBaseType_Float4x4 = 7"
| "HLSLBaseType_index HLSLBaseType_Half = 8"
| "HLSLBaseType_index HLSLBaseType_Half2 = 9"
| "HLSLBaseType_index HLSLBaseType_Half3 = 10"
| "HLSLBaseType_index HLSLBaseType_Half4 = 11"
| "HLSLBaseType_index HLSLBaseType_Half3x3 = 12"
| "HLSLBaseType_index HLSLBaseType_Half4x4 = 13"
| "HLSLBaseType_index HLSLBaseType_Bool = 14"
| "HLSLBaseType_index HLSLBaseType_Int = 15"
| "HLSLBaseType_index HLSLBaseType_Int2 = 16"
| "HLSLBaseType_index HLSLBaseType_Int3 = 17"
| "HLSLBaseType_index HLSLBaseType_Int4 = 18"
| "HLSLBaseType_index HLSLBaseType_Uint = 19"
| "HLSLBaseType_index HLSLBaseType_Uint2 = 20"
| "HLSLBaseType_index HLSLBaseType_Uint3 = 21"
| "HLSLBaseType_index HLSLBaseType_Uint4 = 22"
| "HLSLBaseType_index HLSLBaseType_Texture = 23"
| "HLSLBaseType_index HLSLBaseType_Sampler2D = 24"
| "HLSLBaseType_index HLSLBaseType_SamplerCube = 25"
| "HLSLBaseType_index HLSLBaseType_UserDefined = 26"

definition HLSLBaseType_FirstNumeric :: int where
  "HLSLBaseType_FirstNumeric = HLSLBaseType_index HLSLBaseType_Float"

definition HLSLBaseType_LastNumeric :: int where
  "HLSLBaseType_LastNumeric = HLSLBaseType_index HLSLBaseType_Uint4"

text \<open>\<open>_binaryOpPriority\<close>, indexed by \<open>HLSLBinaryOp\<close>; it has twelve entries.\<close>

definition binaryOpPriority :: "int list" where
  "binaryOpPriority = [2, 1, 5, 5, 6, 6, 4, 4, 4, 4, 3, 3]"

definition conditionalOpPriority :: int where
  "conditionalOpPriority = 1"

definition binaryOpTypeLookup :: "HLSLBaseType list list" where
  "binaryOpTypeLookup =
    [ [ HLSLBaseType_Float, HLSLBaseType_Float2, HLSLBaseType_Float3, HLSLBaseType_Float4,
        HLSLBaseType_Float3x3, HLSLBaseType_Float4x4, HLSLBaseType_Float, HLSLBaseType_Float2,
        HLSLBaseType_Float3, HLSLBaseType_Float4, HLSLBaseType_Float3x3, HLSLBaseType_Float4x4,
        HLSLBaseType_Float, HLSLBaseType_Float, HLSLBaseType_Float2, HLSLBaseType_Float3,
        HLSLBaseType_Float4, HLSLBaseType_Float, HLSLBaseType_Float2, HLSLBaseType_Float3,
        HLSLBaseType_Float4 ],
      [ HLSLBaseType_Float2, HLSLBaseType_Float2, HLSLBaseType_Float2, HLSLBaseType_Float2,
        HLSLBaseType_Unknown, HLSLBaseType_Unknown, HLSLBaseType_Float2, HLSLBaseType_Float2,
        HLSLBaseType_Float2, HLSLBaseType_Float2, HLSLBaseType_Unknown, HLSLBaseType_Unknown,
        HLSLBaseType_Float2, HLSLBaseType_Float2, HLSLBaseType_Float2, HLSLBaseType_Float2,
        HLSLBaseType_Float2, HLSLBaseType_Float2, HLSLBaseType_Float2, HLSLBaseType_Float2,
        HLSLBaseType_Float2 ],
      [ HLSLBaseType_Float3, HLSLBaseType_Float2, HLSLBaseType_Float3, HLSLBaseType_Float3,
        HLSLBaseType_Unknown, HLSLBaseType_Unknown, HLSLBaseType_Float3, HLSLBaseType_Float2,
        HLSLBaseType_Float3, HLSLBaseType_Float3, HLSLBaseType_Unknown, HLSLBaseType_Unknown,
        HLSLBaseType_Float3, HLSLBaseType_Float3, HLSLBaseType_Float2, HLSLBaseType_Float3,
        HLSLBaseType_Float3, HLSLBaseType_Float3, HLSLBaseType_Float2, HLSLBaseType_Float3,
        HLSLBaseType_Float3 ],
      [ HLSLBaseType_Float4, HLSLBaseType_Float2, HLSLBaseType_Float3, HLSLBaseType_Float4,
        HLSLBaseType_Unknown, HLSLBaseType_Unknown, HLSLBaseType_Float4, HLSLBaseType_Float2,
        HLSLBaseType_Float3, HLSLBaseType_Float4, HLSLBaseType_Unknown, HLSLBaseType_Unknown,
        HLSLBaseType_Float4, HLSLBaseType_Float4, HLSLBaseType_Float2, HLSLBaseType_Float3,
        HLSLBaseType_Float4, HLSLBaseType_Float4, HLSLBaseType_Float2, HLSLBaseType_Float3,
        HLSLBaseType_Float4 ],
      [ HLSLBaseType_Float3x3, HLSLBaseType_Unknown, HLSLBaseType_Unknown, HLSLBaseType_Unknown,
        HLSLBaseType_Float3x3, HLSLBaseType_Float3x3, HLSLBaseType_Float3x3, HLSLBaseType_Unknown,
        HLSLBaseType_Unknown, HLSLBaseType_Unknown, HLSLBaseType_Float3x3, HLSLBaseType_Float3x3,
        HLSLBaseType_Float3x3, HLSLBaseType_Float3x3, HLSLBaseType_Unknown, HLSLBaseType_Unknown,
        HLSLBaseType_Unknown, HLSLBaseType_Float3x3, HLSLBaseType_Unknown, HLSLBaseType_Unknown,
        HLSLBaseType_Unknown ],
      [ HLSLBaseType_Float4x4, HLSLBaseType_Unknown, HLSLBaseType_Unknown, HLSLBaseType_Unknown,
        HLSLBaseType_Float3x3, HLSLBaseType_Float4x4, HLSLBaseType_Float4x4, HLSLBaseType_Unknown,
        HLSLBaseType_Unknown, HLSLBaseType_Unknown, HLSLBaseType_Float3x3, HLSLBaseType_Float4x4,
        HLSLBaseType_Float4x4, HLSLBaseType_Float4x4, HLSLBaseType_Unknown, HLSLBaseType_Unknown,
        HLSLBaseType_Unknown, HLSLBaseType_Float4x4, HLSLBaseType_Unknown, HLSLBaseType_Unknown,
        HLSLBaseType_Unknown ],
      [ HLSLBaseType_Float, HLSLBaseType_Float2, HLSLBaseType_Float3, HLSLBaseType_Float4,
        HLSLBaseType_Float3x3, HLSLBaseType_Float4x4, HLSLBaseType_Half, HLSLBaseType_Half2,
        HLSLBaseType_Half3, HLSLBaseType_Half4, HLSLBaseType_Half3x3, HLSLBaseType_Half4x4,
        HLSLBaseType_Half, HLSLBaseType_Half, HLSLBaseType_Half2, HLSLBaseType_Half3,
        HLSLBaseType_Half4, HLSLBaseType_Half, HLSLBaseType_Half2, HLSLBaseType_Half3,
        HLSLBaseType_Half4 ],
      [ HLSLBaseType_Float2, HLSLBaseType_Float2, HLSLBaseType_Float2, HLSLBaseType_Float2,
        HLSLBaseType_Unknown, HLSLBaseType_Unknown, HLSLBaseType_Half2, HLSLBaseType_Half2,
        HLSLBaseType_Half2, HLSLBaseType_Half2, HLSLBaseType_Unknown, HLSLBaseType_Unknown,
        HLSLBaseType_Half2, HLSLBaseType_Half2, HLSLBaseType_Half2, HLSLBaseType_Half2,
        HLSLBaseType_Half2, HLSLBaseType_Half2, HLSLBaseType_Half2, HLSLBaseType_Half2,
        HLSLBaseType_Half2 ],
      [ HLSLBaseType_Float3, HLSLBaseType_Float2, HLSLBaseType_Float3, HLSLBaseType_Float3,
        HLSLBaseType_Unknown, HLSLBaseType_Unknown, HLSLBaseType_Half3, HLSLBaseType_Half2,
        HLSLBaseType_Half3, HLSLBaseType_Half3, HLSLBaseType_Unknown, HLSLBaseType_Unknown,
        HLSLBaseType_Half3, HLSLBaseType_Half3, HLSLBaseType_Half2, HLSLBaseType_Half3,
        HLSLBaseType_Half3, HLSLBaseType_Half3, HLSLBaseType_Half2, HLSLBaseType_Half3,
        HLSLBaseType_Half3 ],
      [ HLSLBaseType_Float4, HLSLBaseType_Float2, HLSLBaseType_Float3, HLSLBaseType_Float4,
        HLSLBaseType_Unknown, HLSLBaseType_Unknown, HLSLBaseType_Half4, HLSLBaseType_Half2,
        HLSLBaseType_Half3, HLSLBaseType_Half4, HLSLBaseType_Unknown, HLSLBaseType_Unknown,
        HLSLBaseType_Half4, HLSLBaseType_Half4, HLSLBaseType_Half2, HLSLBaseType_Half3,
        HLSLBaseType_Half4, HLSLBaseType_Half4, HLSLBaseType_Half2, HLSLBaseType_Half3,
        HLSLBaseType_Half4 ],
      [ HLSLBaseType_Float3x3, HLSLBaseType_Unknown, HLSLBaseType_Unknown, HLSLBaseType_Unknown,
        HLSLBaseType_Float3x3, HLSLBaseType_Float3x3, HLSLBaseType_Half3x3, HLSLBaseType_Unknown,
        HLSLBaseType_Unknown, HLSLBaseType_Unknown, HLSLBaseType_Half3x3, HLSLBaseType_Half3x3,
        HLSLBaseType_Half3x3, HLSLBaseType_Half3x3, HLSLBaseType_Unknown, HLSLBaseType_Unknown,
        HLSLBaseType_Unknown, HLSLBaseType_Half3x3, HLSLBaseType_Unknown, HLSLBaseType_Unknown,
        HLSLBaseType_Unknown ],
      [ HLSLBaseType_Float4x4, HLSLBaseType_Unknown, HLSLBaseType_Unknown, HLSLBaseType_Unknown,
        HLSLBaseType_Float3x3, HLSLBaseType_Float4x4, HLSLBaseType_Half4x4, HLSLBaseType_Unknown,
        HLSLBaseType_Unknown, HLSLBaseType_Unknown, HLSLBaseType_Half3x3, HLSLBaseType_Half4x4,
        HLSLBaseType_Half4x4, HLSLBaseType_Half4x4, HLSLBaseType_Unknown, HLSLBaseType_Unknown,
        HLSLBaseType_Unknown, HLSLBaseType_Half4x4, HLSLBaseType_Unknown, HLSLBaseType_Unknown,
        HLSLBaseType_Unknown ],
      [ HLSLBaseType_Float, HLSLBaseType_Float2, HLSLBaseType_Float3, HLSLBaseType_Float4,
        HLSLBaseType_Float3x3, HLSLBaseType_Float4x4, HLSLBaseType_Half, HLSLBaseType_Half2,
        HLSLBaseType_Half3, HLSLBaseType_Half4, HLSLBaseType_Half3x3, HLSLBaseType_Half4x4,
        HLSLBaseType_Int, HLSLBaseType_Int, HLSLBaseType_Int2, HLSLBaseType_Int3,
        HLSLBaseType_Int4, HLSLBaseType_Uint, HLSLBaseType_Uint2, HLSLBaseType_Uint3,
        HLSLBaseType_Uint4 ],
      [ HLSLBaseType_Float, HLSLBaseType_Float2, HLSLBaseType_Float3, HLSLBaseType_Float4,
        HLSLBaseType_Float3x3, HLSLBaseType_Float4x4, HLSLBaseType_Half, HLSLBaseType_Half2,
        HLSLBaseType_Half3, HLSLBaseType_Half4, HLSLBaseType_Half3x3, HLSLBaseType_Half4x4,
        HLSLBaseType_Int, HLSLBaseType_Int, HLSLBaseType_Int2, HLSLBaseType_Int3,
        HLSLBaseType_Int4, HLSLBaseType_Uint, HLSLBaseType_Uint2, HLSLBaseType_Uint3,
        HLSLBaseType_Uint4 ],
      [ HLSLBaseType_Float2, HLSLBaseType_Float2, HLSLBaseType_Float2, HLSLBaseType_Float2,
        HLSLBaseType_Unknown, HLSLBaseType_Unknown, HLSLBaseType_Half2, HLSLBaseType_Half2,
        HLSLBaseType_Half2, HLSLBaseType_Half2, HLSLBaseType_Unknown, HLSLBaseType_Unknown,
        HLSLBaseType_Int2, HLSLBaseType_Int2, HLSLBaseType_Int2, HLSLBaseType_Int2,
        HLSLBaseType_Int2, HLSLBaseType_Uint2, HLSLBaseType_Uint2, HLSLBaseType_Uint2,
        HLSLBaseType_Uint2 ],
      [ HLSLBaseType_Float3, HLSLBaseType_Float2, HLSLBaseType_Float3, HLSLBaseType_Float3,
        HLSLBaseType_Unknown, HLSLBaseType_Unknown, HLSLBaseType_Half3, HLSLBaseType_Half2,
        HLSLBaseType_Half3, HLSLBaseType_Half3, HLSLBaseType_Unknown, HLSLBaseType_Unknown,
        HLSLBaseType_Int3, HLSLBaseType_Int3, HLSLBaseType_Int2, HLSLBaseType_Int3,
        HLSLBaseType_Int3, HLSLBaseType_Uint3, HLSLBaseType_Uint2, HLSLBaseType_Uint3,
        HLSLBaseType_Uint3 ],
      [ HLSLBaseType_Float4, HLSLBaseType_Float2, HLSLBaseType_Float3, HLSLBaseType_Float4,
        HLSLBaseType_Unknown, HLSLBaseType_Unknown, HLSLBaseType_Half4, HLSLBaseType_Half2,
        HLSLBaseType_Half3, HLSLBaseType_Half4, HLSLBaseType_Unknown, HLSLBaseType_Unknown,
        HLSLBaseType_Int4, HLSLBaseType_Int4, HLSLBaseType_Int2, HLSLBaseType_Int3,
        HLSLBaseType_Int4, HLSLBaseType_Uint4, HLSLBaseType_Uint2, HLSLBaseType_Uint3,
        HLSLBaseType_Uint4 ],
      [ HLSLBaseType_Float, HLSLBaseType_Float2, HLSLBaseType_Float3, HLSLBaseType_Float4,
        HLSLBaseType_Float3x3, HLSLBaseType_Float4x4, HLSLBaseType_Half, HLSLBaseType_Half2,
        HLSLBaseType_Half3, HLSLBaseType_Half4, HLSLBaseType_Half3x3, HLSLBaseType_Half4x4,
        HLSLBaseType_Uint, HLSLBaseType_Uint, HLSLBaseType_Uint2, HLSLBaseType_Uint3,
        HLSLBaseType_Uint4, HLSLBaseType_Uint, HLSLBaseType_Uint2, HLSLBaseType_Uint3,
        HLSLBaseType_Uint4 ],
      [ HLSLBaseType_Float2, HLSLBaseType_Float2, HLSLBaseType_Float2, HLSLBaseType_Float2,
        HLSLBaseType_Unknown, HLSLBaseType_Unknown, HLSLBaseType_Half2, HLSLBaseType_Half2,
        HLSLBaseType_Half2, HLSLBaseType_Half2, HLSLBaseType_Unknown, HLSLBaseType_Unknown,
        HLSLBaseType_Uint2, HLSLBaseType_Uint2, HLSLBaseType_Uint2, HLSLBaseType_Uint2,
        HLSLBaseType_Uint2, HLSLBaseType_Uint2, HLSLBaseType_Uint2, HLSLBaseType_Uint2,
        HLSLBaseType_Uint2 ],
      [ HLSLBaseType_Float3, HLSLBaseType_Float2, HLSLBaseType_Float3, HLSLBaseType_Float3,
        HLSLBaseType_Unknown, HLSLBaseType_Unknown, HLSLBaseType_Half3, HLSLBaseType_Half2,
        HLSLBaseType_Half3, HLSLBaseType_Half3, HLSLBaseType_Unknown, HLSLBaseType_Unknown,
        HLSLBaseType_Uint3, HLSLBaseType_Uint3, HLSLBaseType_Uint2, HLSLBaseType_Uint3,
        HLSLBaseType_Uint3, HLSLBaseType_Uint3, HLSLBaseType_Uint2, HLSLBaseType_Uint3,
        HLSLBaseType_Uint3 ],
      [ HLSLBaseType_Float4, HLSLBaseType_Float2, HLSLBaseType_Float3, HLSLBaseType_Float4,
        HLSLBaseType_Unknown, HLSLBaseType_Unknown, HLSLBaseType_Half4, HLSLBaseType_Half2,
        HLSLBaseType_Half3, HLSLBaseType_Half4, HLSLBaseType_Unknown, HLSLBaseType_Unknown,
        HLSLBaseType_Uint4, HLSLBaseType_Uint4, HLSLBaseType_Uint2, HLSLBaseType_Uint3,
        HLSLBaseType_Uint4, HLSLBaseType_Uint4, HLSLBaseType_Uint2, HLSLBaseType_Uint3,
        HLSLBaseType_Uint4 ] ]"

text \<open>\<open>GetTypeName\<close> of HLSLParser.cpp; the name of a user-defined type can be null.\<close>

definition HLSLParser_GetTypeName :: "HLSLType \<Rightarrow> string option" where
  "HLSLParser_GetTypeName t =
     (if baseType t = HLSLBaseType_UserDefined then HLSLType.typeName t
      else Some (BaseTypeDescription.typeName (baseTypeDescriptions (baseType t))))"

fun GetBinaryOpName :: "HLSLBinaryOp \<Rightarrow> string" where
  "GetBinaryOpName HLSLBinaryOp_Add = ''+''"
| "GetBinaryOpName HLSLBinaryOp_Sub = ''-''"
| "GetBinaryOpName HLSLBinaryOp_Mul = ''*''"
| "GetBinaryOpName HLSLBinaryOp_Div = ''/''"
| "GetBinaryOpName HLSLBinaryOp_Less = ''<''"
| "GetBinaryOpName HLSLBinaryOp_Greater = ''>''"
| "GetBinaryOpName HLSLBinaryOp_LessEqual = ''<=''"
| "GetBinaryOpName HLSLBinaryOp_GreaterEqual = ''>=''"
| "GetBinaryOpName HLSLBinaryOp_Equal = ''==''"
| "GetBinaryOpName HLSLBinaryOp_NotEqual = ''!=''"
| "GetBinaryOpName HLSLBinaryOp_Assign = ''=''"
| "GetBinaryOpName HLSLBinaryOp_AddAssign = ''+=''"
| "GetBinaryOpName HLSLBinaryOp_SubAssign = ''-=''"
| "GetBinaryOpName HLSLBinaryOp_MulAssign = ''*=''"
| "GetBinaryOpName HLSLBinaryOp_DivAssign = ''/=''"
| "GetBinaryOpName HLSLBinaryOp_And = ''&&''"
| "GetBinaryOpName HLSLBinaryOp_Or = ''||''"

text \<open>
  \<open>GetBinaryOpResultType\<close>: the flag and the \<open>result\<close> reference on return (untouched when
  an operand is not a numeric non-array type).
\<close>

definition GetBinaryOpResultType ::
  "HLSLBinaryOp \<Rightarrow> HLSLType \<Rightarrow> HLSLType \<Rightarrow> HLSLType \<Rightarrow> bool \<times> HLSLType" where
  "GetBinaryOpResultType binaryOp type1 type2 result =
     (if HLSLBaseType_index (baseType type1) < HLSLBaseType_FirstNumeric
         \<or> HLSLBaseType_index (baseType type1) > HLSLBaseType_LastNumeric \<or> array type1
         \<or> HLSLBaseType_index (baseType type2) < HLSLBaseType_FirstNumeric
         \<or> HLSLBaseType_index (baseType type2) > HLSLBaseType_LastNumeric \<or> array type2
      then (False, result)
      else
        let b = (if binaryOp \<in> {HLSLBinaryOp_And, HLSLBinaryOp_Or, HLSLBinaryOp_Less,
                                HLSLBinaryOp_Greater, HLSLBinaryOp_LessEqual,
                                HLSLBinaryOp_GreaterEqual, HLSLBinaryOp_Equal,
                                HLSLBinaryOp_NotEqual}
                 then HLSLBaseType_Bool
                 else binaryOpTypeLookup
                        ! nat (HLSLBaseType_index (baseType type1) - HLSLBaseType_FirstNumeric)
                        ! nat (HLSLBaseType_index (baseType type2) - HLSLBaseType_FirstNumeric))
        in (b \<noteq> HLSLBaseType_Unknown, HLSLType b None False None False))"

definition CheckTypeCast :: "HLSLType \<Rightarrow> HLSLType \<Rightarrow> HLSLParser \<Rightarrow> fault + (bool \<times> HLSLParser)"
  where
  "CheckTypeCast srcType dstType p =
     andThen (GetTypeCastRank srcType dstType) (\<lambda>rank.
       if rank = - 1
       then Inr (False,
                 Error (''Cannot implicitly convert from '' @ [CHR 0x27]
                          @ printf_s (HLSLParser_GetTypeName srcType) @ [CHR 0x27] @ '' to ''
                          @ [CHR 0x27] @ printf_s (HLSLParser_GetTypeName dstType)
                          @ [CHR 0x27]) p)
       else Inr (True, p))"

text \<open>
  \<open>AcceptBinaryOperator\<close>: the flag, the \<open>binaryOp\<close> reference on return (written also when
  the priority test then fails; \<open>None\<close> is "not written") and the state.
\<close>

definition binaryOperatorTokens :: "(int \<times> HLSLBinaryOp) list" where
  "binaryOperatorTokens =
    [ (chr CHR ''+'', HLSLBinaryOp_Add), (chr CHR ''-'', HLSLBinaryOp_Sub),
      (chr CHR ''*'', HLSLBinaryOp_Mul), (chr CHR ''/'', HLSLBinaryOp_Div),
      (chr CHR ''<'', HLSLBinaryOp_Less), (chr CHR ''>'', HLSLBinaryOp_Greater),
      (HLSLToken_LessEqual, HLSLBinaryOp_LessEqual),
      (HLSLToken_GreaterEqual, HLSLBinaryOp_GreaterEqual),
      (HLSLToken_EqualEqual, HLSLBinaryOp_Equal), (HLSLToken_NotEqual, HLSLBinaryOp_NotEqual),
      (HLSLToken_AndAnd, HLSLBinaryOp_And), (HLSLToken_BarBar, HLSLBinaryOp_Or) ]"

definition AcceptBinaryOperator ::
  "int \<Rightarrow> HLSLParser \<Rightarrow> bool \<times> HLSLBinaryOp option \<times> HLSLParser" where
  "AcceptBinaryOperator priority p =
     (case map_of binaryOperatorTokens (GetToken (m_tokenizer p)) of
        None \<Rightarrow> (False, None, p)
      | Some binaryOp \<Rightarrow>
          if binaryOpPriority ! HLSLBinaryOp_index binaryOp > priority
          then (True, Some binaryOp, p \<lparr> m_tokenizer := Next (m_tokenizer p) \<rparr>)
          else (False, Some binaryOp, p))"

definition AcceptUnaryOperator ::
  "bool \<Rightarrow> HLSLParser \<Rightarrow> bool \<times> HLSLUnaryOp option \<times> HLSLParser" where
  "AcceptUnaryOperator pre p =
     (let tok = GetToken (m_tokenizer p);
          unaryOp =
            (if tok = HLSLToken_PlusPlus
             then Some (if pre then HLSLUnaryOp_PreIncrement else HLSLUnaryOp_PostIncrement)
             else if tok = HLSLToken_MinusMinus
             then Some (if pre then HLSLUnaryOp_PreDecrement else HLSLUnaryOp_PostDecrement)
             else if pre \<and> tok = chr CHR ''-'' then Some HLSLUnaryOp_Negative
             else if pre \<and> tok = chr CHR ''+'' then Some HLSLUnaryOp_Positive
             else if pre \<and> tok = chr CHR ''!'' then Some HLSLUnaryOp_Not
             else None)
      in case unaryOp of
           None \<Rightarrow> (False, None, p)
         | Some u \<Rightarrow> (True, Some u, p \<lparr> m_tokenizer := Next (m_tokenizer p) \<rparr>))"

definition AcceptAssign :: "HLSLParser \<Rightarrow> bool \<times> HLSLBinaryOp option \<times> HLSLParser" where
  "AcceptAssign p =
     (case Accept (chr CHR ''='') p of
        (True, p1) \<Rightarrow> (True, Some HLSLBinaryOp_Assign, p1)
      | (False, p1) \<Rightarrow>
     (case Accept HLSLToken_PlusEqual p1 of
        (True, p2) \<Rightarrow> (True, Some HLSLBinaryOp_AddAssign, p2)
      | (False, p2) \<Rightarrow>
     (case Accept HLSLToken_MinusEqual p2 of
        (True, p3) \<Rightarrow> (True, Some HLSLBinaryOp_SubAssign, p3)
      | (False, p3) \<Rightarrow>
     (case Accept HLSLToken_TimesEqual p3 of
        (True, p4) \<Rightarrow> (True, Some HLSLBinaryOp_MulAssign, p4)
      | (False, p4) \<Rightarrow>
     (case Accept HLSLToken_DivideEqual p4 of
        (True, p5) \<Rightarrow> (True, Some HLSLBinaryOp_DivAssign, p5)
      | (False, p5) \<Rightarrow> (False, None, p5))))))"

text \<open>
  \<open>AcceptType\<close>. \<open>wantConstant\<close> says whether the \<open>constant\<close> pointer is non-null. The
  results are the flag, \<open>type\<close> on return, \<open>typeName\<close> on return (\<open>None\<close>: not written),
  \<open>*constant\<close> on return, and the state. An identifier that is looked up as a type name is
  interned first.
\<close>

definition typeTokens :: "(int \<times> HLSLBaseType) list" where
  "typeTokens =
    [ (HLSLToken_Float, HLSLBaseType_Float), (HLSLToken_Float2, HLSLBaseType_Float2),
      (HLSLToken_Float3, HLSLBaseType_Float3), (HLSLToken_Float4, HLSLBaseType_Float4),
      (HLSLToken_Float3x3, HLSLBaseType_Float3x3), (HLSLToken_Float4x4, HLSLBaseType_Float4x4),
      (HLSLToken_Half, HLSLBaseType_Half), (HLSLToken_Half2, HLSLBaseType_Half2),
      (HLSLToken_Half3, HLSLBaseType_Half3), (HLSLToken_Half4, HLSLBaseType_Half4),
      (HLSLToken_Half3x3, HLSLBaseType_Half3x3), (HLSLToken_Half4x4, HLSLBaseType_Half4x4),
      (HLSLToken_Bool, HLSLBaseType_Bool), (HLSLToken_Int, HLSLBaseType_Int),
      (HLSLToken_Int2, HLSLBaseType_Int2), (HLSLToken_Int3, HLSLBaseType_Int3),
      (HLSLToken_Int4, HLSLBaseType_Int4), (HLSLToken_Uint, HLSLBaseType_Uint),
      (HLSLToken_Uint2, HLSLBaseType_Uint2), (HLSLToken_Uint3, HLSLBaseType_Uint3),
      (HLSLToken_Uint4, HLSLBaseType_Uint4), (HLSLToken_Texture, HLSLBaseType_Texture),
      (HLSLToken_Sampler2D, HLSLBaseType_Sampler2D),
      (HLSLToken_SamplerCube, HLSLBaseType_SamplerCube) ]"

definition AcceptType ::
  "bool \<Rightarrow> bool \<Rightarrow> HLSLParser
     \<Rightarrow> bool \<times> HLSLBaseType \<times> string option \<times> bool \<times> HLSLParser" where
  "AcceptType allowVoid wantConstant p0 =
     (let (isConst, p) = (if wantConstant then Accept HLSLToken_Const p0 else (False, p0));
          tok = GetToken (m_tokenizer p)
      in case map_of typeTokens tok of
           Some b \<Rightarrow> (True, b, None, isConst, p \<lparr> m_tokenizer := Next (m_tokenizer p) \<rparr>)
         | None \<Rightarrow>
             (case (if allowVoid then Accept HLSLToken_Void p else (False, p)) of
                (True, p1) \<Rightarrow> (True, HLSLBaseType_Void, None, isConst, p1)
              | (False, p1) \<Rightarrow>
                  if tok = HLSLToken_Identifier
                  then
                    let ident = GetIdentifier (m_tokenizer p1);
                        p2 = p1 \<lparr> m_tree := AddString ident (m_tree p1) \<rparr>
                    in if FindUserDefinedType (Some ident) p2 \<noteq> None
                       then (True, HLSLBaseType_UserDefined, Some ident, isConst,
                             p2 \<lparr> m_tokenizer := Next (m_tokenizer p2) \<rparr>)
                       else (False, HLSLBaseType_Void, None, isConst, p2)
                  else (False, HLSLBaseType_Void, None, isConst, p1)))"

definition ExpectType ::
  "bool \<Rightarrow> bool \<Rightarrow> HLSLParser
     \<Rightarrow> bool \<times> HLSLBaseType \<times> string option \<times> bool \<times> HLSLParser" where
  "ExpectType allowVoid wantConstant p =
     (case AcceptType allowVoid wantConstant p of
        (True, r) \<Rightarrow> (True, r)
      | (False, b, tn, c, p1) \<Rightarrow> (False, b, tn, c, Error ''Expected type'' p1))"

subsection \<open>Member access\<close>

text \<open>
  The swizzle loop of \<open>GetMemberType\<close>: the length of the accessor, or \<open>None\<close> at the
  first character outside \<open>xyzwrgba\<close>.
\<close>

fun GetMemberType_swizzle :: "string \<Rightarrow> int \<Rightarrow> int option" where
  "GetMemberType_swizzle [] swizzleLength = Some swizzleLength"
| "GetMemberType_swizzle (c # fieldName) swizzleLength =
     (if c \<noteq> CHR ''x'' \<and> c \<noteq> CHR ''y'' \<and> c \<noteq> CHR ''z'' \<and> c \<noteq> CHR ''w''
         \<and> c \<noteq> CHR ''r'' \<and> c \<noteq> CHR ''g'' \<and> c \<noteq> CHR ''b'' \<and> c \<noteq> CHR ''a''
      then None
      else GetMemberType_swizzle fieldName (swizzleLength + 1))"

text \<open>
  The matrix-element loop (\<open>_m00\<close> or \<open>_11\<close>): \<open>None\<close> where the loop returns \<open>false\<close>,
  else what is left of the accessor when the loop ends and the number of elements read.
  \<open>matrixElement d0 d1 base\<close> is the test of one row and column pair.
\<close>

definition matrixElement :: "char \<Rightarrow> char \<Rightarrow> int \<Rightarrow> int \<Rightarrow> int \<Rightarrow> bool" where
  "matrixElement d0 d1 base h nc \<longleftrightarrow>
     isdigit d0 \<and> isdigit d1
     \<and> \<not> ((of_char d0 - 48) - base \<ge> h \<or> (of_char d1 - 48) - base \<ge> nc)"

fun GetMemberType_matrix :: "string \<Rightarrow> int \<Rightarrow> int \<Rightarrow> int \<Rightarrow> (string \<times> int) option" where
  "GetMemberType_matrix [] h nc swizzleLength = Some ([], swizzleLength)"
| "GetMemberType_matrix (c # n) h nc swizzleLength =
     (if c \<noteq> CHR ''_'' then Some (c # n, swizzleLength)
      else
        case n of
          [] \<Rightarrow> None
        | m # n1 \<Rightarrow>
            if m = CHR ''m''
            then (case n1 of
                    d0 # d1 # n2 \<Rightarrow>
                      if matrixElement d0 d1 0 h nc
                      then GetMemberType_matrix n2 h nc (swizzleLength + 1) else None
                  | _ \<Rightarrow> None)
            else (case n1 of
                    d1 # n2 \<Rightarrow>
                      if matrixElement m d1 1 h nc
                      then GetMemberType_matrix n2 h nc (swizzleLength + 1) else None
                  | _ \<Rightarrow> None))"

text \<open>The four static tables at the end of \<open>GetMemberType\<close>, and a read of one.\<close>

definition floatType :: "HLSLBaseType list" where
  "floatType = [HLSLBaseType_Float, HLSLBaseType_Float2, HLSLBaseType_Float3, HLSLBaseType_Float4]"

definition halfType :: "HLSLBaseType list" where
  "halfType = [HLSLBaseType_Half, HLSLBaseType_Half2, HLSLBaseType_Half3, HLSLBaseType_Half4]"

definition intType :: "HLSLBaseType list" where
  "intType = [HLSLBaseType_Int, HLSLBaseType_Int2, HLSLBaseType_Int3, HLSLBaseType_Int4]"

definition uintType :: "HLSLBaseType list" where
  "uintType = [HLSLBaseType_Uint, HLSLBaseType_Uint2, HLSLBaseType_Uint3, HLSLBaseType_Uint4]"

definition readArray :: "'a list \<Rightarrow> int \<Rightarrow> fault + 'a" where
  "readArray xs i = (if 0 \<le> i \<and> i < int (length xs) then Inr (xs ! nat i) else Inl OutOfBoundsRead)"

definition setBaseType :: "HLSLBaseType \<Rightarrow> HLSLType \<Rightarrow> HLSLType" where
  "setBaseType b t = HLSLType b (HLSLType.typeName t) (array t) (arraySize t) (constant' t)"

definition invalidSwizzle :: "string \<Rightarrow> string" where
  "invalidSwizzle fieldName = ''Invalid swizzle '' @ [CHR 0x27] @ fieldName @ [CHR 0x27]"

text \<open>
  \<open>GetMemberType\<close>: the flag, the \<open>memberType\<close> reference on return, and the state.
\<close>

definition GetMemberType ::
  "HLSLType \<Rightarrow> string \<Rightarrow> HLSLType \<Rightarrow> HLSLParser \<Rightarrow> fault + (bool \<times> HLSLType \<times> HLSLParser)"
  where
  "GetMemberType objectType fieldName memberType p =
     (if baseType objectType = HLSLBaseType_UserDefined
      then (case FindUserDefinedType (HLSLType.typeName objectType) p of
              None \<Rightarrow> Inl AssertionFailure
            | Some structure \<Rightarrow>
                (case find (\<lambda>f. HLSLStructField.name f = fieldName)
                        (HLSLStruct.field structure) of
                   Some f \<Rightarrow> Inr (True, HLSLStructField.type' f, p)
                 | None \<Rightarrow> Inr (False, memberType, p)))
      else
        let desc = baseTypeDescriptions (baseType objectType)
        in if numericType desc = NumericType_NaN then Inr (False, memberType, p)
           else
             andThen
               (if numDimensions desc \<le> 1
                then (case GetMemberType_swizzle fieldName 0 of
                        None \<Rightarrow> Inr (None, Error (invalidSwizzle fieldName) p)
                      | Some n \<Rightarrow> if n > 0 then Inr (Some n, p) else Inl AssertionFailure)
                else (case GetMemberType_matrix fieldName (height desc) (numComponents desc) 0 of
                        Some ([], n) \<Rightarrow> Inr (Some n, p)
                      | _ \<Rightarrow> Inr (None, p)))
               (\<lambda>(len, p1).
                  case len of
                    None \<Rightarrow> Inr (False, memberType, p1)
                  | Some swizzleLength \<Rightarrow>
                      if swizzleLength > 4
                      then Inr (False, memberType, Error (invalidSwizzle fieldName) p1)
                      else
                        andThen
                          (case numericType desc of
                             NumericType_Float \<Rightarrow> readArray floatType (swizzleLength - 1)
                           | NumericType_Half \<Rightarrow> readArray halfType (swizzleLength - 1)
                           | NumericType_Int \<Rightarrow> readArray intType (swizzleLength - 1)
                           | NumericType_Uint \<Rightarrow> readArray uintType (swizzleLength - 1)
                           | _ \<Rightarrow> Inl AssertionFailure)
                          (\<lambda>b. Inr (True, setBaseType b memberType, p1))))"


section \<open>Parsing expressions (HLSLParser.cpp)\<close>

text \<open>
  The parse functions call each other without a bound that the source states, so each
  takes fuel: a call with no fuel left is the fault \<open>OutOfFuel\<close>, every call passes one
  unit less, and a loop spends a unit for each iteration. A function that returns \<open>bool\<close> and
  writes through \<open>HLSLExpression*& expression\<close> takes the pointer's value at the call and
  returns the flag, the pointer's value at the return and the parser: a failed parse can
  leave the pointer set (to a cast whose operand is still null, say), and the \<open>for\<close> statement
  keeps what a failed \<open>ParseExpression\<close> left. A parse that succeeds has set the pointer;
  where the source then reads through it, a null pointer is the fault \<open>NullDereference\<close>,
  and so it is in the three places where the source would only store it in a node that the
  datatype gives no null operand (the operand of a prefix operator, the condition of
  \<open>?:\<close>, an element of an expression list).
\<close>

type_synonym 'a parsed = "fault + bool \<times> 'a \<times> HLSLParser"

text \<open>The loop over postfix \<open>++\<close> and \<open>--\<close>; \<open>finished\<close> is the flag \<open>done\<close>.\<close>

fun ParseTerminalExpression_unary ::
  "nat \<Rightarrow> string \<Rightarrow> int \<Rightarrow> HLSLExpression option \<Rightarrow> bool \<Rightarrow> HLSLParser
     \<Rightarrow> fault + HLSLExpression option \<times> bool \<times> HLSLParser" where
  "ParseTerminalExpression_unary 0 file ln expression finished p = Inl OutOfFuel"
| "ParseTerminalExpression_unary (Suc n) file ln expression finished p =
     (case AcceptUnaryOperator False p of
        (True, Some unaryOp, p) \<Rightarrow>
          (case NewNode (Some file) ln p of
             (nd, p) \<Rightarrow>
               (case expression of
                  None \<Rightarrow> Inl NullDereference
                | Some e \<Rightarrow>
                    ParseTerminalExpression_unary n file ln
                      (Some (HLSLUnaryExpression nd (expressionType e) unaryOp e)) False p))
      | (_, _, p) \<Rightarrow> Inr (expression, finished, p))"

text \<open>The loop over member accesses.\<close>

fun ParseTerminalExpression_member ::
  "nat \<Rightarrow> string \<Rightarrow> int \<Rightarrow> HLSLExpression option \<Rightarrow> bool \<Rightarrow> HLSLParser
     \<Rightarrow> (HLSLExpression option \<times> bool) parsed" where
  "ParseTerminalExpression_member 0 file ln expression finished p = Inl OutOfFuel"
| "ParseTerminalExpression_member (Suc n) file ln expression finished p =
     (case Accept (chr CHR ''.'') p of
        (True, p) \<Rightarrow>
          (case NewNode (Some file) ln p of
             (nd, p) \<Rightarrow>
               (case ExpectIdentifier p of
                  (False, _, p) \<Rightarrow> Inr (False, (expression, finished), p)
                | (True, fld, p) \<Rightarrow>
                    (case expression of
                       None \<Rightarrow> Inl NullDereference
                     | Some e \<Rightarrow>
                         andThen (GetMemberType (expressionType e) fld
                                    (HLSLType_of HLSLBaseType_Unknown) p)
                           (\<lambda>(ok, memberType, p).
                              if \<not> ok
                              then Inr (False, (expression, finished),
                                        Error (''Couldn'' @ [CHR 0x27] @ ''t access ''
                                                 @ [CHR 0x27] @ fld @ [CHR 0x27]) p)
                              else ParseTerminalExpression_member n file ln
                                     (Some (HLSLMemberAccess nd memberType e fld)) False p))))
      | (False, p) \<Rightarrow> Inr (True, (expression, finished), p))"

text \<open>The type of \<open>array[index]\<close>; \<open>None\<close> is the \<open>default\<close> of the \<open>switch\<close>.\<close>

definition arrayAccessType :: "HLSLType \<Rightarrow> HLSLType option" where
  "arrayAccessType t =
     (if array t
      then Some (HLSLType (baseType t) (HLSLType.typeName t) False None (constant' t))
      else if baseType t \<in> {HLSLBaseType_Float2, HLSLBaseType_Float3, HLSLBaseType_Float4}
      then Some (HLSLType_of HLSLBaseType_Float)
      else if baseType t = HLSLBaseType_Float3x3 then Some (HLSLType_of HLSLBaseType_Float3)
      else if baseType t = HLSLBaseType_Float4x4 then Some (HLSLType_of HLSLBaseType_Float4)
      else if baseType t \<in> {HLSLBaseType_Half2, HLSLBaseType_Half3, HLSLBaseType_Half4}
      then Some (HLSLType_of HLSLBaseType_Half)
      else if baseType t = HLSLBaseType_Half3x3 then Some (HLSLType_of HLSLBaseType_Half3)
      else if baseType t = HLSLBaseType_Half4x4 then Some (HLSLType_of HLSLBaseType_Half4)
      else if baseType t \<in> {HLSLBaseType_Int2, HLSLBaseType_Int3, HLSLBaseType_Int4}
      then Some (HLSLType_of HLSLBaseType_Int)
      else if baseType t \<in> {HLSLBaseType_Uint2, HLSLBaseType_Uint3, HLSLBaseType_Uint4}
      then Some (HLSLType_of HLSLBaseType_Uint)
      else None)"

text \<open>A literal node: \<open>expressionType.baseType\<close> and \<open>constant\<close> are set, the rest default.\<close>

definition literalExpression ::
  "HLSLNode \<Rightarrow> HLSLBaseType \<Rightarrow> LiteralValue \<Rightarrow> HLSLExpression" where
  "literalExpression nd b v = HLSLLiteralExpression nd (HLSLType b None False None True) b v"

text \<open>The terminal values of \<open>ParseTerminalExpression\<close>.\<close>

definition ParseTerminalExpression_literal ::
  "string \<Rightarrow> int \<Rightarrow> HLSLParser \<Rightarrow> HLSLExpression option \<times> HLSLParser" where
  "ParseTerminalExpression_literal file ln p =
     (case AcceptFloat p of
        (True, f, p) \<Rightarrow>
          (case NewNode (Some file) ln p of
             (nd, p) \<Rightarrow> (Some (literalExpression nd HLSLBaseType_Float (fValue f)), p))
      | (False, _, p) \<Rightarrow>
     (case AcceptInt p of
        (True, i, p) \<Rightarrow>
          (case NewNode (Some file) ln p of
             (nd, p) \<Rightarrow> (Some (literalExpression nd HLSLBaseType_Int (iValue i)), p))
      | (False, _, p) \<Rightarrow>
     (case Accept HLSLToken_True p of
        (True, p) \<Rightarrow>
          (case NewNode (Some file) ln p of
             (nd, p) \<Rightarrow> (Some (literalExpression nd HLSLBaseType_Bool (bValue True)), p))
      | (False, p) \<Rightarrow>
     (case Accept HLSLToken_False p of
        (True, p) \<Rightarrow>
          (case NewNode (Some file) ln p of
             (nd, p) \<Rightarrow> (Some (literalExpression nd HLSLBaseType_Bool (bValue False)), p))
      | (False, p) \<Rightarrow> (None, p)))))"

text \<open>The identifier of \<open>ParseTerminalExpression\<close>: a variable, or the name of a function.\<close>

definition ParseTerminalExpression_identifier ::
  "string \<Rightarrow> int \<Rightarrow> HLSLExpression option \<Rightarrow> HLSLParser \<Rightarrow> HLSLExpression option parsed" where
  "ParseTerminalExpression_identifier file ln expression p =
     (case NewNode (Some file) ln p of
        (nd, p) \<Rightarrow>
          (case ExpectIdentifier p of
             (False, _, p) \<Rightarrow> Inr (False, expression, p)
           | (True, nm, p) \<Rightarrow>
               (case FindVariable nm p of
                  Some (identifierType, global) \<Rightarrow>
                    Inr (True, Some (HLSLIdentifierExpression nd identifierType nm global), p)
                | None \<Rightarrow>
                    if \<not> GetIsFunction nm p
                    then Inr (False, expression,
                              Error (''Undeclared identifier '' @ [CHR 0x27] @ nm @ [CHR 0x27]) p)
                    else Inr (True,
                              Some (HLSLIdentifierExpression nd
                                      (HLSLType_of HLSLBaseType_Unknown) nm True), p))))"

text \<open>
  \<open>ParseExpression\<close>, \<open>ParseBinaryExpression\<close>, \<open>ParsePartialConstructor\<close>,
  \<open>ParseTerminalExpression\<close> and \<open>ParseExpressionList\<close> call each other. Each is
  written here with the \<open>ParseExpression\<close> it calls as its first argument,
  \<open>parseExpression\<close>, and \<open>ParseExpression\<close> itself, last, hands them the
  \<open>ParseExpression\<close> of one unit of fuel less. The loops are functions of their own:
  \<open>ParseExpression_assign\<close> is the \<open>while (AcceptAssign(assignOp))\<close>,
  \<open>ParseBinaryExpression_loop\<close> the \<open>while (1)\<close> (its first argument is the
  \<open>ParseBinaryExpression\<close> it calls), \<open>ParseTerminalExpression_postfix\<close> the
  \<open>while (!done)\<close> and \<open>ParseTerminalExpression_array\<close> the \<open>while (Accept('['))\<close> inside
  it, \<open>ParseExpressionList_loop\<close> the \<open>while (!Accept(endToken))\<close>. Every caller of
  \<open>ParseExpressionList\<close> passes a null \<open>firstExpression\<close>, so the list starts empty.
  \<open>ParseTerminalExpression\<close> returns \<open>needsEndParen\<close> beside the expression.
\<close>

primrec ParseExpressionList_loop ::
  "(HLSLExpression option \<Rightarrow> HLSLParser \<Rightarrow> HLSLExpression option parsed)
     \<Rightarrow> nat \<Rightarrow> int \<Rightarrow> bool \<Rightarrow> HLSLExpression list \<Rightarrow> int \<Rightarrow> HLSLParser
     \<Rightarrow> (HLSLExpression list \<times> int) parsed" where
  "ParseExpressionList_loop parseExpression 0 endToken allowEmptyEnd expressions numExpressions p =
     Inl OutOfFuel"
| "ParseExpressionList_loop parseExpression (Suc n) endToken allowEmptyEnd expressions numExpressions p =
     (case Accept endToken p of
        (True, p) \<Rightarrow> Inr (True, (expressions, numExpressions), p)
      | (False, p) \<Rightarrow>
     (case CheckForUnexpectedEndOfStream endToken p of
        (True, p) \<Rightarrow> Inr (False, (expressions, numExpressions), p)
      | (False, p) \<Rightarrow>
     (case (if numExpressions > 0 then Expect (chr CHR '','') p else (True, p)) of
        (False, p) \<Rightarrow> Inr (False, (expressions, numExpressions), p)
      | (True, p) \<Rightarrow>
     (case (if allowEmptyEnd then Accept endToken p else (False, p)) of
        (True, p) \<Rightarrow> Inr (True, (expressions, numExpressions), p)
      | (False, p) \<Rightarrow>
          andThen (parseExpression None p) (\<lambda>(ok, expression, p).
            if \<not> ok then Inr (False, (expressions, numExpressions), p)
            else
              case expression of
                None \<Rightarrow> Inl NullDereference
              | Some e \<Rightarrow>
                  ParseExpressionList_loop parseExpression n endToken allowEmptyEnd (expressions @ [e])
                    (numExpressions + 1) p)))))"

definition ParsePartialConstructor ::
  "(HLSLExpression option \<Rightarrow> HLSLParser \<Rightarrow> HLSLExpression option parsed)
     \<Rightarrow> nat \<Rightarrow> HLSLExpression option \<Rightarrow> HLSLBaseType \<Rightarrow> string option \<Rightarrow> HLSLParser
     \<Rightarrow> HLSLExpression option parsed" where
  "ParsePartialConstructor parseExpression n expression b tn p =
     (case GetFileName p of
        (file, p) \<Rightarrow>
          (case NewNode (Some file) (GetLineNumber p) p of
             (nd, p) \<Rightarrow>
               andThen (ParseExpressionList_loop parseExpression n (chr CHR '')'') False [] 0 p)
                 (\<lambda>(ok, (arguments, numArgs), p).
                    if \<not> ok then Inr (False, expression, p)
                    else Inr (True,
                              Some (HLSLConstructorExpression nd
                                      (HLSLType b tn False None True)
                                      (HLSLType b tn False None False) arguments), p))))"

primrec ParseTerminalExpression_array ::
  "(HLSLExpression option \<Rightarrow> HLSLParser \<Rightarrow> HLSLExpression option parsed)
     \<Rightarrow> nat \<Rightarrow> string \<Rightarrow> int \<Rightarrow> HLSLExpression option \<Rightarrow> bool \<Rightarrow> HLSLParser
     \<Rightarrow> (HLSLExpression option \<times> bool) parsed" where
  "ParseTerminalExpression_array parseExpression 0 file ln expression finished p = Inl OutOfFuel"
| "ParseTerminalExpression_array parseExpression (Suc n) file ln expression finished p =
     (case Accept (chr CHR ''['') p of
        (True, p) \<Rightarrow>
          (case NewNode (Some file) ln p of
             (nd, p) \<Rightarrow>
               andThen (parseExpression None p) (\<lambda>(ok, index, p).
                 if \<not> ok then Inr (False, (expression, finished), p)
                 else
                   case Expect (chr CHR '']'') p of
                     (False, p) \<Rightarrow> Inr (False, (expression, finished), p)
                   | (True, p) \<Rightarrow>
                       (case (expression, index) of
                          (Some e, Some i) \<Rightarrow>
                            (case arrayAccessType (expressionType e) of
                               None \<Rightarrow>
                                 Inr (False, (expression, finished),
                                      Error ''array, matrix, vector, or indexable object type expected in index expression'' p)
                             | Some ty \<Rightarrow>
                                 ParseTerminalExpression_array parseExpression n file ln
                                   (Some (HLSLArrayAccess nd ty e i)) False p)
                        | _ \<Rightarrow> Inl NullDereference)))
      | (False, p) \<Rightarrow> Inr (True, (expression, finished), p))"

primrec ParseTerminalExpression_postfix ::
  "(HLSLExpression option \<Rightarrow> HLSLParser \<Rightarrow> HLSLExpression option parsed)
     \<Rightarrow> nat \<Rightarrow> string \<Rightarrow> int \<Rightarrow> HLSLExpression option \<Rightarrow> HLSLParser
     \<Rightarrow> HLSLExpression option parsed" where
  "ParseTerminalExpression_postfix parseExpression 0 file ln expression p = Inl OutOfFuel"
| "ParseTerminalExpression_postfix parseExpression (Suc n) file ln expression p =
     andThen (ParseTerminalExpression_unary n file ln expression True p)
       (\<lambda>(expression, finished, p).
     andThen (ParseTerminalExpression_member n file ln expression finished p)
       (\<lambda>(ok, (expression, finished), p).
     if \<not> ok then Inr (False, expression, p)
     else
     andThen (ParseTerminalExpression_array parseExpression n file ln expression finished p)
       (\<lambda>(ok, (expression, finished), p).
     if \<not> ok then Inr (False, expression, p)
     else
       case Accept (chr CHR ''('') p of
         (True, p) \<Rightarrow>
           (case NewNode (Some file) ln p of
              (nd, p) \<Rightarrow>
                andThen (ParseExpressionList_loop parseExpression n (chr CHR '')'') False [] 0 p)
                  (\<lambda>(ok, (arguments, numArgs), p).
                if \<not> ok then Inr (False, expression, p)
                else
                  case expression of
                    None \<Rightarrow> Inl NullDereference
                  | Some (HLSLIdentifierExpression _ _ nm _) \<Rightarrow>
                      let functionCall = HLSLFunctionCall None numArgs arguments
                      in andThen (MatchFunctionCall functionCall nm p) (\<lambda>(matched, p).
                           case matched of
                             None \<Rightarrow> Inr (False, expression, p)
                           | Some fn \<Rightarrow>
                               ParseTerminalExpression_postfix parseExpression n file ln
                                 (Some (HLSLFunctionCallExpression nd (HLSLFunction.returnType fn)
                                          (HLSLFunctionCall (Some fn) numArgs arguments))) p)
                  | Some _ \<Rightarrow>
                      Inr (False, expression, Error ''Expected function identifier'' p)))
       | (False, p) \<Rightarrow>
           if finished then Inr (True, expression, p)
           else ParseTerminalExpression_postfix parseExpression n file ln expression p)))"

primrec ParseTerminalExpression ::
  "(HLSLExpression option \<Rightarrow> HLSLParser \<Rightarrow> HLSLExpression option parsed)
     \<Rightarrow> nat \<Rightarrow> HLSLExpression option \<Rightarrow> HLSLParser
     \<Rightarrow> (HLSLExpression option \<times> bool) parsed" where
  "ParseTerminalExpression parseExpression 0 expression p = Inl OutOfFuel"
| "ParseTerminalExpression parseExpression (Suc n) expression p =
     (case GetFileName p of
        (file, p) \<Rightarrow>
          let ln = GetLineNumber p
          in
          case AcceptUnaryOperator True p of
            (True, Some unaryOp, p) \<Rightarrow>
              (case NewNode (Some file) ln p of
                 (nd, p) \<Rightarrow>
                   andThen (ParseTerminalExpression parseExpression n None p)
                     (\<lambda>(ok, (operand, needsEndParen), p).
                        if \<not> ok then Inr (False, (expression, needsEndParen), p)
                        else
                          case operand of
                            None \<Rightarrow> Inl NullDereference
                          | Some e \<Rightarrow>
                              Inr (True,
                                   (Some (HLSLUnaryExpression nd
                                            (if unaryOp = HLSLUnaryOp_Not
                                             then HLSLType_of HLSLBaseType_Bool
                                             else expressionType e) unaryOp e),
                                    needsEndParen), p)))
          | (_, _, p) \<Rightarrow>
          (case Accept (chr CHR ''('') p of
             (True, p) \<Rightarrow>
               (case AcceptType False True p of
                  (True, b, tn, isConst, p) \<Rightarrow>
                    (case Accept (chr CHR ''('') p of
                       (True, p) \<Rightarrow>
                         andThen (ParsePartialConstructor parseExpression n expression b tn p)
                           (\<lambda>(ok, expression, p). Inr (ok, (expression, True), p))
                     | (False, p) \<Rightarrow>
                         (case NewNode (Some file) ln p of
                            (nd, p) \<Rightarrow>
                              let ty = HLSLType b tn False None isConst
                              in case Expect (chr CHR '')'') p of
                                   (False, p) \<Rightarrow>
                                     Inr (False,
                                          (Some (HLSLCastingExpression nd ty ty None), False), p)
                                 | (True, p) \<Rightarrow>
                                     andThen (parseExpression None p) (\<lambda>(ok, operand, p).
                                       Inr (ok,
                                            (Some (HLSLCastingExpression nd ty ty operand),
                                             False), p))))
                | (False, _, _, _, p) \<Rightarrow>
                    andThen (parseExpression expression p) (\<lambda>(ok, expression, p).
                      if \<not> ok then Inr (False, (expression, False), p)
                      else case Expect (chr CHR '')'') p of
                             (ok, p) \<Rightarrow> Inr (ok, (expression, False), p)))
           | (False, p) \<Rightarrow>
          (case ParseTerminalExpression_literal file ln p of
             (Some literal, p) \<Rightarrow> Inr (True, (Some literal, False), p)
           | (None, p) \<Rightarrow>
               andThen
                 (case AcceptType False False p of
                    (True, b, tn, _, p) \<Rightarrow>
                      (case Expect (chr CHR ''('') p of
                         (_, p) \<Rightarrow> ParsePartialConstructor parseExpression n expression b tn p)
                  | (False, _, _, _, p) \<Rightarrow>
                      ParseTerminalExpression_identifier file ln expression p)
                 (\<lambda>(ok, expression, p).
                    if \<not> ok then Inr (False, (expression, False), p)
                    else andThen (ParseTerminalExpression_postfix parseExpression n file ln expression p)
                           (\<lambda>(ok, expression, p). Inr (ok, (expression, False), p))))))"

primrec ParseBinaryExpression_loop ::
  "(int \<Rightarrow> HLSLExpression option \<Rightarrow> HLSLParser \<Rightarrow> HLSLExpression option parsed)
     \<Rightarrow> nat \<Rightarrow> int \<Rightarrow> string \<Rightarrow> int \<Rightarrow> bool \<Rightarrow> HLSLExpression option \<Rightarrow> HLSLParser
     \<Rightarrow> HLSLExpression option parsed" where
  "ParseBinaryExpression_loop parseBinaryExpression 0 priority file ln needsEndParen expression p = Inl OutOfFuel"
| "ParseBinaryExpression_loop parseBinaryExpression (Suc n) priority file ln needsEndParen expression p =
     (case AcceptBinaryOperator priority p of
        (True, Some binaryOp, p) \<Rightarrow>
          andThen (parseBinaryExpression (binaryOpPriority ! HLSLBinaryOp_index binaryOp)
                     None p) (\<lambda>(ok, expression2, p).
            if \<not> ok then Inr (False, expression, p)
            else
              case NewNode (Some file) ln p of
                (nd, p) \<Rightarrow>
                  (case (expression, expression2) of
                     (Some e1, Some e2) \<Rightarrow>
                       (case GetBinaryOpResultType binaryOp (expressionType e1)
                               (expressionType e2) (HLSLType_of HLSLBaseType_Unknown) of
                          (False, _) \<Rightarrow>
                            Inr (False, expression,
                                 Error (''binary '' @ [CHR 0x27] @ GetBinaryOpName binaryOp
                                    @ [CHR 0x27]
                                    @ '' : no global operator found which takes types ''
                                    @ [CHR 0x27]
                                    @ printf_s (HLSLParser_GetTypeName (expressionType e1))
                                    @ [CHR 0x27] @ '' and '' @ [CHR 0x27]
                                    @ printf_s (HLSLParser_GetTypeName (expressionType e2))
                                    @ [CHR 0x27]
                                    @ '' (or there is no acceptable conversion)'') p)
                        | (True, resultType) \<Rightarrow>
                            ParseBinaryExpression_loop parseBinaryExpression n priority file ln needsEndParen
                              (Some (HLSLBinaryExpression nd resultType binaryOp e1 e2)) p)
                   | _ \<Rightarrow> Inl NullDereference))
      | (_, _, p) \<Rightarrow>
          (case (if conditionalOpPriority > priority then Accept (chr CHR ''?'') p
                 else (False, p)) of
             (True, p) \<Rightarrow>
               (case NewNode (Some file) ln p of
                  (nd, p) \<Rightarrow>
                    andThen (parseBinaryExpression conditionalOpPriority None p)
                      (\<lambda>(ok, expression1, p).
                    if \<not> ok then Inr (False, expression, p)
                    else
                      case Expect (chr CHR '':'') p of
                        (False, p) \<Rightarrow> Inr (False, expression, p)
                      | (True, p) \<Rightarrow>
                          andThen (parseBinaryExpression conditionalOpPriority None p)
                            (\<lambda>(ok, expression2, p).
                          if \<not> ok then Inr (False, expression, p)
                          else
                            case (expression, expression1, expression2) of
                              (Some c, Some e1, Some e2) \<Rightarrow>
                                andThen (GetTypeCastRank (expressionType e1)
                                           (expressionType e2)) (\<lambda>rank.
                                  if rank = - 1
                                  then Inr (False, expression,
                                         Error ([CHR 0x27] @ '':'' @ [CHR 0x27]
                                            @ '' no possible conversion from from ''
                                            @ [CHR 0x27]
                                            @ printf_s (HLSLParser_GetTypeName (expressionType e2))
                                            @ [CHR 0x27] @ '' to '' @ [CHR 0x27]
                                            @ printf_s (HLSLParser_GetTypeName (expressionType e1))
                                            @ [CHR 0x27]) p)
                                  else ParseBinaryExpression_loop parseBinaryExpression n priority file ln
                                         needsEndParen
                                         (Some (HLSLConditionalExpression nd (expressionType e1)
                                                  c e1 e2)) p)
                            | _ \<Rightarrow> Inl NullDereference)))
           | (False, p) \<Rightarrow>
               if needsEndParen
               then (case Expect (chr CHR '')'') p of (ok, p) \<Rightarrow> Inr (ok, expression, p))
               else Inr (True, expression, p)))"

primrec ParseBinaryExpression ::
  "(HLSLExpression option \<Rightarrow> HLSLParser \<Rightarrow> HLSLExpression option parsed)
     \<Rightarrow> nat \<Rightarrow> int \<Rightarrow> HLSLExpression option \<Rightarrow> HLSLParser
     \<Rightarrow> HLSLExpression option parsed" where
  "ParseBinaryExpression parseExpression 0 priority expression p = Inl OutOfFuel"
| "ParseBinaryExpression parseExpression (Suc n) priority expression p =
     (case GetFileName p of
        (file, p) \<Rightarrow>
          let ln = GetLineNumber p
          in andThen (ParseTerminalExpression parseExpression n expression p)
               (\<lambda>(ok, (expression, needsEndParen), p).
                  if \<not> ok then Inr (False, expression, p)
                  else ParseBinaryExpression_loop (ParseBinaryExpression parseExpression n) n priority file ln needsEndParen
                         expression p))"

primrec ParseExpression_assign ::
  "(HLSLExpression option \<Rightarrow> HLSLParser \<Rightarrow> HLSLExpression option parsed)
     \<Rightarrow> nat \<Rightarrow> HLSLExpression option \<Rightarrow> HLSLParser \<Rightarrow> HLSLExpression option parsed" where
  "ParseExpression_assign parseExpression 0 expression p = Inl OutOfFuel"
| "ParseExpression_assign parseExpression (Suc n) expression p =
     (case AcceptAssign p of
        (True, Some assignOp, p) \<Rightarrow>
          andThen (ParseBinaryExpression parseExpression n 0 None p) (\<lambda>(ok, expression2, p).
            if \<not> ok then Inr (False, expression, p)
            else
              case expression of
                None \<Rightarrow> Inl NullDereference
              | Some e1 \<Rightarrow>
                  (case NewNode (fileName (HLSLExpression.node e1))
                          (line (HLSLExpression.node e1)) p of
                     (nd, p) \<Rightarrow>
                       (case expression2 of
                          None \<Rightarrow> Inl NullDereference
                        | Some e2 \<Rightarrow>
                            andThen (CheckTypeCast (expressionType e2) (expressionType e1) p)
                              (\<lambda>(ok, p).
                                 if \<not> ok then Inr (False, expression, p)
                                 else ParseExpression_assign parseExpression n
                                        (Some (HLSLBinaryExpression nd (expressionType e1)
                                                 assignOp e1 e2)) p))))
      | (_, _, p) \<Rightarrow> Inr (True, expression, p))"

primrec ParseExpression ::
  "nat \<Rightarrow> HLSLExpression option \<Rightarrow> HLSLParser \<Rightarrow> HLSLExpression option parsed" where
  "ParseExpression 0 expression p = Inl OutOfFuel"
| "ParseExpression (Suc n) expression p =
     andThen (ParseBinaryExpression (ParseExpression n) n 0 expression p) (\<lambda>(ok, expression, p).
       if \<not> ok then Inr (False, expression, p) else ParseExpression_assign (ParseExpression n) n expression p)"

text \<open>\<open>ParseExpressionList\<close> for a caller whose \<open>firstExpression\<close> is null.\<close>

definition ParseExpressionList ::
  "nat \<Rightarrow> int \<Rightarrow> bool \<Rightarrow> HLSLParser \<Rightarrow> (HLSLExpression list \<times> int) parsed" where
  "ParseExpressionList n endToken allowEmptyEnd p =
     ParseExpressionList_loop (ParseExpression n) n endToken allowEmptyEnd [] 0 p"

section \<open>Parsing declarations and statements (HLSLParser.cpp)\<close>

text \<open>
  \<open>AcceptDeclaration\<close> writes the type and the name through its reference parameters; no
  caller reads them after a \<open>false\<close>, so the result is the pair when it returns \<open>true\<close> and
  \<open>None\<close> when it returns \<open>false\<close>. The \<open>HLSLType\<close> it fills is fresh at every call.
\<close>

definition AcceptDeclaration ::
  "nat \<Rightarrow> bool \<Rightarrow> HLSLParser \<Rightarrow> fault + (HLSLType \<times> string) option \<times> HLSLParser" where
  "AcceptDeclaration n allowUnsizedArray p =
     (case AcceptType False True p of
        (False, _, _, _, p) \<Rightarrow> Inr (None, p)
      | (True, b, tn, isConst, p) \<Rightarrow>
          (case ExpectIdentifier p of
             (False, _, p) \<Rightarrow> Inr (None, p)
           | (True, nm, p) \<Rightarrow>
               (case Accept (chr CHR ''['') p of
                  (False, p) \<Rightarrow> Inr (Some (HLSLType b tn False None isConst, nm), p)
                | (True, p) \<Rightarrow>
                    (case Accept (chr CHR '']'') p of
                       (closed, p) \<Rightarrow>
                         if closed \<and> allowUnsizedArray
                         then Inr (Some (HLSLType b tn True None isConst, nm), p)
                         else
                           andThen (ParseExpression n None p) (\<lambda>(ok, size', p).
                             if \<not> ok then Inr (None, p)
                             else case Expect (chr CHR '']'') p of
                                    (False, p) \<Rightarrow> Inr (None, p)
                                  | (True, p) \<Rightarrow>
                                      Inr (Some (HLSLType b tn True size' isConst, nm), p))))))"

definition ExpectDeclaration ::
  "nat \<Rightarrow> bool \<Rightarrow> HLSLParser \<Rightarrow> fault + (HLSLType \<times> string) option \<times> HLSLParser" where
  "ExpectDeclaration n allowUnsizedArray p =
     andThen (AcceptDeclaration n allowUnsizedArray p) (\<lambda>(r, p).
       case r of
         None \<Rightarrow> Inr (None, Error ''Expected declaration'' p)
       | Some d \<Rightarrow> Inr (Some d, p))"

text \<open>
  \<open>ParseDeclarationAssignment\<close> fills \<open>declaration->assignment\<close>: the declaration is
  returned with it.
\<close>

definition setAssignment :: "HLSLExpression list \<Rightarrow> HLSLDeclaration \<Rightarrow> HLSLDeclaration" where
  "setAssignment es d =
     HLSLDeclaration (HLSLDeclaration.node d) (HLSLDeclaration.name d) (HLSLDeclaration.type' d)
       (HLSLDeclaration.registerName d) es"

definition ParseDeclarationAssignment ::
  "nat \<Rightarrow> HLSLDeclaration \<Rightarrow> HLSLParser \<Rightarrow> HLSLDeclaration parsed" where
  "ParseDeclarationAssignment n declaration p =
     (case Accept (chr CHR ''='') p of
        (True, p) \<Rightarrow>
          if array (HLSLDeclaration.type' declaration)
          then (case Expect (chr CHR ''{'') p of
                  (False, p) \<Rightarrow> Inr (False, declaration, p)
                | (True, p) \<Rightarrow>
                    andThen (ParseExpressionList n (chr CHR ''}'') True p)
                      (\<lambda>(ok, (values, numValues), p).
                         Inr (ok, setAssignment values declaration, p)))
          else andThen (ParseExpression n None p) (\<lambda>(ok, expression, p).
                 Inr (ok,
                      setAssignment (case expression of None \<Rightarrow> [] | Some e \<Rightarrow> [e])
                        declaration, p))
      | (False, p) \<Rightarrow> Inr (True, declaration, p))"

text \<open>\<open>ParseDeclaration\<close>; both callers pass a null \<open>declaration\<close>.\<close>

definition ParseDeclaration :: "nat \<Rightarrow> HLSLParser \<Rightarrow> HLSLDeclaration option parsed" where
  "ParseDeclaration n p =
     (case GetFileName p of
        (file, p) \<Rightarrow>
          let ln = GetLineNumber p
          in andThen (AcceptDeclaration n True p) (\<lambda>(r, p).
               case r of
                 None \<Rightarrow> Inr (False, None, p)
               | Some (ty, nm) \<Rightarrow>
                   (case NewNode (Some file) ln p of
                      (nd, p) \<Rightarrow>
                        andThen (ParseDeclarationAssignment n (HLSLDeclaration nd nm ty None [])
                                   (DeclareVariable nm ty p))
                          (\<lambda>(ok, declaration, p). Inr (ok, Some declaration, p)))))"

definition ParseFieldDeclaration :: "nat \<Rightarrow> HLSLParser \<Rightarrow> HLSLStructField option parsed" where
  "ParseFieldDeclaration n p =
     (case GetFileName p of
        (file, p) \<Rightarrow>
          (case NewNode (Some file) (GetLineNumber p) p of
             (nd, p) \<Rightarrow>
               andThen (ExpectDeclaration n False p) (\<lambda>(r, p).
                 case r of
                   None \<Rightarrow> Inr (False, None, p)
                 | Some (ty, nm) \<Rightarrow>
                     (case Accept (chr CHR '':'') p of
                        (True, p) \<Rightarrow>
                          (case ExpectIdentifier p of
                             (False, _, p) \<Rightarrow> Inr (False, Some (HLSLStructField nd nm ty None), p)
                           | (True, sem, p) \<Rightarrow>
                               (case Expect (chr CHR '';'') p of
                                  (ok, p) \<Rightarrow>
                                    Inr (ok, Some (HLSLStructField nd nm ty (Some sem)), p)))
                      | (False, p) \<Rightarrow>
                          (case Expect (chr CHR '';'') p of
                             (ok, p) \<Rightarrow> Inr (ok, Some (HLSLStructField nd nm ty None), p))))))"

definition ParseBufferFieldDeclaration ::
  "nat \<Rightarrow> HLSLParser \<Rightarrow> HLSLBufferField option parsed" where
  "ParseBufferFieldDeclaration n p =
     (case GetFileName p of
        (file, p) \<Rightarrow>
          (case NewNode (Some file) (GetLineNumber p) p of
             (nd, p) \<Rightarrow>
               andThen (AcceptDeclaration n False p) (\<lambda>(r, p).
                 case r of
                   None \<Rightarrow> Inr (False, None, p)
                 | Some (ty, nm) \<Rightarrow>
                     let fld = Some (HLSLBufferField nd nm ty)
                     in
                     case Accept (chr CHR '':'') p of
                       (True, p) \<Rightarrow>
                         (case Expect HLSLToken_PackOffset p of
                            (False, p) \<Rightarrow> Inr (False, fld, p)
                          | (True, p) \<Rightarrow>
                         (case Expect (chr CHR ''('') p of
                            (False, p) \<Rightarrow> Inr (False, fld, p)
                          | (True, p) \<Rightarrow>
                         (case ExpectIdentifier p of
                            (False, _, p) \<Rightarrow> Inr (False, fld, p)
                          | (True, constantName, p) \<Rightarrow>
                         (case Expect (chr CHR ''.'') p of
                            (False, p) \<Rightarrow> Inr (False, fld, p)
                          | (True, p) \<Rightarrow>
                         (case ExpectIdentifier p of
                            (False, _, p) \<Rightarrow> Inr (False, fld, p)
                          | (True, swizzleMask, p) \<Rightarrow>
                         (case Expect (chr CHR '')'') p of
                            (False, p) \<Rightarrow> Inr (False, fld, p)
                          | (True, p) \<Rightarrow>
                              (case Expect (chr CHR '';'') p of
                                 (ok, p) \<Rightarrow> Inr (ok, fld, p))))))))
                     | (False, p) \<Rightarrow>
                         (case Expect (chr CHR '';'') p of (ok, p) \<Rightarrow> Inr (ok, fld, p)))))"

text \<open>The modifier and the interpolation modifier of an argument.\<close>

definition ParseArgumentList_modifier :: "HLSLParser \<Rightarrow> HLSLArgumentModifier \<times> HLSLParser" where
  "ParseArgumentList_modifier p =
     (case Accept HLSLToken_Uniform p of
        (True, p) \<Rightarrow> (HLSLArgumentModifier_Uniform, p)
      | (False, p) \<Rightarrow>
     (case Accept HLSLToken_In p of
        (True, p) \<Rightarrow> (HLSLArgumentModifier_In, p)
      | (False, p) \<Rightarrow>
     (case Accept HLSLToken_InOut p of
        (True, p) \<Rightarrow> (HLSLArgumentModifier_Inout, p)
      | (False, p) \<Rightarrow> (HLSLArgumentModifier_None, p))))"

definition ParseArgumentList_interpolation :: "HLSLParser \<Rightarrow> HLSLParser" where
  "ParseArgumentList_interpolation p =
     (case AcceptWord ''linear'' p of (True, p) \<Rightarrow> p | (False, p) \<Rightarrow>
     (case AcceptWord ''centroid'' p of (True, p) \<Rightarrow> p | (False, p) \<Rightarrow>
     (case AcceptWord ''nointerpolation'' p of (True, p) \<Rightarrow> p | (False, p) \<Rightarrow>
     (case AcceptWord ''noperspective'' p of (True, p) \<Rightarrow> p | (False, p) \<Rightarrow>
     (case AcceptWord ''sample'' p of (True, p) \<Rightarrow> p | (False, p) \<Rightarrow> p)))))"

text \<open>The loop of \<open>ParseArgumentList\<close>; the caller's \<open>firstArgument\<close> is null.\<close>

primrec ParseArgumentList_loop ::
  "nat \<Rightarrow> nat \<Rightarrow> int \<Rightarrow> string \<Rightarrow> int \<Rightarrow> HLSLArgument list \<Rightarrow> int \<Rightarrow> HLSLParser
     \<Rightarrow> (HLSLArgument list \<times> int) parsed" where
  "ParseArgumentList_loop 0 m endToken file ln arguments numArgs p = Inl OutOfFuel"
| "ParseArgumentList_loop (Suc n) m endToken file ln arguments numArgs p =
     (case Accept endToken p of
        (True, p) \<Rightarrow> Inr (True, (arguments, numArgs), p)
      | (False, p) \<Rightarrow>
     (case CheckForUnexpectedEndOfStream endToken p of
        (True, p) \<Rightarrow> Inr (False, (arguments, numArgs), p)
      | (False, p) \<Rightarrow>
     (case (if numArgs > 0 then Expect (chr CHR '','') p else (True, p)) of
        (False, p) \<Rightarrow> Inr (False, (arguments, numArgs), p)
      | (True, p) \<Rightarrow>
     (case NewNode (Some file) ln p of
        (nd, p) \<Rightarrow>
     (case ParseArgumentList_modifier p of
        (modifier', p) \<Rightarrow>
          andThen (ExpectDeclaration m True p) (\<lambda>(r, p).
            case r of
              None \<Rightarrow> Inr (False, (arguments, numArgs), p)
            | Some (ty, nm) \<Rightarrow>
                (case Accept (chr CHR '':'') (DeclareVariable nm ty p) of
                   (hasSemantic, p) \<Rightarrow>
                     (case (if hasSemantic
                            then (case ExpectIdentifier p of (ok, s, p) \<Rightarrow> (ok, Some s, p))
                            else (True, None, p)) of
                        (False, _, p) \<Rightarrow> Inr (False, (arguments, numArgs), p)
                      | (True, sem, p) \<Rightarrow>
                          ParseArgumentList_loop n m endToken file ln
                            (arguments @ [HLSLArgument nd (Some nm) modifier' ty sem])
                            (numArgs + 1) (ParseArgumentList_interpolation p)))))))))"

definition ParseArgumentList ::
  "nat \<Rightarrow> int \<Rightarrow> HLSLParser \<Rightarrow> (HLSLArgument list \<times> int) parsed" where
  "ParseArgumentList n endToken p =
     (case GetFileName p of
        (file, p) \<Rightarrow> ParseArgumentList_loop n n endToken file (GetLineNumber p) [] 0 p)"

text \<open>
  \<open>ParseStatement\<close>, \<open>ParseBlock\<close> and \<open>ParseStatementOrBlock\<close> call each other; as with
  the expressions, each is written with the \<open>ParseStatement\<close> it calls as its first
  argument, and \<open>ParseStatement\<close> hands them itself with one unit of fuel less. \<open>m\<close> is
  the fuel of the expressions and declarations inside. A statement pointer that is set
  is \<open>Some\<close>; a chain of statements is a list, and every caller passes a null
  \<open>firstStatement\<close>. No caller reads the statement after a \<open>false\<close>.
\<close>

type_synonym parseStatement = "HLSLType \<Rightarrow> HLSLParser \<Rightarrow> HLSLStatement option parsed"

primrec ParseBlock ::
  "parseStatement \<Rightarrow> nat \<Rightarrow> HLSLStatement list \<Rightarrow> HLSLType \<Rightarrow> HLSLParser
     \<Rightarrow> HLSLStatement list parsed" where
  "ParseBlock parseStatement 0 statements returnType' p = Inl OutOfFuel"
| "ParseBlock parseStatement (Suc n) statements returnType' p =
     (case Accept (chr CHR ''}'') p of
        (True, p) \<Rightarrow> Inr (True, statements, p)
      | (False, p) \<Rightarrow>
     (case CheckForUnexpectedEndOfStream (chr CHR ''}'') p of
        (True, p) \<Rightarrow> Inr (False, statements, p)
      | (False, p) \<Rightarrow>
          andThen (parseStatement returnType' p) (\<lambda>(ok, statement, p).
            if \<not> ok then Inr (False, statements, p)
            else ParseBlock parseStatement n
                   (case statement of None \<Rightarrow> statements | Some s \<Rightarrow> statements @ [s])
                   returnType' p)))"

definition ParseStatementOrBlock ::
  "parseStatement \<Rightarrow> nat \<Rightarrow> HLSLType \<Rightarrow> HLSLParser \<Rightarrow> HLSLStatement list parsed" where
  "ParseStatementOrBlock parseStatement n returnType' p =
     (case Accept (chr CHR ''{'') p of
        (True, p) \<Rightarrow>
          andThen (ParseBlock parseStatement n [] returnType' (BeginScope p))
            (\<lambda>(ok, statements, p).
               if \<not> ok then Inr (False, statements, p)
               else andThen (EndScope p) (\<lambda>p. Inr (True, statements, p)))
      | (False, p) \<Rightarrow>
          andThen (parseStatement returnType' p) (\<lambda>(ok, statement, p).
            Inr (ok, (case statement of None \<Rightarrow> [] | Some s \<Rightarrow> [s]), p)))"

text \<open>The \<open>if\<close> statement, after \<open>Accept(HLSLToken_If)\<close>.\<close>

definition ParseStatement_if ::
  "parseStatement \<Rightarrow> nat \<Rightarrow> nat \<Rightarrow> string \<Rightarrow> int \<Rightarrow> HLSLType \<Rightarrow> HLSLParser
     \<Rightarrow> HLSLStatement option parsed" where
  "ParseStatement_if parseStatement n m file ln returnType' p =
     (case NewNode (Some file) ln p of
        (nd, p) \<Rightarrow>
     (case Expect (chr CHR ''('') p of
        (False, p) \<Rightarrow> Inr (False, None, p)
      | (True, p) \<Rightarrow>
          andThen (ParseExpression m None p) (\<lambda>(ok, condition, p).
            if \<not> ok then Inr (False, None, p)
            else
              case Expect (chr CHR '')'') p of
                (False, p) \<Rightarrow> Inr (False, None, p)
              | (True, p) \<Rightarrow>
                  andThen (ParseStatementOrBlock parseStatement n returnType' p)
                    (\<lambda>(ok, body, p).
                       if \<not> ok then Inr (False, None, p)
                       else
                         andThen
                           (case Accept HLSLToken_Else p of
                              (True, p) \<Rightarrow> ParseStatementOrBlock parseStatement n returnType' p
                            | (False, p) \<Rightarrow> Inr (True, [], p))
                           (\<lambda>(ok, elseStatement, p).
                              case condition of
                                None \<Rightarrow> Inl NullDereference
                              | Some c \<Rightarrow>
                                  Inr (ok, Some (HLSLIfStatement nd c body elseStatement),
                                       p))))))"

text \<open>
  The \<open>for\<close> statement, after \<open>Accept(HLSLToken_For)\<close>, in two parts: the header up to
  the closing parenthesis, and the body. The declaration must parse; the results of the two
  calls of \<open>ParseExpression\<close> are dropped, and the statement keeps what they left in
  \<open>condition\<close> and \<open>increment\<close>.
\<close>

definition ParseStatement_forHeader ::
  "nat \<Rightarrow> string \<Rightarrow> int \<Rightarrow> HLSLParser
     \<Rightarrow> (HLSLNode \<times> HLSLDeclaration option \<times> HLSLExpression option \<times> HLSLExpression option)
          parsed" where
  "ParseStatement_forHeader m file ln p =
     (case NewNode (Some file) ln p of
        (nd, p) \<Rightarrow>
     (case Expect (chr CHR ''('') p of
        (False, p) \<Rightarrow> Inr (False, (nd, None, None, None), p)
      | (True, p) \<Rightarrow>
          andThen (ParseDeclaration m (BeginScope p)) (\<lambda>(ok, initialization, p).
            if \<not> ok then Inr (False, (nd, initialization, None, None), p)
            else
              case Expect (chr CHR '';'') p of
                (False, p) \<Rightarrow> Inr (False, (nd, initialization, None, None), p)
              | (True, p) \<Rightarrow>
                  andThen (ParseExpression m None p) (\<lambda>(_, condition, p).
                    case Expect (chr CHR '';'') p of
                      (False, p) \<Rightarrow> Inr (False, (nd, initialization, condition, None), p)
                    | (True, p) \<Rightarrow>
                        andThen (ParseExpression m None p) (\<lambda>(_, increment, p).
                          case Expect (chr CHR '')'') p of
                            (ok, p) \<Rightarrow>
                              Inr (ok, (nd, initialization, condition, increment), p))))))"

definition ParseStatement_for ::
  "parseStatement \<Rightarrow> nat \<Rightarrow> nat \<Rightarrow> string \<Rightarrow> int \<Rightarrow> HLSLType \<Rightarrow> HLSLParser
     \<Rightarrow> HLSLStatement option parsed" where
  "ParseStatement_for parseStatement n m file ln returnType' p =
     andThen (ParseStatement_forHeader m file ln p)
       (\<lambda>(ok, (nd, initialization, condition, increment), p).
          if \<not> ok then Inr (False, None, p)
          else
            andThen (ParseStatementOrBlock parseStatement n returnType' p) (\<lambda>(ok, body, p).
              if \<not> ok then Inr (False, None, p)
              else
                andThen (EndScope p) (\<lambda>p.
                  case initialization of
                    None \<Rightarrow> Inl NullDereference
                  | Some d \<Rightarrow>
                      Inr (True, Some (HLSLForStatement nd d condition increment body), p))))"

text \<open>
  The \<open>return\<close> statement, after \<open>Accept(HLSLToken_Return)\<close>. Whether the \<open>;\<close> was accepted
  or an expression parsed, \<open>returnStatement->expression->expressionType\<close> is read next.
\<close>

definition ParseStatement_return ::
  "nat \<Rightarrow> string \<Rightarrow> int \<Rightarrow> HLSLType \<Rightarrow> HLSLParser \<Rightarrow> HLSLStatement option parsed" where
  "ParseStatement_return m file ln returnType' p =
     (case NewNode (Some file) ln p of
        (nd, p) \<Rightarrow>
          andThen
            (case Accept (chr CHR '';'') p of
               (True, p) \<Rightarrow> Inr (True, None, p)
             | (False, p) \<Rightarrow> ParseExpression m None p)
            (\<lambda>(ok, expression, p).
               if \<not> ok then Inr (False, None, p)
               else
                 case expression of
                   None \<Rightarrow> Inl NullDereference
                 | Some e \<Rightarrow>
                     andThen (CheckTypeCast (expressionType e) returnType' p) (\<lambda>(ok, p).
                       if \<not> ok then Inr (False, None, p)
                       else case Expect (chr CHR '';'') p of
                              (ok, p) \<Rightarrow>
                                Inr (ok, Some (HLSLReturnStatement nd (Some e)), p))))"

text \<open>The statements of one keyword: \<open>discard\<close>, \<open>break\<close>, \<open>continue\<close>.\<close>

definition ParseStatement_keyword ::
  "(HLSLNode \<Rightarrow> HLSLStatement) \<Rightarrow> string \<Rightarrow> int \<Rightarrow> HLSLParser \<Rightarrow> HLSLStatement option parsed"
  where
  "ParseStatement_keyword mk file ln p =
     (case NewNode (Some file) ln p of
        (nd, p) \<Rightarrow>
          (case Expect (chr CHR '';'') p of (ok, p) \<Rightarrow> Inr (ok, Some (mk nd), p)))"

text \<open>The end of \<open>ParseStatement\<close>: a declaration, or else an expression, and then \<open>;\<close>.\<close>

definition ParseStatement_other ::
  "nat \<Rightarrow> string \<Rightarrow> int \<Rightarrow> HLSLParser \<Rightarrow> HLSLStatement option parsed" where
  "ParseStatement_other m file ln p =
     andThen (ParseDeclaration m p) (\<lambda>(ok, declaration, p).
     andThen
       (if ok
        then Inr (map_option HLSLDeclarationStatement declaration, p)
        else andThen (ParseExpression m None p) (\<lambda>(ok, expression, p).
               if ok
               then (case NewNode (Some file) ln p of
                       (nd, p) \<Rightarrow>
                         (case expression of
                            None \<Rightarrow> Inl NullDereference
                          | Some e \<Rightarrow> Inr (Some (HLSLExpressionStatement nd e), p)))
               else Inr (None, p)))
       (\<lambda>(statement, p).
          case Expect (chr CHR '';'') p of (ok, p) \<Rightarrow> Inr (ok, statement, p)))"

definition ParseStatement_body ::
  "parseStatement \<Rightarrow> nat \<Rightarrow> nat \<Rightarrow> HLSLType \<Rightarrow> HLSLParser \<Rightarrow> HLSLStatement option parsed"
  where
  "ParseStatement_body parseStatement n m returnType' p =
     (case GetFileName p of
        (file, p) \<Rightarrow>
          let ln = GetLineNumber p
          in
          case Accept (chr CHR '';'') p of
            (True, p) \<Rightarrow> Inr (True, None, p)
          | (False, p) \<Rightarrow>
          (case Accept HLSLToken_If p of
             (True, p) \<Rightarrow> ParseStatement_if parseStatement n m file ln returnType' p
           | (False, p) \<Rightarrow>
          (case Accept HLSLToken_For p of
             (True, p) \<Rightarrow> ParseStatement_for parseStatement n m file ln returnType' p
           | (False, p) \<Rightarrow>
          (case Accept HLSLToken_Discard p of
             (True, p) \<Rightarrow> ParseStatement_keyword HLSLDiscardStatement file ln p
           | (False, p) \<Rightarrow>
          (case Accept HLSLToken_Break p of
             (True, p) \<Rightarrow> ParseStatement_keyword HLSLBreakStatement file ln p
           | (False, p) \<Rightarrow>
          (case Accept HLSLToken_Continue p of
             (True, p) \<Rightarrow> ParseStatement_keyword HLSLContinueStatement file ln p
           | (False, p) \<Rightarrow>
          (case Accept HLSLToken_Return p of
             (True, p) \<Rightarrow> ParseStatement_return m file ln returnType' p
           | (False, p) \<Rightarrow> ParseStatement_other m file ln p)))))))"

primrec ParseStatement ::
  "nat \<Rightarrow> nat \<Rightarrow> HLSLType \<Rightarrow> HLSLParser \<Rightarrow> HLSLStatement option parsed" where
  "ParseStatement 0 m returnType' p = Inl OutOfFuel"
| "ParseStatement (Suc n) m returnType' p =
     ParseStatement_body (ParseStatement n m) n m returnType' p"

section \<open>The top level (HLSLParser.cpp)\<close>

text \<open>
  The struct is in \<open>m_userTypes\<close> from its opening brace on, and a field is visible
  through that pointer as soon as it is linked: the loop rewrites the last entry of
  \<open>m_userTypes\<close>, which is this struct, after each field.
\<close>

definition addField :: "HLSLStructField \<Rightarrow> HLSLStruct \<Rightarrow> HLSLStruct" where
  "addField fld structure =
     HLSLStruct (HLSLStruct.node structure) (HLSLStruct.name structure)
       (HLSLStruct.field structure @ [fld])"

primrec ParseTopLevel_structFields ::
  "nat \<Rightarrow> nat \<Rightarrow> HLSLStruct \<Rightarrow> HLSLParser \<Rightarrow> HLSLStruct parsed" where
  "ParseTopLevel_structFields 0 m structure p = Inl OutOfFuel"
| "ParseTopLevel_structFields (Suc n) m structure p =
     (case Accept (chr CHR ''}'') p of
        (True, p) \<Rightarrow> Inr (True, structure, p)
      | (False, p) \<Rightarrow>
     (case CheckForUnexpectedEndOfStream (chr CHR ''}'') p of
        (True, p) \<Rightarrow> Inr (False, structure, p)
      | (False, p) \<Rightarrow>
          andThen (ParseFieldDeclaration m p) (\<lambda>(ok, fld, p).
            if \<not> ok then Inr (False, structure, p)
            else
              case fld of
                None \<Rightarrow> Inl AssertionFailure
              | Some f \<Rightarrow>
                  let structure = addField f structure
                  in ParseTopLevel_structFields n m structure
                       (p \<lparr> m_userTypes := butlast (m_userTypes p) @ [structure] \<rparr>))))"

definition ParseTopLevel_struct ::
  "nat \<Rightarrow> string \<Rightarrow> int \<Rightarrow> HLSLParser \<Rightarrow> HLSLStatement option parsed" where
  "ParseTopLevel_struct n file ln p =
     (case ExpectIdentifier p of
        (False, _, p) \<Rightarrow> Inr (False, None, p)
      | (True, structName, p) \<Rightarrow>
          if FindUserDefinedType (Some structName) p \<noteq> None
          then Inr (False, None, Error (''struct '' @ structName @ '' already defined'') p)
          else
            case Expect (chr CHR ''{'') p of
              (False, p) \<Rightarrow> Inr (False, None, p)
            | (True, p) \<Rightarrow>
                (case NewNode (Some file) ln p of
                   (nd, p) \<Rightarrow>
                     let structure = HLSLStruct nd structName []
                     in andThen (ParseTopLevel_structFields n n structure
                                   (p \<lparr> m_userTypes := m_userTypes p @ [structure] \<rparr>))
                          (\<lambda>(ok, structure, p).
                             Inr (ok, Some (HLSLStructStatement structure), p))))"

text \<open>\<open>: register(name)\<close>, after the colon.\<close>

definition ParseTopLevel_register :: "HLSLParser \<Rightarrow> bool \<times> string option \<times> HLSLParser" where
  "ParseTopLevel_register p =
     (case Expect HLSLToken_Register p of
        (False, p) \<Rightarrow> (False, None, p)
      | (True, p) \<Rightarrow>
     (case Expect (chr CHR ''('') p of
        (False, p) \<Rightarrow> (False, None, p)
      | (True, p) \<Rightarrow>
     (case ExpectIdentifier p of
        (False, _, p) \<Rightarrow> (False, None, p)
      | (True, registerName', p) \<Rightarrow>
     (case Expect (chr CHR '')'') p of
        (ok, p) \<Rightarrow> (ok, Some registerName', p)))))"

primrec ParseTopLevel_bufferFields ::
  "nat \<Rightarrow> nat \<Rightarrow> HLSLBufferField list \<Rightarrow> HLSLParser \<Rightarrow> HLSLBufferField list parsed" where
  "ParseTopLevel_bufferFields 0 m flds p = Inl OutOfFuel"
| "ParseTopLevel_bufferFields (Suc n) m flds p =
     (case Accept (chr CHR ''}'') p of
        (True, p) \<Rightarrow> Inr (True, flds, p)
      | (False, p) \<Rightarrow>
     (case CheckForUnexpectedEndOfStream (chr CHR ''}'') p of
        (True, p) \<Rightarrow> Inr (False, flds, p)
      | (False, p) \<Rightarrow>
          andThen (ParseBufferFieldDeclaration m p) (\<lambda>(ok, fld, p).
            if \<not> ok then Inr (False, flds, Error ''Expected variable declaration'' p)
            else
              case fld of
                None \<Rightarrow> Inl NullDereference
              | Some f \<Rightarrow>
                  ParseTopLevel_bufferFields n m (flds @ [f])
                    (DeclareVariable (HLSLBufferField.name f) (HLSLBufferField.type' f) p))))"

definition ParseTopLevel_buffer ::
  "nat \<Rightarrow> string \<Rightarrow> int \<Rightarrow> HLSLParser \<Rightarrow> HLSLStatement option parsed" where
  "ParseTopLevel_buffer n file ln p =
     (case NewNode (Some file) ln p of
        (nd, p) \<Rightarrow>
     (case AcceptIdentifier p of
        (_, bufferName, p) \<Rightarrow>
     (case Accept (chr CHR '':'') p of
        (hasRegister, p) \<Rightarrow>
     (case (if hasRegister then ParseTopLevel_register p else (True, None, p)) of
        (False, _, p) \<Rightarrow> Inr (False, None, p)
      | (True, registerName', p) \<Rightarrow>
     (case Expect (chr CHR ''{'') p of
        (False, p) \<Rightarrow> Inr (False, None, p)
      | (True, p) \<Rightarrow>
          andThen (ParseTopLevel_bufferFields n n [] p) (\<lambda>(ok, flds, p).
            Inr (ok, Some (HLSLBufferStatement (HLSLBuffer nd bufferName registerName' flds)),
                 p)))))))"

text \<open>
  A function: only the base type and the type name of \<open>returnType\<close> are set. The function
  is in \<open>m_functions\<close> before its body is parsed.
\<close>

definition ParseTopLevel_function ::
  "nat \<Rightarrow> string \<Rightarrow> int \<Rightarrow> HLSLBaseType \<Rightarrow> string option \<Rightarrow> string \<Rightarrow> HLSLParser
     \<Rightarrow> HLSLStatement option parsed" where
  "ParseTopLevel_function n file ln b tn globalName p =
     (case NewNode (Some file) ln p of
        (nd, p) \<Rightarrow>
          let returnType' = HLSLType b tn False None False
          in
          andThen (ParseArgumentList n (chr CHR '')'') (BeginScope p))
            (\<lambda>(ok, (arguments, numArgs), p).
          if \<not> ok then Inr (False, None, p)
          else
            case Accept (chr CHR '':'') p of
              (hasSemantic, p) \<Rightarrow>
                (case (if hasSemantic
                       then (case ExpectIdentifier p of (ok, s, p) \<Rightarrow> (ok, Some s, p))
                       else (True, None, p)) of
                   (False, _, p) \<Rightarrow> Inr (False, None, p)
                 | (True, sem, p) \<Rightarrow>
                     let fn = HLSLFunction nd globalName returnType' sem numArgs arguments
                     in
                     case Expect (chr CHR ''{'') (p \<lparr> m_functions := m_functions p @ [fn] \<rparr>) of
                       (False, p) \<Rightarrow> Inr (False, None, p)
                     | (True, p) \<Rightarrow>
                         andThen (ParseBlock (ParseStatement n n) n [] returnType' p)
                           (\<lambda>(ok, body, p).
                              if \<not> ok then Inr (False, None, p)
                              else andThen (EndScope p) (\<lambda>p.
                                     Inr (True, Some (HLSLFunctionStatement fn body), p))))))"

text \<open>
  A global declaration: of the type only \<open>baseType\<close> and \<open>constant\<close> are set (not the type
  name), then \<open>array\<close> and \<open>arraySize\<close>.
\<close>

definition ParseTopLevel_declaration ::
  "nat \<Rightarrow> string \<Rightarrow> int \<Rightarrow> HLSLBaseType \<Rightarrow> bool \<Rightarrow> string \<Rightarrow> HLSLParser
     \<Rightarrow> HLSLStatement option parsed" where
  "ParseTopLevel_declaration n file ln b isConst globalName p =
     (case NewNode (Some file) ln p of
        (nd, p) \<Rightarrow>
          andThen
            (case Accept (chr CHR ''['') p of
               (True, p) \<Rightarrow>
                 (case Accept (chr CHR '']'') p of
                    (True, p) \<Rightarrow> Inr (True, HLSLType b None True None isConst, p)
                  | (False, p) \<Rightarrow>
                      andThen (ParseExpression n None p) (\<lambda>(ok, size', p).
                        if \<not> ok then Inr (False, HLSLType b None False size' isConst, p)
                        else case Expect (chr CHR '']'') p of
                               (ok, p) \<Rightarrow> Inr (ok, HLSLType b None ok size' isConst, p)))
             | (False, p) \<Rightarrow> Inr (True, HLSLType b None False None isConst, p))
            (\<lambda>(ok, ty, p).
          if \<not> ok then Inr (False, None, p)
          else
            case Accept (chr CHR '':'') p of
              (hasRegister, p) \<Rightarrow>
                (case (if hasRegister then ParseTopLevel_register p else (True, None, p)) of
                   (False, _, p) \<Rightarrow> Inr (False, None, p)
                 | (True, registerName', p) \<Rightarrow>
                     andThen (ParseDeclarationAssignment n
                                (HLSLDeclaration nd globalName ty registerName' [])
                                (DeclareVariable globalName ty p))
                       (\<lambda>(ok, declaration, p).
                          if \<not> ok then Inr (False, None, p)
                          else Inr (True, Some (HLSLDeclarationStatement declaration), p)))))"

text \<open>
  \<open>ParseTopLevel\<close>. A function returns at its closing brace; every other path ends in
  \<open>Expect(';')\<close>.
\<close>

definition ParseTopLevel :: "nat \<Rightarrow> HLSLParser \<Rightarrow> HLSLStatement option parsed" where
  "ParseTopLevel n p =
     (let ln = GetLineNumber p
      in case GetFileName p of
           (file, p) \<Rightarrow>
             andThen
               (case Accept HLSLToken_Struct p of
                  (True, p) \<Rightarrow>
                    andThen (ParseTopLevel_struct n file ln p) (\<lambda>(ok, statement, p).
                      Inr (ok, False, statement, p))
                | (False, p) \<Rightarrow>
               (case Accept HLSLToken_CBuffer p of
                  (isCBuffer, p) \<Rightarrow>
               (case (if isCBuffer then (True, p) else Accept HLSLToken_TBuffer p) of
                  (True, p) \<Rightarrow>
                    andThen (ParseTopLevel_buffer n file ln p) (\<lambda>(ok, statement, p).
                      Inr (ok, False, statement, p))
                | (False, p) \<Rightarrow>
               (case AcceptType True True p of
                  (True, b, tn, isConst, p) \<Rightarrow>
                    (case ExpectIdentifier p of
                       (False, _, p) \<Rightarrow> Inr (False, False, None, p)
                     | (True, globalName, p) \<Rightarrow>
                         (case Accept (chr CHR ''('') p of
                            (True, p) \<Rightarrow>
                              andThen (ParseTopLevel_function n file ln b tn globalName p)
                                (\<lambda>(ok, statement, p). Inr (ok, True, statement, p))
                          | (False, p) \<Rightarrow>
                              andThen (ParseTopLevel_declaration n file ln b isConst globalName p)
                                (\<lambda>(ok, statement, p). Inr (ok, False, statement, p))))
                | (False, _, _, _, p) \<Rightarrow> Inr (True, False, None, p)))))
               (\<lambda>(ok, returned, statement, p).
                  if \<not> ok then Inr (False, statement, p)
                  else if returned then Inr (True, statement, p)
                  else case Expect (chr CHR '';'') p of
                         (ok, p) \<Rightarrow> Inr (ok, statement, p)))"

text \<open>
  \<open>Parse\<close>: the parser takes the tree, and the statements go under its root. The result
  is the flag and the parser, whose \<open>m_tree\<close> is the caller's tree afterwards.
\<close>

primrec Parse_loop :: "nat \<Rightarrow> nat \<Rightarrow> HLSLParser \<Rightarrow> fault + bool \<times> HLSLParser" where
  "Parse_loop 0 m p = Inl OutOfFuel"
| "Parse_loop (Suc n) m p =
     (case Accept HLSLToken_EndOfStream p of
        (True, p) \<Rightarrow> Inr (True, p)
      | (False, p) \<Rightarrow>
          andThen (ParseTopLevel m p) (\<lambda>(ok, statement, p).
            if \<not> ok then Inr (False, p)
            else Parse_loop n m
                   (case statement of
                      None \<Rightarrow> p
                    | Some s \<Rightarrow>
                        p \<lparr> m_tree := (m_tree p) \<lparr> m_root := m_root (m_tree p) @ [s] \<rparr> \<rparr>)))"

definition Parse :: "nat \<Rightarrow> HLSLTree \<Rightarrow> HLSLParser \<Rightarrow> fault + bool \<times> HLSLParser" where
  "Parse n tree p = Parse_loop n n (p \<lparr> m_tree := tree \<rparr>)"
section \<open>The GLSL generator (GLSLGenerator.h, GLSLGenerator.cpp)\<close>

datatype Target = Target_VertexShader | Target_FragmentShader

text \<open>
  Modelled from the spec: the code writer (\<open>CodeWriter\<close>, whose implementation is not
  among the sources; the specification calls it an indented line-oriented sink with
  \<open>#line\<close> emission). The writer's state is the sequence of calls made on it, each with the
  text \<open>printf\<close> formats for it: what the generator emits is this sequence, and how the
  writer lays a call out (indentation, line markers) is not modelled. \<open>WriteLineAt\<close> is the
  overload of \<open>WriteLine\<close> that takes a file name and a line number.
\<close>

datatype CodeWriterCall =
    BeginLineCall int "string option" int
  | WriteCall string
  | EndLineCall "string option"
  | WriteLineCall int string
  | WriteLineAtCall int "string option" int string

text \<open>
  \<open>GLSLGenerator\<close>. The \<open>char[64]\<close> buffers are strings. \<open>m_cerr\<close> is not a member: it is
  what \<open>Log_Error\<close> has written to \<open>std::cerr\<close> on the generator's behalf, a line at a
  time.
\<close>

record GLSLGenerator =
  m_writer :: "CodeWriterCall list"
  m_tree :: "HLSLTree option"
  m_entryName :: "string option"
  m_target :: Target
  m_outputPosition :: bool
  m_outAttribPrefix :: "string option"
  m_inAttribPrefix :: "string option"
  m_matrixRowFunction :: string
  m_clipFunction :: string
  m_tex2DlodFunction :: string
  m_texCUBEbiasFunction :: string
  m_scalarSwizzle2Function :: string
  m_scalarSwizzle3Function :: string
  m_scalarSwizzle4Function :: string
  m_sinCosFunction :: string
  m_error :: bool
  m_reservedWord :: "string list"
  m_cerr :: "string list"

definition GLSLGenerator_new :: GLSLGenerator where
  "GLSLGenerator_new =
     \<lparr> m_writer = [], m_tree = None, m_entryName = None, m_target = Target_VertexShader,
       m_outputPosition = False, m_outAttribPrefix = None, m_inAttribPrefix = None,
       m_matrixRowFunction = [], m_clipFunction = [], m_tex2DlodFunction = [],
       m_texCUBEbiasFunction = [], m_scalarSwizzle2Function = [],
       m_scalarSwizzle3Function = [], m_scalarSwizzle4Function = [], m_sinCosFunction = [],
       m_error = False, m_reservedWord = [[], [], [], []], m_cerr = [] \<rparr>"

definition kBoolType :: HLSLType where
  "kBoolType = HLSLType_of HLSLBaseType_Bool"

definition builtInSemantics :: "(string \<times> string) list" where
  "builtInSemantics = [(''SV_POSITION'', ''gl_Position''), (''DEPTH'', ''gl_FragDepth'')]"

definition s_reservedWord :: "string list" where
  "s_reservedWord = [''output'', ''input'', ''mod'', ''mix'']"

subsection \<open>The writer's calls, \<open>Log_Error\<close> and \<open>Error\<close>\<close>

definition BeginLine :: "int \<Rightarrow> string option \<Rightarrow> int \<Rightarrow> GLSLGenerator \<Rightarrow> GLSLGenerator" where
  "BeginLine indent file ln g = g \<lparr> m_writer := m_writer g @ [BeginLineCall indent file ln] \<rparr>"

definition Write :: "string \<Rightarrow> GLSLGenerator \<Rightarrow> GLSLGenerator" where
  "Write s g = g \<lparr> m_writer := m_writer g @ [WriteCall s] \<rparr>"

definition EndLine :: "string option \<Rightarrow> GLSLGenerator \<Rightarrow> GLSLGenerator" where
  "EndLine s g = g \<lparr> m_writer := m_writer g @ [EndLineCall s] \<rparr>"

definition WriteLine :: "int \<Rightarrow> string \<Rightarrow> GLSLGenerator \<Rightarrow> GLSLGenerator" where
  "WriteLine indent s g = g \<lparr> m_writer := m_writer g @ [WriteLineCall indent s] \<rparr>"

definition WriteLineAt ::
  "int \<Rightarrow> string option \<Rightarrow> int \<Rightarrow> string \<Rightarrow> GLSLGenerator \<Rightarrow> GLSLGenerator" where
  "WriteLineAt indent file ln s g =
     g \<lparr> m_writer := m_writer g @ [WriteLineAtCall indent file ln s] \<rparr>"

text \<open>\<open>String_Printf\<close> into a buffer of \<open>bufferSize\<close> bytes keeps \<open>bufferSize - 1\<close> characters.\<close>

definition String_Printf :: "int \<Rightarrow> string \<Rightarrow> string" where
  "String_Printf bufferSize s = take (nat (bufferSize - 1)) s"

text \<open>\<open>Log_Error\<close> (Log.cpp): one line on \<open>std::cerr\<close>.\<close>

definition Log_Error :: "string \<Rightarrow> string" where
  "Log_Error message = ''ERROR: '' @ String_Printf 1024 message"

definition GLSLGenerator_Error :: "string \<Rightarrow> GLSLGenerator \<Rightarrow> GLSLGenerator" where
  "GLSLGenerator_Error message g =
     (if m_error g then g
      else g \<lparr> m_error := True, m_cerr := m_cerr g @ [Log_Error (take 1023 message)] \<rparr>)"

subsection \<open>Names\<close>

text \<open>\<open>GetTypeName\<close> of GLSLGenerator.cpp; an unknown base type fails its \<open>ASSERT\<close>.\<close>

fun GLSLGenerator_GetTypeName :: "HLSLType \<Rightarrow> fault + string" where
  "GLSLGenerator_GetTypeName t =
     (case baseType t of
        HLSLBaseType_Void \<Rightarrow> Inr ''void''
      | HLSLBaseType_Float \<Rightarrow> Inr ''float''
      | HLSLBaseType_Float2 \<Rightarrow> Inr ''vec2''
      | HLSLBaseType_Float3 \<Rightarrow> Inr ''vec3''
      | HLSLBaseType_Float4 \<Rightarrow> Inr ''vec4''
      | HLSLBaseType_Float3x3 \<Rightarrow> Inr ''mat3''
      | HLSLBaseType_Float4x4 \<Rightarrow> Inr ''mat4''
      | HLSLBaseType_Half \<Rightarrow> Inr ''float''
      | HLSLBaseType_Half2 \<Rightarrow> Inr ''vec2''
      | HLSLBaseType_Half3 \<Rightarrow> Inr ''vec3''
      | HLSLBaseType_Half4 \<Rightarrow> Inr ''vec4''
      | HLSLBaseType_Half3x3 \<Rightarrow> Inr ''mat3''
      | HLSLBaseType_Half4x4 \<Rightarrow> Inr ''mat4''
      | HLSLBaseType_Bool \<Rightarrow> Inr ''bool''
      | HLSLBaseType_Int \<Rightarrow> Inr ''int''
      | HLSLBaseType_Int2 \<Rightarrow> Inr ''ivec2''
      | HLSLBaseType_Int3 \<Rightarrow> Inr ''ivec3''
      | HLSLBaseType_Int4 \<Rightarrow> Inr ''ivec4''
      | HLSLBaseType_Uint \<Rightarrow> Inr ''uint''
      | HLSLBaseType_Uint2 \<Rightarrow> Inr ''uvec2''
      | HLSLBaseType_Uint3 \<Rightarrow> Inr ''uvec3''
      | HLSLBaseType_Uint4 \<Rightarrow> Inr ''uvec4''
      | HLSLBaseType_Texture \<Rightarrow> Inr ''texture''
      | HLSLBaseType_Sampler2D \<Rightarrow> Inr ''sampler2D''
      | HLSLBaseType_SamplerCube \<Rightarrow> Inr ''samplerCube''
      | HLSLBaseType_UserDefined \<Rightarrow> Inr (printf_s (HLSLType.typeName t))
      | HLSLBaseType_Unknown \<Rightarrow> Inl AssertionFailure)"

definition GetCanImplicitCast :: "HLSLType \<Rightarrow> HLSLType \<Rightarrow> bool" where
  "GetCanImplicitCast srcType dstType \<longleftrightarrow> baseType srcType = baseType dstType"

text \<open>\<open>GetBuiltInSemantic\<close> reads its argument; a null semantic is a null pointer read.\<close>

definition GetBuiltInSemantic :: "string option \<Rightarrow> fault + string option" where
  "GetBuiltInSemantic sem =
     (case sem of
        None \<Rightarrow> Inl NullDereference
      | Some s \<Rightarrow> Inr (map_option snd (find (\<lambda>(k, v). String_EqualNoCase s k) builtInSemantics)))"

text \<open>\<open>GetFunctionArguments\<close>: the arguments of the call and how many the chain holds.\<close>

definition GetFunctionArguments :: "HLSLFunctionCall \<Rightarrow> HLSLExpression list \<times> int" where
  "GetFunctionArguments functionCall =
     (HLSLFunctionCall.argument functionCall, int (length (HLSLFunctionCall.argument functionCall)))"

text \<open>
  \<open>GetSafeIdentifierName\<close> compares the name with each reserved word; a null name is a
  null pointer read.
\<close>

definition GetSafeIdentifierName :: "string option \<Rightarrow> GLSLGenerator \<Rightarrow> fault + string" where
  "GetSafeIdentifierName nm g =
     (case nm of
        None \<Rightarrow> Inl NullDereference
      | Some s \<Rightarrow>
          (case find (\<lambda>i. String_Equal (s_reservedWord ! i) s) [0 ..< 4] of
             Some i \<Rightarrow> Inr (m_reservedWord g ! i)
           | None \<Rightarrow> Inr s))"

definition OutputIdentifier :: "string \<Rightarrow> GLSLGenerator \<Rightarrow> fault + GLSLGenerator" where
  "OutputIdentifier nm g =
     andThen
       (if String_Equal nm ''tex2D'' then Inr ''texture''
        else if String_Equal nm ''tex2Dproj'' then Inr ''texture2DProj''
        else if String_Equal nm ''texCUBE'' then Inr ''texture''
        else if String_Equal nm ''clip'' then Inr (m_clipFunction g)
        else if String_Equal nm ''tex2Dlod'' then Inr (m_tex2DlodFunction g)
        else if String_Equal nm ''texCUBEbias'' then Inr (m_texCUBEbiasFunction g)
        else if String_Equal nm ''atan2'' then Inr ''atan''
        else if String_Equal nm ''sincos'' then Inr (m_sinCosFunction g)
        else if String_Equal nm ''fmod'' then Inr ''mod''
        else if String_Equal nm ''lerp'' then Inr ''mix''
        else GetSafeIdentifierName (Some nm) g)
       (\<lambda>s. Inr (Write s g))"

subsection \<open>Expressions\<close>

text \<open>The operator table of a unary expression: \<open>op\<close>, \<open>pre\<close>, and whether \<open>dstType\<close> is set.\<close>

fun unaryOpOutput :: "HLSLUnaryOp \<Rightarrow> string \<times> bool \<times> bool" where
  "unaryOpOutput HLSLUnaryOp_Negative = (''-'', True, False)"
| "unaryOpOutput HLSLUnaryOp_Positive = (''+'', True, False)"
| "unaryOpOutput HLSLUnaryOp_Not = (''!'', True, True)"
| "unaryOpOutput HLSLUnaryOp_PreIncrement = (''++'', True, False)"
| "unaryOpOutput HLSLUnaryOp_PreDecrement = (''++'', True, False)"
| "unaryOpOutput HLSLUnaryOp_PostIncrement = (''++'', False, False)"
| "unaryOpOutput HLSLUnaryOp_PostDecrement = (''--'', False, False)"

text \<open>
  The operator table of a binary expression: \<open>op\<close>, and whether \<open>dstType1\<close> and \<open>dstType2\<close>
  are set to the expression's type.
\<close>

fun binaryOpOutput :: "HLSLBinaryOp \<Rightarrow> string \<times> bool \<times> bool" where
  "binaryOpOutput HLSLBinaryOp_Add = ('' + '', True, True)"
| "binaryOpOutput HLSLBinaryOp_Sub = ('' - '', True, True)"
| "binaryOpOutput HLSLBinaryOp_Mul = ('' * '', False, False)"
| "binaryOpOutput HLSLBinaryOp_Div = ('' / '', False, False)"
| "binaryOpOutput HLSLBinaryOp_Less = ('' < '', False, False)"
| "binaryOpOutput HLSLBinaryOp_Greater = ('' > '', False, False)"
| "binaryOpOutput HLSLBinaryOp_LessEqual = ('' <= '', False, False)"
| "binaryOpOutput HLSLBinaryOp_GreaterEqual = ('' >= '', False, False)"
| "binaryOpOutput HLSLBinaryOp_Equal = ('' == '', False, False)"
| "binaryOpOutput HLSLBinaryOp_NotEqual = ('' != '', False, False)"
| "binaryOpOutput HLSLBinaryOp_Assign = ('' = '', False, True)"
| "binaryOpOutput HLSLBinaryOp_AddAssign = ('' += '', False, True)"
| "binaryOpOutput HLSLBinaryOp_SubAssign = ('' -= '', False, True)"
| "binaryOpOutput HLSLBinaryOp_MulAssign = ('' *= '', False, True)"
| "binaryOpOutput HLSLBinaryOp_DivAssign = ('' /= '', False, True)"
| "binaryOpOutput HLSLBinaryOp_And = ('' && '', True, True)"
| "binaryOpOutput HLSLBinaryOp_Or = ('' || '', True, True)"

text \<open>
  A literal is printed from the member of the union its \<open>type\<close> selects.
\<close>

definition OutputLiteral :: "HLSLBaseType \<Rightarrow> LiteralValue \<Rightarrow> GLSLGenerator \<Rightarrow> fault + GLSLGenerator"
  where
  "OutputLiteral t v g =
     (if t = HLSLBaseType_Half \<or> t = HLSLBaseType_Float
      then (case v of fValue f \<Rightarrow> Inr (Write (String_Printf 64 f) g)
                    | _ \<Rightarrow> Inl InactiveUnionMember)
      else if t = HLSLBaseType_Int \<or> t = HLSLBaseType_Uint
      then (case v of iValue i \<Rightarrow> Inr (Write (printf_d i) g) | _ \<Rightarrow> Inl InactiveUnionMember)
      else if t = HLSLBaseType_Bool
      then (case v of bValue b \<Rightarrow> Inr (Write (if b then ''true'' else ''false'') g)
                    | _ \<Rightarrow> Inl InactiveUnionMember)
      else Inl AssertionFailure)"

text \<open>
  The loop that prints a matrix accessor (\<open>_m00\<close>, \<open>_11\<close>) as \<open>[column][row]\<close>; a malformed
  accessor fails an \<open>ASSERT\<close>.
\<close>

fun OutputMatrixSwizzle :: "string \<Rightarrow> GLSLGenerator \<Rightarrow> fault + GLSLGenerator" where
  "OutputMatrixSwizzle [] g = Inr g"
| "OutputMatrixSwizzle (c # n) g =
     (if c \<noteq> CHR ''_'' then Inl AssertionFailure
      else
        case n of
          [] \<Rightarrow> Inl AssertionFailure
        | m # n1 \<Rightarrow>
            if m = CHR ''m''
            then (case n1 of
                    d0 # d1 # n2 \<Rightarrow>
                      if isdigit d0 \<and> isdigit d1
                      then OutputMatrixSwizzle n2
                             (Write (''['' @ printf_d (of_char d1 - 48) @ ''][''
                                       @ printf_d (of_char d0 - 48) @ '']'') g)
                      else Inl AssertionFailure
                  | _ \<Rightarrow> Inl AssertionFailure)
            else (case n1 of
                    d1 # n2 \<Rightarrow>
                      if isdigit m \<and> isdigit d1
                      then OutputMatrixSwizzle n2
                             (Write (''['' @ printf_d (of_char d1 - 49) @ ''][''
                                       @ printf_d (of_char m - 49) @ '']'') g)
                      else Inl AssertionFailure
                  | _ \<Rightarrow> Inl AssertionFailure))"

definition isScalarSwizzleBase :: "HLSLBaseType \<Rightarrow> bool" where
  "isScalarSwizzleBase b \<longleftrightarrow>
     b = HLSLBaseType_Half \<or> b = HLSLBaseType_Float \<or> b = HLSLBaseType_Int
     \<or> b = HLSLBaseType_Uint"

definition isMatrixBase :: "HLSLBaseType \<Rightarrow> bool" where
  "isMatrixBase b \<longleftrightarrow> b = HLSLBaseType_Float3x3 \<or> b = HLSLBaseType_Float4x4"

text \<open>
  \<open>OutputExpression\<close>, \<open>OutputExpressionList\<close> and \<open>OutputDeclaration(type, name)\<close> call
  each other. \<open>dstType\<close> and \<open>argument\<close> are pointers that may be null. An expression
  pointer that is null where \<open>OutputExpression\<close> is called is read at once
  (\<open>expression->expressionType\<close>); such calls are written here as a case on the pointer.
  The early \<open>return\<close> after an \<open>Error\<close> leaves the function without the closing
  parenthesis of a cast.
\<close>

function OutputExpression ::
    "HLSLExpression \<Rightarrow> HLSLType option \<Rightarrow> GLSLGenerator \<Rightarrow> fault + GLSLGenerator"
  and OutputExpressionList ::
    "HLSLExpression list \<Rightarrow> HLSLArgument list \<Rightarrow> int \<Rightarrow> GLSLGenerator \<Rightarrow> fault + GLSLGenerator"
  and OutputDeclarationType ::
    "HLSLType \<Rightarrow> string option \<Rightarrow> GLSLGenerator \<Rightarrow> fault + GLSLGenerator"
where
  "OutputExpression expression dstType g =
    (let cast = (case dstType of
                   None \<Rightarrow> False
                 | Some d \<Rightarrow> \<not> GetCanImplicitCast (expressionType expression) d);
         cast = (case expression of HLSLCastingExpression _ _ _ _ \<Rightarrow> False | _ \<Rightarrow> cast)
     in
     andThen
       (if cast
        then (case dstType of
                None \<Rightarrow> Inl NullDereference
              | Some d \<Rightarrow> andThen (OutputDeclarationType d (Some []) g) (\<lambda>g. Inr (Write ''('' g)))
        else Inr g)
       (\<lambda>g.
     andThen
       (case expression of
          HLSLIdentifierExpression _ _ nm _ \<Rightarrow>
            andThen (OutputIdentifier nm g) (\<lambda>g. Inr (True, g))
        | HLSLConstructorExpression _ _ ty arguments \<Rightarrow>
            andThen (GLSLGenerator_GetTypeName ty) (\<lambda>tn.
            andThen (OutputExpressionList arguments [] 0 (Write (tn @ ''('') g)) (\<lambda>g.
              Inr (True, Write '')'' g)))
        | HLSLCastingExpression _ _ ty e \<Rightarrow>
            andThen (OutputDeclarationType ty (Some []) g) (\<lambda>g.
            andThen (case e of
                       None \<Rightarrow> Inl NullDereference
                     | Some e1 \<Rightarrow> OutputExpression e1 None (Write ''('' g)) (\<lambda>g.
              Inr (True, Write '')'' g)))
        | HLSLLiteralExpression _ _ ty v \<Rightarrow>
            andThen (OutputLiteral ty v g) (\<lambda>g. Inr (True, g))
        | HLSLUnaryExpression _ ty unaryOp e1 \<Rightarrow>
            (case unaryOpOutput unaryOp of
               (op, pre, useType) \<Rightarrow>
                 let dstType1 = (if useType then Some ty else None)
                 in if pre
                    then andThen (OutputExpression e1 dstType1 (Write op (Write ''('' g))) (\<lambda>g.
                           Inr (True, Write '')'' g))
                    else andThen (OutputExpression e1 dstType1 (Write ''('' g)) (\<lambda>g.
                           Inr (True, Write '')'' (Write op g))))
        | HLSLBinaryExpression _ ty binaryOp e1 e2 \<Rightarrow>
            (case binaryOpOutput binaryOp of
               (op, useType1, useType2) \<Rightarrow>
                 andThen (OutputExpression e1 (if useType1 then Some ty else None)
                            (Write ''('' g)) (\<lambda>g.
                 andThen (OutputExpression e2 (if useType2 then Some ty else None)
                            (Write op g)) (\<lambda>g.
                   Inr (True, Write '')'' g))))
        | HLSLConditionalExpression _ _ condition trueExpression falseExpression \<Rightarrow>
            andThen (OutputExpression condition (Some kBoolType) (Write ''(('' g)) (\<lambda>g.
            andThen (OutputExpression trueExpression None (Write '')?('' g)) (\<lambda>g.
            andThen (OutputExpression falseExpression None (Write ''):('' g)) (\<lambda>g.
              Inr (True, Write ''))'' g))))
        | HLSLMemberAccess _ _ object fld \<Rightarrow>
            if isScalarSwizzleBase (baseType (expressionType object))
            then
              let swizzleLength = int (length fld);
                  g = (if swizzleLength = 2 then Write (m_scalarSwizzle2Function g) g
                       else if swizzleLength = 3 then Write (m_scalarSwizzle3Function g) g
                       else if swizzleLength = 4 then Write (m_scalarSwizzle4Function g) g
                       else g)
              in andThen (OutputExpression object None (Write ''('' g)) (\<lambda>g.
                   Inr (True, Write '')'' g))
            else
              andThen (OutputExpression object None (Write ''('' g)) (\<lambda>g.
                let g = Write '')'' g
                in if isMatrixBase (baseType (expressionType object))
                   then andThen (OutputMatrixSwizzle fld g) (\<lambda>g. Inr (True, g))
                   else Inr (True, Write (''.'' @ fld) g))
        | HLSLArrayAccess _ _ arr index \<Rightarrow>
            if \<not> array (expressionType arr) \<and> isMatrixBase (baseType (expressionType arr))
            then
              andThen (OutputExpression arr None
                         (Write (m_matrixRowFunction g @ ''('') g)) (\<lambda>g.
              andThen (OutputExpression index None (Write '','' g)) (\<lambda>g.
                Inr (True, Write '')'' g)))
            else
              andThen (OutputExpression arr None g) (\<lambda>g.
              andThen (OutputExpression index None (Write ''['' g)) (\<lambda>g.
                Inr (True, Write '']'' g)))
        | HLSLFunctionCallExpression _ _ functionCall \<Rightarrow>
            (case function' functionCall of
               None \<Rightarrow> Inl NullDereference
             | Some fn \<Rightarrow>
                 let functionName = HLSLFunction.name fn
                 in if String_Equal functionName ''mul''
                    then (case GetFunctionArguments functionCall of
                            (arguments, numArgs) \<Rightarrow>
                              if numArgs \<noteq> 2
                              then Inr (False, GLSLGenerator_Error ''mul expects 2 arguments'' g)
                              else
                                (case (arguments, HLSLFunction.argument fn) of
                                   (a0 # a1 # _, p0 # p1 # _) \<Rightarrow>
                                     andThen (OutputExpression a0 (Some (HLSLArgument.type' p0))
                                                (Write ''(('' g)) (\<lambda>g.
                                     andThen (OutputExpression a1 (Some (HLSLArgument.type' p1))
                                                (Write '') * ('' g)) (\<lambda>g.
                                       Inr (True, Write ''))'' g)))
                                 | _ \<Rightarrow> Inl NullDereference))
                    else if String_Equal functionName ''saturate''
                    then (case GetFunctionArguments functionCall of
                            (arguments, numArgs) \<Rightarrow>
                              if numArgs \<noteq> 1
                              then Inr (False,
                                        GLSLGenerator_Error ''saturate expects 1 argument'' g)
                              else
                                (case arguments of
                                   a0 # _ \<Rightarrow>
                                     andThen (OutputExpression a0 None (Write ''clamp('' g))
                                       (\<lambda>g. Inr (True, Write '', 0.0, 1.0)'' g))
                                 | _ \<Rightarrow> Inl NullDereference))
                    else
                      andThen (OutputIdentifier functionName g) (\<lambda>g.
                      andThen (OutputExpressionList (HLSLFunctionCall.argument functionCall)
                                 (HLSLFunction.argument fn) 0 (Write ''('' g)) (\<lambda>g.
                        Inr (True, Write '')'' g)))))
       (\<lambda>(completed, g). Inr (if completed \<and> cast then Write '')'' g else g))))"
| "OutputExpressionList [] arguments numExpressions g = Inr g"
| "OutputExpressionList (expression # rest) arguments numExpressions g =
     (let g = (if numExpressions > 0 then Write '', '' g else g);
          expectedType = (case arguments of [] \<Rightarrow> None | a # _ \<Rightarrow> Some (HLSLArgument.type' a))
      in andThen (OutputExpression expression expectedType g) (\<lambda>g.
           OutputExpressionList rest (case arguments of [] \<Rightarrow> [] | _ # as \<Rightarrow> as)
             (numExpressions + 1) g))"
| "OutputDeclarationType ty nm g =
     andThen (GLSLGenerator_GetTypeName ty) (\<lambda>tn.
     andThen (GetSafeIdentifierName nm g) (\<lambda>safe.
       if \<not> array ty
       then Inr (Write (tn @ '' '' @ safe) g)
       else
         andThen (case arraySize ty of
                    None \<Rightarrow> Inr (Write (tn @ '' '' @ safe @ ''['') g)
                  | Some e \<Rightarrow> OutputExpression e None (Write (tn @ '' '' @ safe @ ''['') g))
           (\<lambda>g. Inr (Write '']'' g))))"
  by pat_completeness auto

lemma HLSLType_size_pos: "0 < size (t :: HLSLType)"
  by (cases t) simp

lemma HLSLExpression_size_pos: "0 < size (e :: HLSLExpression)"
  by (cases e) simp_all

lemma size_arraySize: "arraySize ty = Some e \<Longrightarrow> size e < size ty"
  by (cases ty) simp

lemma size_argument_type: "size (HLSLArgument.type' a) < size a"
  by (cases a) simp

lemma term_mul:
  "function' c = Some f \<Longrightarrow> a0 # a1 # as = HLSLFunctionCall.argument c \<Longrightarrow>
   p0 # p1 # ps = HLSLFunction.argument f \<Longrightarrow>
   size a0 + size (HLSLArgument.type' p0) < size c
   \<and> size a1 + size (HLSLArgument.type' p1) < size c"
  by (cases c; cases f; cases p0; cases p1) auto

lemma term_saturate:
  "a0 # as = HLSLFunctionCall.argument c \<Longrightarrow> size a0 < size c"
  by (cases c) auto

lemma term_call:
  "function' c = Some f \<Longrightarrow>
   size_list size (HLSLFunctionCall.argument c) + size_list size (HLSLFunction.argument f)
     < size c"
  by (cases c; cases f) auto

termination OutputExpression
  apply (relation "measure (\<lambda>x. case x of
           Inl (e, dst, g) \<Rightarrow> 2 * size e + (case dst of None \<Rightarrow> 0 | Some d \<Rightarrow> 2 * size d + 1)
         | Inr (Inl (es, as, n, g)) \<Rightarrow> 2 * size_list size es + 2 * size_list size as + 1
         | Inr (Inr (ty, nm, g)) \<Rightarrow> 2 * size ty)")
  apply (auto simp: kBoolType_def HLSLType_of_def GetFunctionArguments_def
              split: if_splits list.splits option.splits
              dest: size_arraySize)
  subgoal for x xa a b c
    using HLSLExpression_size_pos[of b] HLSLExpression_size_pos[of c] by linarith
  subgoal for a b c d
    using HLSLExpression_size_pos[of b] HLSLExpression_size_pos[of c] by linarith
  subgoal by (frule (2) term_mul) linarith
  subgoal by (frule (2) term_mul) linarith
  subgoal by (frule (2) term_mul) linarith
  subgoal by (frule (2) term_mul) linarith
  subgoal by (frule term_saturate) linarith
  subgoal by (frule term_saturate) linarith
  subgoal by (frule term_call) linarith
  subgoal by (frule term_call) linarith
  subgoal for rest n a as using size_argument_type[of a] by linarith
  subgoal for rest n a as using size_argument_type[of a] by linarith
  done

subsection \<open>Declarations and statements\<close>

text \<open>The loop of \<open>OutputArguments\<close>, with its counter \<open>numArgs\<close>.\<close>

fun OutputArguments_loop ::
  "HLSLArgument list \<Rightarrow> int \<Rightarrow> GLSLGenerator \<Rightarrow> fault + GLSLGenerator" where
  "OutputArguments_loop [] numArgs g = Inr g"
| "OutputArguments_loop (a # rest) numArgs g =
     (let g = (if numArgs > 0 then Write '', '' g else g);
          g = (case modifier a of
                 HLSLArgumentModifier_In \<Rightarrow> Write ''in '' g
               | HLSLArgumentModifier_Inout \<Rightarrow> Write ''inout '' g
               | _ \<Rightarrow> g)
      in andThen (OutputDeclarationType (HLSLArgument.type' a) (HLSLArgument.name a) g)
           (\<lambda>g. OutputArguments_loop rest (numArgs + 1) g))"

definition OutputArguments :: "HLSLArgument list \<Rightarrow> GLSLGenerator \<Rightarrow> fault + GLSLGenerator" where
  "OutputArguments arguments g = OutputArguments_loop arguments 0 g"

text \<open>
  \<open>OutputDeclaration(HLSLDeclaration*)\<close>. Of a scalar's assignment only the first
  expression of the chain is printed.
\<close>

definition OutputDeclaration :: "HLSLDeclaration \<Rightarrow> GLSLGenerator \<Rightarrow> fault + GLSLGenerator" where
  "OutputDeclaration declaration g =
     andThen (GetSafeIdentifierName (Some (HLSLDeclaration.name declaration)) g) (\<lambda>safe.
     andThen (OutputDeclarationType (HLSLDeclaration.type' declaration) (Some safe) g) (\<lambda>g.
       case assignment declaration of
         [] \<Rightarrow> Inr g
       | e # rest \<Rightarrow>
           let g = Write '' = '' g
           in if array (HLSLDeclaration.type' declaration)
              then
                andThen (GLSLGenerator_GetTypeName (HLSLDeclaration.type' declaration)) (\<lambda>tn.
                andThen (OutputExpressionList (e # rest) [] 0 (Write (tn @ ''[]( '') g)) (\<lambda>g.
                  Inr (Write '' )'' g)))
              else OutputExpression e (Some (HLSLDeclaration.type' declaration)) g))"

text \<open>The loop over the fields of a struct, and of a buffer.\<close>

fun OutputStructFields ::
  "int \<Rightarrow> HLSLStructField list \<Rightarrow> GLSLGenerator \<Rightarrow> fault + GLSLGenerator" where
  "OutputStructFields indent [] g = Inr g"
| "OutputStructFields indent (fld # rest) g =
     andThen (OutputDeclarationType (HLSLStructField.type' fld) (Some (HLSLStructField.name fld))
                (BeginLine (indent + 1) (fileName (HLSLStructField.node fld))
                   (line (HLSLStructField.node fld)) g))
       (\<lambda>g. OutputStructFields indent rest (EndLine None (Write '';'' g)))"

fun OutputBufferFields ::
  "int \<Rightarrow> HLSLBufferField list \<Rightarrow> GLSLGenerator \<Rightarrow> fault + GLSLGenerator" where
  "OutputBufferFields indent [] g = Inr g"
| "OutputBufferFields indent (fld # rest) g =
     andThen (OutputDeclarationType (HLSLBufferField.type' fld) (Some (HLSLBufferField.name fld))
                (BeginLine (indent + 1) (fileName (HLSLBufferField.node fld))
                   (line (HLSLBufferField.node fld)) g))
       (\<lambda>g. OutputBufferFields indent rest (EndLine None (Write '';'' g)))"

text \<open>
  \<open>OutputStatements\<close> is the loop over the chain, \<open>OutputStatement\<close> its body. The name of
  a function is compared with \<open>m_entryName\<close> by \<open>strcmp\<close>, which reads both. The
  condition and the increment of a \<open>for\<close> go to \<open>OutputExpression\<close> as they are, null or
  not.
\<close>

fun OutputStatement ::
    "int \<Rightarrow> HLSLStatement \<Rightarrow> HLSLType option \<Rightarrow> GLSLGenerator \<Rightarrow> fault + GLSLGenerator"
  and OutputStatements ::
    "int \<Rightarrow> HLSLStatement list \<Rightarrow> HLSLType option \<Rightarrow> GLSLGenerator \<Rightarrow> fault + GLSLGenerator"
where
  "OutputStatements indent [] returnType' g = Inr g"
| "OutputStatements indent (statement # rest) returnType' g =
     andThen (OutputStatement indent statement returnType' g)
       (\<lambda>g. OutputStatements indent rest returnType' g)"
| "OutputStatement indent (HLSLDeclarationStatement declaration) returnType' g =
     (if baseType (HLSLDeclaration.type' declaration) \<noteq> HLSLBaseType_Texture
      then
        let g = BeginLine indent (fileName (HLSLDeclaration.node declaration))
                  (line (HLSLDeclaration.node declaration)) g;
            g = (if indent = 0 then Write ''uniform '' g else g)
        in andThen (OutputDeclaration declaration g) (\<lambda>g. Inr (EndLine (Some '';'') g))
      else Inr g)"
| "OutputStatement indent (HLSLStructStatement structure) returnType' g =
     andThen (OutputStructFields indent (HLSLStruct.field structure)
                (WriteLine indent (''struct '' @ HLSLStruct.name structure @ '' {'') g))
       (\<lambda>g. Inr (WriteLine indent ''};'' g))"
| "OutputStatement indent (HLSLBufferStatement buffer) returnType' g =
     (if HLSLBuffer.field buffer \<noteq> []
      then
        andThen (OutputBufferFields indent (HLSLBuffer.field buffer)
                   (WriteLineAt indent (fileName (HLSLBuffer.node buffer))
                      (line (HLSLBuffer.node buffer))
                      (''layout (std140) uniform '' @ printf_s (HLSLBuffer.name buffer) @ '' {'')
                      g))
          (\<lambda>g. Inr (WriteLine indent ''};'' g))
      else Inr g)"
| "OutputStatement indent (HLSLFunctionStatement fn body) returnType' g =
     (case m_entryName g of
        None \<Rightarrow> Inl NullDereference
      | Some entryName \<Rightarrow>
          let entryPoint = String_Equal (HLSLFunction.name fn) entryName
          in
          andThen (GetSafeIdentifierName (Some (HLSLFunction.name fn)) g) (\<lambda>functionName.
          andThen (GLSLGenerator_GetTypeName (HLSLFunction.returnType fn)) (\<lambda>returnTypeName.
          andThen (OutputArguments (HLSLFunction.argument fn)
                     (Write (returnTypeName @ '' '' @ functionName @ ''('')
                        (BeginLine indent (fileName (HLSLFunction.node fn))
                           (line (HLSLFunction.node fn)) g))) (\<lambda>g.
          andThen (OutputStatements (indent + 1) body (Some (HLSLFunction.returnType fn))
                     (EndLine None (Write '') {'' g))) (\<lambda>g.
            Inr (WriteLine indent ''}'' g))))))"
| "OutputStatement indent (HLSLExpressionStatement nd expression) returnType' g =
     andThen (OutputExpression expression None (BeginLine indent (fileName nd) (line nd) g))
       (\<lambda>g. Inr (EndLine (Some '';'') g))"
| "OutputStatement indent (HLSLReturnStatement nd expression) returnType' g =
     (case expression of
        Some e \<Rightarrow>
          andThen (OutputExpression e returnType'
                     (Write ''return '' (BeginLine indent (fileName nd) (line nd) g)))
            (\<lambda>g. Inr (EndLine (Some '';'') g))
      | None \<Rightarrow> Inr (WriteLineAt indent (fileName nd) (line nd) ''return;'' g))"
| "OutputStatement indent (HLSLDiscardStatement nd) returnType' g =
     (if m_target g = Target_FragmentShader
      then Inr (WriteLineAt indent (fileName nd) (line nd) ''discard;'' g)
      else Inr g)"
| "OutputStatement indent (HLSLBreakStatement nd) returnType' g =
     Inr (WriteLineAt indent (fileName nd) (line nd) ''break;'' g)"
| "OutputStatement indent (HLSLContinueStatement nd) returnType' g =
     Inr (WriteLineAt indent (fileName nd) (line nd) ''continue;'' g)"
| "OutputStatement indent (HLSLIfStatement nd condition body elseStatement) returnType' g =
     andThen (OutputExpression condition (Some kBoolType)
                (Write ''if ('' (BeginLine indent (fileName nd) (line nd) g))) (\<lambda>g.
     andThen (OutputStatements (indent + 1) body returnType' (EndLine None (Write '') {'' g)))
       (\<lambda>g.
       let g = WriteLine indent ''}'' g
       in if elseStatement \<noteq> []
          then andThen (OutputStatements (indent + 1) elseStatement returnType'
                          (WriteLine indent ''else {'' g))
                 (\<lambda>g. Inr (WriteLine indent ''}'' g))
          else Inr g))"
| "OutputStatement indent (HLSLForStatement nd initialization condition increment body)
       returnType' g =
     andThen (OutputDeclaration initialization
                (Write ''for ('' (BeginLine indent (fileName nd) (line nd) g))) (\<lambda>g.
     andThen (case condition of
                None \<Rightarrow> Inl NullDereference
              | Some e \<Rightarrow> OutputExpression e (Some kBoolType) (Write ''; '' g)) (\<lambda>g.
     andThen (case increment of
                None \<Rightarrow> Inl NullDereference
              | Some e \<Rightarrow> OutputExpression e None (Write ''; '' g)) (\<lambda>g.
     andThen (OutputStatements (indent + 1) body returnType' (EndLine None (Write '') {'' g)))
       (\<lambda>g. Inr (WriteLine indent ''}'' g)))))"

subsection \<open>The entry point\<close>

text \<open>
  \<open>FindFunction\<close> and \<open>FindStruct\<close> walk the statements under the root and compare names
  with \<open>strcmp\<close>; the name looked for is read at the first function (struct) met.
\<close>

fun FindFunction :: "HLSLStatement list \<Rightarrow> string option \<Rightarrow> fault + HLSLFunction option" where
  "FindFunction [] nm = Inr None"
| "FindFunction (HLSLFunctionStatement fn body # rest) nm =
     (case nm of
        None \<Rightarrow> Inl NullDereference
      | Some n \<Rightarrow>
          if String_Equal (HLSLFunction.name fn) n then Inr (Some fn) else FindFunction rest nm)"
| "FindFunction (statement # rest) nm = FindFunction rest nm"

fun FindStruct :: "HLSLStatement list \<Rightarrow> string option \<Rightarrow> fault + HLSLStruct option" where
  "FindStruct [] nm = Inr None"
| "FindStruct (HLSLStructStatement structDeclaration # rest) nm =
     (case nm of
        None \<Rightarrow> Inl NullDereference
      | Some n \<Rightarrow>
          if String_Equal (HLSLStruct.name structDeclaration) n then Inr (Some structDeclaration)
          else FindStruct rest nm)"
| "FindStruct (statement # rest) nm = FindStruct rest nm"

text \<open>\<open>m_tree->GetRoot()\<close>.\<close>

definition GetRoot :: "GLSLGenerator \<Rightarrow> fault + HLSLStatement list" where
  "GetRoot g = (case m_tree g of None \<Rightarrow> Inl NullDereference | Some t \<Rightarrow> Inr (m_root t))"

text \<open>The struct a user-defined type names; the \<open>ASSERT\<close> is that there is one.\<close>

definition FindStructOf :: "HLSLStatement list \<Rightarrow> HLSLType \<Rightarrow> fault + HLSLStruct" where
  "FindStructOf root ty =
     andThen (FindStruct root (HLSLType.typeName ty))
       (\<lambda>r. case r of None \<Rightarrow> Inl AssertionFailure | Some structDeclaration \<Rightarrow> Inr structDeclaration)"

fun OutputAttribute_fields ::
  "HLSLStructField list \<Rightarrow> string \<Rightarrow> string option \<Rightarrow> GLSLGenerator \<Rightarrow> fault + GLSLGenerator"
  where
  "OutputAttribute_fields [] attribType prefix g = Inr g"
| "OutputAttribute_fields (fld # rest) attribType prefix g =
     andThen
       (case HLSLStructField.semantic fld of
          None \<Rightarrow> Inr g
        | Some sem \<Rightarrow>
            andThen (GetBuiltInSemantic (Some sem)) (\<lambda>b.
              if b = None
              then andThen (GLSLGenerator_GetTypeName (HLSLStructField.type' fld)) (\<lambda>tn.
                     Inr (WriteLine 0
                            (attribType @ '' '' @ tn @ '' '' @ printf_s prefix @ sem @ '';'') g))
              else Inr g))
       (\<lambda>g. OutputAttribute_fields rest attribType prefix g)"

definition OutputAttribute ::
  "HLSLType \<Rightarrow> string option \<Rightarrow> string \<Rightarrow> string option \<Rightarrow> GLSLGenerator
     \<Rightarrow> fault + GLSLGenerator" where
  "OutputAttribute ty sem attribType prefix g =
     andThen (GetRoot g) (\<lambda>root.
       if baseType ty = HLSLBaseType_UserDefined
       then andThen (FindStructOf root ty) (\<lambda>structDeclaration.
              OutputAttribute_fields (HLSLStruct.field structDeclaration) attribType prefix g)
       else
         case sem of
           None \<Rightarrow> Inr g
         | Some s \<Rightarrow>
             andThen (GetBuiltInSemantic (Some s)) (\<lambda>b.
               if b = None
               then andThen (GLSLGenerator_GetTypeName ty) (\<lambda>tn.
                      Inr (WriteLine 0
                             (attribType @ '' '' @ tn @ '' '' @ printf_s prefix @ s @ '';'') g))
               else Inr g))"

fun OutputAttributes_loop :: "HLSLArgument list \<Rightarrow> GLSLGenerator \<Rightarrow> fault + GLSLGenerator" where
  "OutputAttributes_loop [] g = Inr g"
| "OutputAttributes_loop (a # rest) g =
     andThen (OutputAttribute (HLSLArgument.type' a) (HLSLArgument.semantic a) ''in''
                (m_inAttribPrefix g) g)
       (\<lambda>g. OutputAttributes_loop rest g)"

definition OutputAttributes :: "HLSLFunction \<Rightarrow> GLSLGenerator \<Rightarrow> fault + GLSLGenerator" where
  "OutputAttributes entryFunction g =
     andThen (OutputAttributes_loop (HLSLFunction.argument entryFunction) g) (\<lambda>g.
       OutputAttribute (HLSLFunction.returnType entryFunction)
         (HLSLFunction.semantic entryFunction) ''out'' (m_outAttribPrefix g) g)"

text \<open>\<open>OutputSetOutAttribute\<close>: the semantic goes to \<open>GetBuiltInSemantic\<close> unchecked.\<close>

definition OutputSetOutAttribute ::
  "string option \<Rightarrow> string \<Rightarrow> GLSLGenerator \<Rightarrow> fault + GLSLGenerator" where
  "OutputSetOutAttribute sem resultName g =
     andThen (GetBuiltInSemantic sem) (\<lambda>builtInSemantic.
       case builtInSemantic of
         Some b \<Rightarrow>
           if String_Equal b ''gl_Position''
           then Inr ((WriteLine 1 (b @ '' = temp * vec4(1,-1,2,1) - vec4(0,0,temp.w,0);'')
                       (WriteLine 1 (''vec4 temp = '' @ resultName @ '';'') g))
                     \<lparr> m_outputPosition := True \<rparr>)
           else if String_Equal b ''gl_FragDepth''
           then Inr (WriteLine 1 (b @ '' = clamp(float('' @ resultName @ ''), 0.0, 1.0);'') g)
           else Inr (WriteLine 1 (b @ '' = '' @ resultName @ '';'') g)
       | None \<Rightarrow>
           Inr (WriteLine 1
                  (printf_s (m_outAttribPrefix g) @ printf_s sem @ '' = '' @ resultName @ '';'')
                  g))"

text \<open>
  \<open>OutputEntryCaller\<close>: the loops that set the local of each argument from its attributes,
  list the locals in the call, and copy the result to the out attributes.
\<close>

definition OutputEntryCaller_input ::
  "string option \<Rightarrow> string \<Rightarrow> string \<Rightarrow> GLSLGenerator \<Rightarrow> fault + GLSLGenerator" where
  "OutputEntryCaller_input inPrefix target sem g =
     andThen (GetBuiltInSemantic (Some sem)) (\<lambda>builtInSemantic.
       case builtInSemantic of
         Some b \<Rightarrow> Inr (WriteLine 1 (target @ '' = '' @ b @ '';'') g)
       | None \<Rightarrow> Inr (WriteLine 1 (target @ '' = '' @ printf_s inPrefix @ sem @ '';'') g))"

fun OutputEntryCaller_fields ::
  "HLSLArgument \<Rightarrow> HLSLStructField list \<Rightarrow> GLSLGenerator \<Rightarrow> fault + GLSLGenerator" where
  "OutputEntryCaller_fields a [] g = Inr g"
| "OutputEntryCaller_fields a (fld # rest) g =
     andThen
       (case HLSLStructField.semantic fld of
          None \<Rightarrow> Inr g
        | Some sem \<Rightarrow>
            andThen (GetSafeIdentifierName (HLSLArgument.name a) g) (\<lambda>safeArgument.
            andThen (GetSafeIdentifierName (Some (HLSLStructField.name fld)) g) (\<lambda>safeField.
              OutputEntryCaller_input (m_inAttribPrefix g) (safeArgument @ ''.'' @ safeField)
                sem g)))
       (\<lambda>g. OutputEntryCaller_fields a rest g)"

fun OutputEntryCaller_locals ::
  "HLSLStatement list \<Rightarrow> HLSLArgument list \<Rightarrow> GLSLGenerator \<Rightarrow> fault + GLSLGenerator" where
  "OutputEntryCaller_locals root [] g = Inr g"
| "OutputEntryCaller_locals root (a # rest) g =
     andThen (OutputDeclarationType (HLSLArgument.type' a) (HLSLArgument.name a)
                (BeginLine 1 None (- 1) g)) (\<lambda>g.
     andThen
       (let g = EndLine (Some '';'') g
        in if baseType (HLSLArgument.type' a) = HLSLBaseType_UserDefined
           then andThen (FindStructOf root (HLSLArgument.type' a)) (\<lambda>structDeclaration.
                  OutputEntryCaller_fields a (HLSLStruct.field structDeclaration) g)
           else
             case HLSLArgument.semantic a of
               None \<Rightarrow> Inr g
             | Some sem \<Rightarrow>
                 andThen (GetSafeIdentifierName (HLSLArgument.name a) g) (\<lambda>safeArgument.
                   OutputEntryCaller_input (m_inAttribPrefix g) safeArgument sem g))
       (\<lambda>g. OutputEntryCaller_locals root rest g))"

fun OutputEntryCaller_call ::
  "HLSLArgument list \<Rightarrow> int \<Rightarrow> GLSLGenerator \<Rightarrow> fault + GLSLGenerator" where
  "OutputEntryCaller_call [] numArgs g = Inr g"
| "OutputEntryCaller_call (a # rest) numArgs g =
     (let g = (if numArgs > 0 then Write '', '' g else g)
      in andThen (GetSafeIdentifierName (HLSLArgument.name a) g) (\<lambda>safe.
           OutputEntryCaller_call rest (numArgs + 1) (Write safe g)))"

fun OutputEntryCaller_results ::
  "string \<Rightarrow> HLSLStructField list \<Rightarrow> GLSLGenerator \<Rightarrow> fault + GLSLGenerator" where
  "OutputEntryCaller_results resultName [] g = Inr g"
| "OutputEntryCaller_results resultName (fld # rest) g =
     andThen (OutputSetOutAttribute (HLSLStructField.semantic fld)
                (String_Printf 1024 (resultName @ ''.'' @ HLSLStructField.name fld)) g)
       (\<lambda>g. OutputEntryCaller_results resultName rest g)"

definition OutputEntryCaller :: "HLSLFunction \<Rightarrow> GLSLGenerator \<Rightarrow> fault + GLSLGenerator" where
  "OutputEntryCaller entryFunction g =
     andThen (GetRoot g) (\<lambda>root.
     andThen (OutputEntryCaller_locals root (HLSLFunction.argument entryFunction)
                (WriteLine 0 ''void main() {'' g)) (\<lambda>g.
     let resultName = ''result''
     in
     andThen (GLSLGenerator_GetTypeName (HLSLFunction.returnType entryFunction)) (\<lambda>tn.
     andThen (OutputEntryCaller_call (HLSLFunction.argument entryFunction) 0
                (Write (tn @ '' '' @ resultName @ '' = '' @ printf_s (m_entryName g) @ ''('')
                   (BeginLine 1 None (- 1) g))) (\<lambda>g.
     andThen
       (let g = EndLine (Some '');'') g
        in if baseType (HLSLFunction.returnType entryFunction) = HLSLBaseType_UserDefined
           then andThen (FindStructOf root (HLSLFunction.returnType entryFunction))
                  (\<lambda>structDeclaration.
                     OutputEntryCaller_results resultName (HLSLStruct.field structDeclaration) g)
           else
             case HLSLFunction.semantic entryFunction of
               None \<Rightarrow> Inr g
             | Some sem \<Rightarrow> OutputSetOutAttribute (Some sem) resultName g)
       (\<lambda>g. Inr (WriteLine 0 ''}'' g))))))"

subsection \<open>Unique names and \<open>Generate\<close>\<close>

text \<open>
  \<open>ChooseUniqueName\<close>: the result and what is left in \<open>dst\<close>. The loop counts \<open>i\<close> up to
  1024.
\<close>

function ChooseUniqueName_loop ::
  "HLSLTree \<Rightarrow> string \<Rightarrow> int \<Rightarrow> string \<Rightarrow> int \<Rightarrow> bool \<times> string" where
  "ChooseUniqueName_loop t base dstLength dst i =
     (if i < 1024
      then
        let dst = String_Printf dstLength (base @ printf_d i)
        in if \<not> GetContainsString t dst then (True, dst)
           else ChooseUniqueName_loop t base dstLength dst (i + 1)
      else (False, dst))"
  by pat_completeness auto

termination
  by (relation "measure (\<lambda>(t, base, dstLength, dst, i). nat (1024 - i))") auto

declare ChooseUniqueName_loop.simps [simp del]

definition ChooseUniqueName ::
  "string \<Rightarrow> string \<Rightarrow> int \<Rightarrow> GLSLGenerator \<Rightarrow> fault + bool \<times> string" where
  "ChooseUniqueName base dst dstLength g =
     (case m_tree g of
        None \<Rightarrow> Inl NullDereference
      | Some t \<Rightarrow> Inr (ChooseUniqueName_loop t base dstLength dst 0))"

text \<open>The loop of \<open>Generate\<close> that names the reserved words.\<close>

fun Generate_reservedWords :: "nat list \<Rightarrow> GLSLGenerator \<Rightarrow> fault + GLSLGenerator" where
  "Generate_reservedWords [] g = Inr g"
| "Generate_reservedWords (i # rest) g =
     andThen (ChooseUniqueName (s_reservedWord ! i) (m_reservedWord g ! i) 64 g) (\<lambda>(r, dst).
       Generate_reservedWords rest (g \<lparr> m_reservedWord := (m_reservedWord g)[i := dst] \<rparr>))"

text \<open>The helper functions \<open>Generate\<close> writes ahead of the program.\<close>

definition Generate_clip :: "GLSLGenerator \<Rightarrow> GLSLGenerator" where
  "Generate_clip g =
     (let discard = (if m_target g = Target_FragmentShader then ''discard'' else '''');
          f = m_clipFunction g
      in WriteLine 0 (''void '' @ f
           @ ''(vec4  x) { if (any(lessThan(x, vec4(0.0, 0.0, 0.0, 0.0)))) '' @ discard @ '';  }'')
        (WriteLine 0 (''void '' @ f
           @ ''(vec3  x) { if (any(lessThan(x, vec3(0.0, 0.0, 0.0)))) '' @ discard @ '';  }'')
        (WriteLine 0 (''void '' @ f
           @ ''(vec2  x) { if (any(lessThan(x, vec2(0.0, 0.0)))) '' @ discard @ '';  }'')
        (WriteLine 0 (''void '' @ f @ ''(float x) { if (x < 0.0) '' @ discard @ '';  }'') g))))"

definition Generate_swizzle :: "string \<Rightarrow> string \<Rightarrow> string \<Rightarrow> GLSLGenerator \<Rightarrow> GLSLGenerator" where
  "Generate_swizzle n f xs g =
     WriteLine 0 (''uvec'' @ n @ '' '' @ f @ ''(uint  x) { return uvec'' @ n @ ''('' @ xs @ ''); }'')
    (WriteLine 0 (''ivec'' @ n @ '' '' @ f @ ''(int   x) { return ivec'' @ n @ ''('' @ xs @ ''); }'')
    (WriteLine 0 (''vec'' @ n @ ''  '' @ f @ ''(float x) { return  vec'' @ n @ ''('' @ xs @ ''); }'')
       g))"

fun Generate_sinCos :: "string list \<Rightarrow> GLSLGenerator \<Rightarrow> GLSLGenerator" where
  "Generate_sinCos [] g = g"
| "Generate_sinCos (ft # rest) g =
     Generate_sinCos rest
       (WriteLine 0 (''void '' @ m_sinCosFunction g @ ''('' @ ft @ '' x, out '' @ ft
                       @ '' s, out '' @ ft @ '' c) { s = sin(x); c = cos(x); }'') g)"

text \<open>The calls of \<open>ChooseUniqueName\<close> at the head of \<open>Generate\<close>; their results are dropped.\<close>

definition Generate_names :: "GLSLGenerator \<Rightarrow> fault + GLSLGenerator" where
  "Generate_names g =
     andThen (ChooseUniqueName ''matrix_row'' (m_matrixRowFunction g) 64 g) (\<lambda>(r, dst).
     let g = g \<lparr> m_matrixRowFunction := dst \<rparr> in
     andThen (ChooseUniqueName ''clip'' (m_clipFunction g) 64 g) (\<lambda>(r, dst).
     let g = g \<lparr> m_clipFunction := dst \<rparr> in
     andThen (ChooseUniqueName ''tex2Dlod'' (m_tex2DlodFunction g) 64 g) (\<lambda>(r, dst).
     let g = g \<lparr> m_tex2DlodFunction := dst \<rparr> in
     andThen (ChooseUniqueName ''texCUBEbias'' (m_texCUBEbiasFunction g) 64 g) (\<lambda>(r, dst).
     let g = g \<lparr> m_texCUBEbiasFunction := dst \<rparr> in
     andThen (Generate_reservedWords [0 ..< 4] g) (\<lambda>g.
     andThen (ChooseUniqueName ''m_scalar_swizzle2'' (m_scalarSwizzle2Function g) 64 g)
       (\<lambda>(r, dst).
     let g = g \<lparr> m_scalarSwizzle2Function := dst \<rparr> in
     andThen (ChooseUniqueName ''m_scalar_swizzle3'' (m_scalarSwizzle3Function g) 64 g)
       (\<lambda>(r, dst).
     let g = g \<lparr> m_scalarSwizzle3Function := dst \<rparr> in
     andThen (ChooseUniqueName ''m_scalar_swizzle4'' (m_scalarSwizzle4Function g) 64 g)
       (\<lambda>(r, dst).
     let g = g \<lparr> m_scalarSwizzle4Function := dst \<rparr> in
     andThen (ChooseUniqueName ''sincos'' (m_sinCosFunction g) 64 g) (\<lambda>(r, dst).
       Inr (g \<lparr> m_sinCosFunction := dst \<rparr>))))))))))"

definition Generate_header :: "bool \<Rightarrow> bool \<Rightarrow> bool \<Rightarrow> bool \<Rightarrow> GLSLGenerator \<Rightarrow> GLSLGenerator"
  where
  "Generate_header usesClip usesTex2Dlod usestexCUBEbias usesSinCos g =
     (let g = WriteLine 0 ''#version 140'' g;
          g = WriteLine 0 ''#pragma optionNV(fastmath on)'' g;
          g = WriteLine 0 ''#pragma optionNV(ifcvt none)'' g;
          g = WriteLine 0 ''#pragma optionNV(inline all)'' g;
          g = WriteLine 0 ''#pragma optionNV(strict on)'' g;
          g = WriteLine 0 ''#pragma optionNV(unroll all)'' g;
          g = WriteLine 0 (''vec3 '' @ m_matrixRowFunction g
                @ ''(mat3 m, int i) { return vec3( m[0][i], m[1][i], m[2][i] ); }'') g;
          g = WriteLine 0 (''vec4 '' @ m_matrixRowFunction g
                @ ''(mat4 m, int i) { return vec4( m[0][i], m[1][i], m[2][i], m[3][i] ); }'') g;
          g = (if usesClip then Generate_clip g else g);
          g = (if usesTex2Dlod
               then WriteLine 0 (''vec4 '' @ m_tex2DlodFunction g
                      @ ''(sampler2D sampler, vec4 texCoord) { return textureLod(sampler, texCoord.xy, texCoord.w);  }'') g
               else g);
          g = (if usestexCUBEbias
               then if m_target g = Target_FragmentShader
                    then WriteLine 0 (''vec4 '' @ m_texCUBEbiasFunction g
                           @ ''(samplerCube sampler, vec4 texCoord) { return texture(sampler, texCoord.xyz, texCoord.w);  }'') g
                    else WriteLine 0 (''vec4 '' @ m_texCUBEbiasFunction g
                           @ ''(samplerCube sampler, vec4 texCoord) { return texture(sampler, texCoord.xyz);  }'') g
               else g);
          g = Generate_swizzle ''2'' (m_scalarSwizzle2Function g) ''x, x'' g;
          g = Generate_swizzle ''3'' (m_scalarSwizzle3Function g) ''x, x, x'' g;
          g = Generate_swizzle ''4'' (m_scalarSwizzle4Function g) ''x, x, x, x'' g
      in if usesSinCos then Generate_sinCos [''float'', ''vec2'', ''vec3'', ''vec4''] g else g)"

text \<open>
  \<open>Generate\<close>: the result and the generator afterwards. \<open>m_outputPosition\<close> and \<open>m_error\<close>
  are what they were when the call began: only the constructor clears them.
\<close>

definition Generate ::
  "HLSLTree \<Rightarrow> Target \<Rightarrow> string option \<Rightarrow> GLSLGenerator \<Rightarrow> fault + bool \<times> GLSLGenerator" where
  "Generate tree target entryName g =
     (let g = g \<lparr> m_tree := Some tree, m_entryName := entryName, m_target := target \<rparr>;
          usesClip = GetContainsString tree ''clip'';
          usesTex2Dlod = GetContainsString tree ''tex2Dlod'';
          usestexCUBEbias = GetContainsString tree ''texCUBEbias'';
          usesSinCos = GetContainsString tree ''sincos''
      in
      andThen (Generate_names g) (\<lambda>g.
      let g = (if target = Target_VertexShader
               then g \<lparr> m_inAttribPrefix := Some [], m_outAttribPrefix := Some ''frag_'' \<rparr>
               else g \<lparr> m_inAttribPrefix := Some ''frag_'', m_outAttribPrefix := Some ''rast_'' \<rparr>);
          root = m_root tree
      in
      andThen (FindFunction root (m_entryName g)) (\<lambda>found.
        case found of
          None \<Rightarrow>
            Inr (False,
                 GLSLGenerator_Error
                   (''Entry point '' @ [CHR 0x27] @ printf_s (m_entryName g) @ [CHR 0x27]
                      @ '' doesn'' @ [CHR 0x27] @ ''t exist'') g)
        | Some entryFunction \<Rightarrow>
            andThen (OutputAttributes entryFunction
                       (Generate_header usesClip usesTex2Dlod usestexCUBEbias usesSinCos g))
              (\<lambda>g.
            andThen (OutputStatements 0 root None g) (\<lambda>g.
            andThen (OutputEntryCaller entryFunction g) (\<lambda>g.
              let g = g \<lparr> m_tree := None \<rparr>;
                  g = (if target = Target_VertexShader \<and> \<not> m_outputPosition g
                       then GLSLGenerator_Error ''Vertex shader must output a position'' g
                       else g)
              in Inr (\<not> m_error g, g)))))))"

section \<open>The command line (Main.cpp)\<close>

text \<open>\<open>PrintUsage\<close>: the text it writes to \<open>std::cerr\<close>.\<close>

definition usage :: string where
  "usage = ''usage: hlslparser [-h] [-fs | -vs] FILENAME ENTRYNAME''"

text \<open>
  What a run of the program leaves: the exit code, the lines on \<open>std::cerr\<close> (those of
  \<open>Log_Error\<close>, and \<open>usage\<close> for the usage text), the diagnostics the parser handed to
  the tokenizer, and what went to \<open>std::cout\<close>, the calls the generator made on its
  writer.
\<close>

record Process =
  exitCode :: int
  stderr' :: "string list"
  diagnostics :: "string list"
  stdout' :: "CodeWriterCall list"

text \<open>
  The loop over \<open>argv[1]\<close>, ...: either the exit code and the lines written (a \<open>return\<close>
  inside the loop), or the file name, the entry name and the target.
\<close>

fun main_arguments ::
  "string list \<Rightarrow> string option \<Rightarrow> string option \<Rightarrow> Target
     \<Rightarrow> int \<times> string list + string option \<times> string option \<times> Target" where
  "main_arguments [] file entry target = Inr (file, entry, target)"
| "main_arguments (arg # rest) file entry target =
     (if String_Equal arg ''-h'' \<or> String_Equal arg ''--help'' then Inl (0, [usage])
      else if String_Equal arg ''-fs'' then main_arguments rest file entry Target_FragmentShader
      else if String_Equal arg ''-vs'' then main_arguments rest file entry Target_VertexShader
      else if file = None then main_arguments rest (Some arg) entry target
      else if entry = None then main_arguments rest file (Some arg) target
      else Inl (1, [Log_Error ''Too many arguments'', usage]))"

text \<open>
  \<open>main\<close>. Modelled from the spec: reading the file and cutting it into tokens (the
  tokenizer is not among the sources); \<open>tokensOf\<close> gives, for a file name, the tokens the
  tokenizer delivers for the file's contents. \<open>fuel\<close> is the parser's. The result of
  \<open>Generate\<close> is not looked at.
\<close>

definition main :: "nat \<Rightarrow> (string \<Rightarrow> Token list) \<Rightarrow> string list \<Rightarrow> fault + Process" where
  "main fuel tokensOf argv =
     (case main_arguments (tl argv) None None Target_FragmentShader of
        Inl (code, lines) \<Rightarrow>
          Inr \<lparr> exitCode = code, stderr' = lines, diagnostics = [], stdout' = [] \<rparr>
      | Inr (Some file, Some entry, target) \<Rightarrow>
          andThen (Parse fuel HLSLTree_new (HLSLParser_new file (tokensOf file))) (\<lambda>(ok, parser).
            if \<not> ok
            then Inr \<lparr> exitCode = 1, stderr' = [Log_Error ''Parsing failed, aborting''],
                       diagnostics = m_errors (m_tokenizer parser), stdout' = [] \<rparr>
            else
              andThen (Generate (HLSLParser.m_tree parser) target (Some entry) GLSLGenerator_new)
                (\<lambda>(result, generator).
                   Inr \<lparr> exitCode = 0, stderr' = m_cerr generator,
                          diagnostics = m_errors (m_tokenizer parser),
                          stdout' = m_writer generator \<rparr>))
      | Inr _ \<Rightarrow>
          Inr \<lparr> exitCode = 1, stderr' = [Log_Error ''Missing arguments'', usage],
                 diagnostics = [], stdout' = [] \<rparr>)"
section \<open>Overload resolution as the specification words it\<close>

text \<open>
  The notions the specification states overload resolution with. The candidates of a call
  are the user functions and the intrinsics of that name, user functions first. A
  candidate is viable when it has the call's arity and no argument has rank \<open>-1\<close>; its
  rank vector is then sorted in descending order. One vector is better than another when it
  is smaller at the first position where they differ. A unique winner is a candidate whose
  vector is better than that of every other viable candidate (candidates are told apart by
  their position in the list).
\<close>

definition viableRanks :: "HLSLFunctionCall \<Rightarrow> HLSLFunction \<Rightarrow> int list option" where
  "viableRanks call f =
     (case GetFunctionCallCastRanks call (Some f) of
        Inr (Some ranks) \<Rightarrow> Some (sortRanks ranks)
      | _ \<Rightarrow> None)"

fun rankLess :: "int list \<Rightarrow> int list \<Rightarrow> bool" where
  "rankLess (x # xs) (y # ys) = (x < y \<or> (x = y \<and> rankLess xs ys))"
| "rankLess xs ys = False"


definition uniqueWinner :: "HLSLFunctionCall \<Rightarrow> HLSLFunction list \<Rightarrow> HLSLFunction \<Rightarrow> bool" where
  "uniqueWinner call cands f \<longleftrightarrow>
     (\<exists>i < length cands. cands ! i = f \<and>
        (\<exists>v. viableRanks call f = Some v \<and>
           (\<forall>j < length cands. j \<noteq> i \<longrightarrow>
              (\<forall>w. viableRanks call (cands ! j) = Some w \<longrightarrow> rankLess v w))))"


definition matchInv ::
  "HLSLFunctionCall \<Rightarrow> HLSLFunction list \<Rightarrow> HLSLFunction option \<Rightarrow> int \<Rightarrow> bool" where
  "matchInv call cs m k \<longleftrightarrow>
     (m = None \<longrightarrow> (\<forall>g \<in> set cs. viableRanks call g = None))
     \<and> (\<forall>f. m = Some f \<longrightarrow>
           f \<in> set cs
           \<and> (\<exists>v. viableRanks call f = Some v
                 \<and> (\<forall>g \<in> set cs. \<forall>w. viableRanks call g = Some w \<longrightarrow> \<not> rankLess w v))
           \<and> k = int (length (filter (\<lambda>g. viableRanks call g = viableRanks call f) cs)))"

section \<open>Swizzles as the specification words them\<close>

text \<open>
  An accessor is a swizzle when each of its characters is one of \<open>xyzwrgba\<close>. The types
  the swizzle rule is about: scalars and vectors (dimension at most 1) of the families
  float, half, int and uint.
\<close>

definition isSwizzle :: "string \<Rightarrow> bool" where
  "isSwizzle fieldName \<longleftrightarrow> set fieldName \<subseteq> set ''xyzwrgba''"

definition isSwizzleType :: "HLSLType \<Rightarrow> bool" where
  "isSwizzleType t \<longleftrightarrow>
     numDimensions (baseTypeDescriptions (baseType t)) \<le> 1
     \<and> numericType (baseTypeDescriptions (baseType t))
         \<in> {NumericType_Float, NumericType_Half, NumericType_Int, NumericType_Uint}"

section \<open>Concrete inputs\<close>

text \<open>
  The specification's ambiguity scenario: \<open>g(float, int)\<close> and \<open>g(int, float)\<close>, called
  as \<open>g(1, 1)\<close> with two integer literals.
\<close>

definition ex_node :: "nat \<Rightarrow> HLSLNode" where
  "ex_node a = \<lparr> addr = a, fileName = Some ''shader.hlsl'', line = 1 \<rparr>"


definition ex_argument :: "nat \<Rightarrow> string \<Rightarrow> HLSLBaseType \<Rightarrow> HLSLArgument" where
  "ex_argument a nm b =
     HLSLArgument (ex_node a) (Some nm) HLSLArgumentModifier_None (HLSLType_of b) None"

definition ex_g1 :: HLSLFunction where
  "ex_g1 = HLSLFunction (ex_node 1) ''g'' (HLSLType_of HLSLBaseType_Float) None 2
     [ex_argument 2 ''a'' HLSLBaseType_Float, ex_argument 3 ''b'' HLSLBaseType_Int]"

definition ex_g2 :: HLSLFunction where
  "ex_g2 = HLSLFunction (ex_node 4) ''g'' (HLSLType_of HLSLBaseType_Float) None 2
     [ex_argument 5 ''a'' HLSLBaseType_Int, ex_argument 6 ''b'' HLSLBaseType_Float]"


definition ex_parser :: HLSLParser where
  "ex_parser = (HLSLParser_new ''shader.hlsl'' []) \<lparr> m_functions := [ex_g1, ex_g2] \<rparr>"


text \<open>The expression \<open>--x\<close>, with \<open>x\<close> an \<open>int\<close>.\<close>

definition ex_predecrement :: HLSLExpression where
  "ex_predecrement =
     HLSLUnaryExpression (ex_node 2) (HLSLType_of HLSLBaseType_Int) HLSLUnaryOp_PreDecrement
       (HLSLIdentifierExpression (ex_node 1) (HLSLType_of HLSLBaseType_Int) ''x'' False)"

text \<open>
  String pools: one that holds \<open>base0\<close>, ..., \<open>base(n-1)\<close> for a base (a program that uses
  all these identifiers has it), and one of a program that names \<open>clip\<close>, \<open>clip0\<close> and
  \<open>main\<close>.
\<close>

fun numberedNames :: "string \<Rightarrow> nat \<Rightarrow> string set" where
  "numberedNames base 0 = {}"
| "numberedNames base (Suc n) = insert (base @ printf_d (int n)) (numberedNames base n)"

definition ex_full_tree :: HLSLTree where
  "ex_full_tree = HLSLTree_new \<lparr> m_stringPool := numberedNames ''clip'' 1024 \<rparr>"

definition ex_clip_tree :: HLSLTree where
  "ex_clip_tree = HLSLTree_new \<lparr> m_stringPool := {''clip'', ''clip0'', ''main''} \<rparr>"

text \<open>
  Token streams, as the tokenizer delivers them for a file of one line: \<open>tk\<close> is a
  keyword, operator or punctuation token, \<open>ident\<close> an identifier, \<open>intLiteral\<close> an integer
  literal.
\<close>

definition tk :: "int \<Rightarrow> Token" where
  "tk t = \<lparr> tokenOf = t, identifierOf = [], fValueOf = ''0'', iValueOf = 0, lineOf = 1 \<rparr>"

definition ident :: "string \<Rightarrow> Token" where
  "ident s = \<lparr> tokenOf = HLSLToken_Identifier, identifierOf = s, fValueOf = ''0'',
               iValueOf = 0, lineOf = 1 \<rparr>"

definition intLiteral :: "int \<Rightarrow> Token" where
  "intLiteral i = \<lparr> tokenOf = HLSLToken_IntLiteral, identifierOf = [], fValueOf = ''0'',
                    iValueOf = i, lineOf = 1 \<rparr>"

text \<open>\<open>void f() { return; }\<close>\<close>

definition ex_return_tokens :: "Token list" where
  "ex_return_tokens =
     [tk HLSLToken_Void, ident ''f'', tk (chr CHR ''(''), tk (chr CHR '')''), tk (chr CHR ''{''),
      tk HLSLToken_Return, tk (chr CHR '';''), tk (chr CHR ''}'')]"

text \<open>\<open>float4 main(float4 p : POSITION) : COLOR { return p; }\<close>\<close>

definition ex_color_tokens :: "Token list" where
  "ex_color_tokens =
     [tk HLSLToken_Float4, ident ''main'', tk (chr CHR ''(''), tk HLSLToken_Float4, ident ''p'',
      tk (chr CHR '':''), ident ''POSITION'', tk (chr CHR '')''), tk (chr CHR '':''),
      ident ''COLOR'', tk (chr CHR ''{''), tk HLSLToken_Return, ident ''p'', tk (chr CHR '';''),
      tk (chr CHR ''}'')]"

text \<open>\<open>void f() { for (;;) ; }\<close>\<close>

definition ex_for_empty_tokens :: "Token list" where
  "ex_for_empty_tokens =
     [tk HLSLToken_Void, ident ''f'', tk (chr CHR ''(''), tk (chr CHR '')''), tk (chr CHR ''{''),
      tk HLSLToken_For, tk (chr CHR ''(''), tk (chr CHR '';''), tk (chr CHR '';''),
      tk (chr CHR '')''), tk (chr CHR '';''), tk (chr CHR ''}'')]"

text \<open>
  \<open>( int i = 0 ; ; ) ; }\<close>, what follows the keyword of \<open>for (int i = 0; ; ) ;\<close> in a block,
  and a parser that has it to read.
\<close>

definition ex_for_tokens :: "Token list" where
  "ex_for_tokens =
     [tk (chr CHR ''(''), tk HLSLToken_Int, ident ''i'', tk (chr CHR ''=''), intLiteral 0,
      tk (chr CHR '';''), tk (chr CHR '';''), tk (chr CHR '')''), tk (chr CHR '';''),
      tk (chr CHR ''}'')]"

definition ex_for_parser :: HLSLParser where
  "ex_for_parser = HLSLParser_new ''shader.hlsl'' ex_for_tokens"
section \<open>Properties of the implicit-cast rank\<close>






section \<open>Overload resolution picks the unique best candidate\<close>

lemma andThen_simps [simp]:
  "andThen (Inl f) k = Inl f" "andThen (Inr x) k = k x"
  by (simp_all add: andThen_def)

















lemma filter_two_indices:
  assumes "length (filter P cs) > 1"
  shows "\<exists>i j. i < j \<and> j < length cs \<and> P (cs ! i) \<and> P (cs ! j)"
proof -
  from assms obtain x ys where fx: "filter P cs = x # ys" "ys \<noteq> []"
    by (cases "filter P cs") auto
  then obtain us vs where s: "cs = us @ x # vs" "P x" "ys = filter P vs"
    by (auto simp: filter_eq_Cons_iff)
  from fx(2) s(3) obtain y where y: "y \<in> set vs" "P y"
    by (auto simp: filter_empty_conv)
  then obtain n where n: "n < length vs" "vs ! n = y"
    by (auto simp: in_set_conv_nth)
  have "length us < length us + 1 + n" "length us + 1 + n < length cs"
       "P (cs ! length us)" "P (cs ! (length us + 1 + n))"
    using s(1,2) n y(2) by (simp_all add: nth_append)
  then show ?thesis by blast
qed

lemma matchInv_ambiguous:
  assumes "matchInv call cs (Some f) k" "k > 1"
  shows "\<not> uniqueWinner call cs h"
proof
  assume "uniqueWinner call cs h"
  then obtain i vh where
    h: "i < length cs" "cs ! i = h" "viableRanks call h = Some vh"
       "\<forall>j < length cs. j \<noteq> i \<longrightarrow>
          (\<forall>w. viableRanks call (cs ! j) = Some w \<longrightarrow> rankLess vh w)"
    by (auto simp: uniqueWinner_def)
  from assms obtain v where
    f: "viableRanks call f = Some v"
       "\<forall>g \<in> set cs. \<forall>w. viableRanks call g = Some w \<longrightarrow> \<not> rankLess w v"
       "length (filter (\<lambda>g. viableRanks call g = Some v) cs) > 1"
    by (auto simp: matchInv_def)
  from filter_two_indices[OF f(3)] obtain a b where
    ab: "a < b" "b < length cs" "viableRanks call (cs ! a) = Some v"
        "viableRanks call (cs ! b) = Some v"
    by blast
  then obtain j where j: "j < length cs" "j \<noteq> i" "viableRanks call (cs ! j) = Some v"
  proof (cases "a = i")
    case True
    then show ?thesis using that[of b] ab by auto
  next
    case False
    then show ?thesis using that[of a] ab by auto
  qed
  with h(4) have "rankLess vh v" by blast
  moreover have "h \<in> set cs" using h(1,2) by auto
  then have "\<not> rankLess vh v" using f(2) h(3) by blast
  ultimately show False by blast
qed







section \<open>Swizzles on scalars and vectors\<close>

lemma GetMemberType_swizzle_eq:
  "GetMemberType_swizzle fieldName k =
     (if isSwizzle fieldName then Some (k + int (length fieldName)) else None)"
  by (induction fieldName arbitrary: k) (auto simp: isSwizzle_def)

lemma swizzle_tables:
  assumes "1 \<le> n" "n \<le> 4"
  shows "readArray floatType (int n - 1) = Inr (floatType ! (n - 1))"
        "readArray halfType (int n - 1) = Inr (halfType ! (n - 1))"
        "readArray intType (int n - 1) = Inr (intType ! (n - 1))"
        "readArray uintType (int n - 1) = Inr (uintType ! (n - 1))"
  using assms
  by (auto simp: readArray_def floatType_def halfType_def intType_def uintType_def nat_diff_distrib')

lemma small_cases: "1 \<le> n \<Longrightarrow> n \<le> 4 \<Longrightarrow> n = 1 \<or> n = 2 \<or> n = 3 \<or> n = (4::nat)"
  by arith

lemma swizzle_table_props:
  assumes "1 \<le> n" "n \<le> 4"
  shows "numericType (baseTypeDescriptions (floatType ! (n - 1))) = NumericType_Float"
        "numericType (baseTypeDescriptions (halfType ! (n - 1))) = NumericType_Half"
        "numericType (baseTypeDescriptions (intType ! (n - 1))) = NumericType_Int"
        "numericType (baseTypeDescriptions (uintType ! (n - 1))) = NumericType_Uint"
        "numComponents (baseTypeDescriptions (floatType ! (n - 1))) = int n"
        "numComponents (baseTypeDescriptions (halfType ! (n - 1))) = int n"
        "numComponents (baseTypeDescriptions (intType ! (n - 1))) = int n"
        "numComponents (baseTypeDescriptions (uintType ! (n - 1))) = int n"
        "numDimensions (baseTypeDescriptions (floatType ! (n - 1))) \<le> 1"
        "numDimensions (baseTypeDescriptions (halfType ! (n - 1))) \<le> 1"
        "numDimensions (baseTypeDescriptions (intType ! (n - 1))) \<le> 1"
        "numDimensions (baseTypeDescriptions (uintType ! (n - 1))) \<le> 1"
  using small_cases[OF assms]
  by (auto simp: floatType_def halfType_def intType_def uintType_def BaseTypeDescription_of_def)

lemma GetMemberType_swizzle_result:
  assumes "isSwizzleType objectType"
  shows "GetMemberType objectType fieldName memberType p =
    (if \<not> isSwizzle fieldName then Inr (False, memberType, Error (invalidSwizzle fieldName) p)
     else if fieldName = [] then Inl AssertionFailure
     else if length fieldName > 4
     then Inr (False, memberType, Error (invalidSwizzle fieldName) p)
     else Inr (True,
            setBaseType
              ((case numericType (baseTypeDescriptions (baseType objectType)) of
                  NumericType_Float \<Rightarrow> floatType | NumericType_Half \<Rightarrow> halfType
                | NumericType_Int \<Rightarrow> intType | _ \<Rightarrow> uintType) ! (length fieldName - 1))
              memberType, p))"
proof -
  have ud: "baseType objectType \<noteq> HLSLBaseType_UserDefined"
    using assms by (auto simp: isSwizzleType_def BaseTypeDescription_of_def)
  have nn: "numericType (baseTypeDescriptions (baseType objectType)) \<noteq> NumericType_NaN"
    using assms by (auto simp: isSwizzleType_def)
  have dim: "numDimensions (baseTypeDescriptions (baseType objectType)) \<le> 1"
    using assms by (simp add: isSwizzleType_def)
  show ?thesis
  proof (cases "isSwizzle fieldName \<and> fieldName \<noteq> [] \<and> length fieldName \<le> 4")
    case True
    then have n: "1 \<le> length fieldName" "length fieldName \<le> 4"
      by (simp_all add: Suc_le_eq)
    show ?thesis
      using True assms ud nn dim swizzle_tables[OF n]
      by (auto simp: GetMemberType_def Let_def GetMemberType_swizzle_eq isSwizzleType_def
            split: NumericType.splits)
  next
    case False
    then show ?thesis
      using ud nn dim
      by (auto simp: GetMemberType_def Let_def GetMemberType_swizzle_eq)
  qed
qed

text \<open>
  Claim C7. On a scalar or vector of family float, half, int or uint, \<open>GetMemberType\<close>
  accepts an accessor exactly when every character is one of \<open>xyzwrgba\<close> and its length
  is between 1 and 4; the member's base type is then the scalar or vector of the same
  family with as many components as the accessor has characters, and nothing else of the
  member type or the parser changes. A swizzle of more than four characters, and an
  accessor with any other character, is rejected with the diagnostic "Invalid swizzle".
\<close>

theorem GetMemberType_swizzle_spec:
  assumes "isSwizzleType objectType"
  shows "((\<exists>mt p'. GetMemberType objectType fieldName memberType p = Inr (True, mt, p'))
            \<longleftrightarrow> isSwizzle fieldName \<and> 1 \<le> length fieldName \<and> length fieldName \<le> 4)
       \<and> (\<forall>mt p'. GetMemberType objectType fieldName memberType p = Inr (True, mt, p') \<longrightarrow>
             p' = p
             \<and> mt = setBaseType (baseType mt) memberType
             \<and> numericType (baseTypeDescriptions (baseType mt))
                 = numericType (baseTypeDescriptions (baseType objectType))
             \<and> numDimensions (baseTypeDescriptions (baseType mt)) \<le> 1
             \<and> numComponents (baseTypeDescriptions (baseType mt)) = int (length fieldName))
       \<and> (isSwizzle fieldName \<and> length fieldName > 4 \<longrightarrow>
             GetMemberType objectType fieldName memberType p
               = Inr (False, memberType, Error (invalidSwizzle fieldName) p))
       \<and> (\<not> isSwizzle fieldName \<longrightarrow>
             GetMemberType objectType fieldName memberType p
               = Inr (False, memberType, Error (invalidSwizzle fieldName) p))"
proof -
  note r = GetMemberType_swizzle_result[OF assms, of fieldName memberType p]
  have fam: "numericType (baseTypeDescriptions (baseType objectType))
         \<in> {NumericType_Float, NumericType_Half, NumericType_Int, NumericType_Uint}"
    using assms by (simp add: isSwizzleType_def)
  have ok: "p' = p
             \<and> mt = setBaseType (baseType mt) memberType
             \<and> numericType (baseTypeDescriptions (baseType mt))
                 = numericType (baseTypeDescriptions (baseType objectType))
             \<and> numDimensions (baseTypeDescriptions (baseType mt)) \<le> 1
             \<and> numComponents (baseTypeDescriptions (baseType mt)) = int (length fieldName)"
    if h: "GetMemberType objectType fieldName memberType p = Inr (True, mt, p')" for mt p'
  proof -
    from h r have c: "isSwizzle fieldName" "fieldName \<noteq> []" "\<not> length fieldName > 4"
      by (auto split: if_splits)
    then have n: "1 \<le> length fieldName" "length fieldName \<le> 4"
      by (simp_all add: Suc_le_eq)
    from h r c have mt: "mt = setBaseType
              ((case numericType (baseTypeDescriptions (baseType objectType)) of
                  NumericType_Float \<Rightarrow> floatType | NumericType_Half \<Rightarrow> halfType
                | NumericType_Int \<Rightarrow> intType | _ \<Rightarrow> uintType) ! (length fieldName - 1))
              memberType" and pp: "p' = p"
      by simp_all
    show ?thesis
      using fam mt pp swizzle_table_props[OF n]
      by (auto simp: setBaseType_def)
  qed
  show ?thesis
    using r ok by (auto simp: Suc_le_eq)
qed

lemma ex_swizzle_accepted:
  "GetMemberType (HLSLType_of HLSLBaseType_Float4) ''wwx'' (HLSLType_of HLSLBaseType_Unknown)
     ex_parser = Inr (True, HLSLType_of HLSLBaseType_Float3, ex_parser)"
  by code_simp

lemma ex_swizzle_rejected:
  "GetMemberType (HLSLType_of HLSLBaseType_Float4) ''xyzwx'' (HLSLType_of HLSLBaseType_Unknown)
     ex_parser
   = Inr (False, HLSLType_of HLSLBaseType_Unknown, Error (invalidSwizzle ''xyzwx'') ex_parser)"
  by code_simp

theorem GetMemberType_swizzle_spec_witness:
  "isSwizzleType (HLSLType_of HLSLBaseType_Float4)
   \<and> isSwizzle ''wwx'' \<and> isSwizzle ''xyzwx''
   \<and> GetMemberType (HLSLType_of HLSLBaseType_Float4) ''wwx'' (HLSLType_of HLSLBaseType_Unknown)
        ex_parser = Inr (True, HLSLType_of HLSLBaseType_Float3, ex_parser)
   \<and> numComponents (baseTypeDescriptions (baseType (HLSLType_of HLSLBaseType_Float3)))
        = int (length ''wwx'')
   \<and> GetMemberType (HLSLType_of HLSLBaseType_Float4) ''xyzwx''
        (HLSLType_of HLSLBaseType_Unknown) ex_parser
      = Inr (False, HLSLType_of HLSLBaseType_Unknown,
             Error (invalidSwizzle ''xyzwx'') ex_parser)"
proof -
  have t: "isSwizzleType (HLSLType_of HLSLBaseType_Float4)"
    by (simp add: isSwizzleType_def HLSLType_of_def BaseTypeDescription_of_def)
  have s: "isSwizzle ''wwx''" "isSwizzle ''xyzwx''"
    by (simp_all add: isSwizzle_def)
  show ?thesis
    using GetMemberType_swizzle_spec[OF t, of "''wwx''" "HLSLType_of HLSLBaseType_Unknown" ex_parser]
          GetMemberType_swizzle_spec[OF t, of "''xyzwx''" "HLSLType_of HLSLBaseType_Unknown" ex_parser]
          t s ex_swizzle_accepted ex_swizzle_rejected
    by simp
qed



section \<open>The emitter\<close>

subsection \<open>Pre-decrement\<close>

lemma PreDecrement_general:
  "OutputExpression (HLSLUnaryExpression nd ty HLSLUnaryOp_PreDecrement e) None g =
     andThen (OutputExpression e None (Write ''++'' (Write ''('' g)))
       (\<lambda>g. Inr (Write '')'' g))"
  by (cases "OutputExpression e None (Write ''++'' (Write ''('' g))") simp_all

text \<open>
  Claim C8. The claim is that a pre-decrement is printed with the prefix operator \<open>--\<close>.
  The emitter prints \<open>++\<close>: for \<open>--x\<close> it writes \<open>(\<close>, \<open>++\<close>, \<open>x\<close>, \<open>)\<close>.
\<close>

theorem PreDecrement_emits_increment:
  "map_sum id m_writer (OutputExpression ex_predecrement None GLSLGenerator_new) =
     Inr [WriteCall ''('', WriteCall ''++'', WriteCall ''x'', WriteCall '')'']"
  by (simp add: ex_predecrement_def GLSLGenerator_new_def OutputIdentifier_def
      GetSafeIdentifierName_def String_Equal_def s_reservedWord_def Write_def
      GetCanImplicitCast_def upt_rec)

subsection \<open>\<open>discard\<close>\<close>

text \<open>
  Claim C10. For a \<open>discard;\<close> statement the emitter leaves the generator as it was
  when the target is a vertex shader (nothing written, no diagnostic), and writes the line
  \<open>discard;\<close> when the target is a fragment shader.
\<close>

theorem OutputStatement_discard:
  "OutputStatement indent (HLSLDiscardStatement nd) returnType' g =
     Inr (case m_target g of
            Target_VertexShader \<Rightarrow> g
          | Target_FragmentShader \<Rightarrow> WriteLineAt indent (fileName nd) (line nd) ''discard;'' g)"
  by (cases "m_target g") simp_all

theorem OutputStatement_discard_witness:
  "OutputStatement 1 (HLSLDiscardStatement (ex_node 3)) None GLSLGenerator_new
     = Inr GLSLGenerator_new
   \<and> map_sum id m_writer
       (OutputStatement 1 (HLSLDiscardStatement (ex_node 3)) None
          (GLSLGenerator_new \<lparr> m_target := Target_FragmentShader \<rparr>))
     = Inr [WriteLineAtCall 1 (Some ''shader.hlsl'') 1 ''discard;'']"
  using OutputStatement_discard [of 1 "ex_node 3" None GLSLGenerator_new]
    OutputStatement_discard [of 1 "ex_node 3" None
      "GLSLGenerator_new \<lparr> m_target := Target_FragmentShader \<rparr>"]
  by (simp add: GLSLGenerator_new_def WriteLineAt_def ex_node_def)

subsection \<open>The position written by the entry point\<close>

lemma GetBuiltInSemantic_position:
  "String_EqualNoCase sem ''SV_POSITION'' \<Longrightarrow>
   GetBuiltInSemantic (Some sem) = Inr (Some ''gl_Position'')"
  by (simp add: GetBuiltInSemantic_def builtInSemantics_def)

text \<open>
  Claim C6. When the semantic of the result is \<open>SV_POSITION\<close> (in any letter case), the
  semantic that maps to \<open>gl_Position\<close>, \<open>OutputSetOutAttribute\<close> writes the line that keeps
  the result in \<open>temp\<close> and then exactly the line
  \<open>gl_Position = temp * vec4(1,-1,2,1) - vec4(0,0,temp.w,0);\<close>, and sets
  \<open>m_outputPosition\<close>; nothing else of the generator changes.
\<close>

theorem OutputSetOutAttribute_position:
  assumes "String_EqualNoCase sem ''SV_POSITION''"
  shows "OutputSetOutAttribute (Some sem) resultName g =
           Inr (g \<lparr> m_writer := m_writer g @
                       [WriteLineCall 1 (''vec4 temp = '' @ resultName @ '';''),
                        WriteLineCall 1
                          ''gl_Position = temp * vec4(1,-1,2,1) - vec4(0,0,temp.w,0);''],
                     m_outputPosition := True \<rparr>)"
  using GetBuiltInSemantic_position [OF assms]
  by (simp add: OutputSetOutAttribute_def String_Equal_def WriteLine_def)

theorem OutputSetOutAttribute_position_witness:
  "String_EqualNoCase ''SV_Position'' ''SV_POSITION'' \<and>
   OutputSetOutAttribute (Some ''SV_Position'') ''result'' GLSLGenerator_new =
     Inr (GLSLGenerator_new
            \<lparr> m_writer :=
                 [WriteLineCall 1 ''vec4 temp = result;'',
                  WriteLineCall 1 ''gl_Position = temp * vec4(1,-1,2,1) - vec4(0,0,temp.w,0);''],
               m_outputPosition := True \<rparr>)"
proof -
  have sem: "String_EqualNoCase ''SV_Position'' ''SV_POSITION''"
    by code_simp
  from OutputSetOutAttribute_position [OF sem, of "''result''" GLSLGenerator_new]
  show ?thesis
    using sem by (simp add: GLSLGenerator_new_def)
qed

subsection \<open>Unique names\<close>

lemma ChooseUniqueName_loop_found:
  assumes "ChooseUniqueName_loop t base n dst k = (True, nm)"
  shows "\<not> GetContainsString t nm \<and>
         (\<exists>i. k \<le> i \<and> i < 1024 \<and> nm = String_Printf n (base @ printf_d i) \<and>
              (\<forall>j. k \<le> j \<and> j < i \<longrightarrow>
                   GetContainsString t (String_Printf n (base @ printf_d j))))"
  using assms
proof (induction t base n dst k rule: ChooseUniqueName_loop.induct)
  case (1 t base n dst k)
  show ?case
  proof (cases "k < 1024")
    case False
    with "1.prems" show ?thesis
      by (simp add: ChooseUniqueName_loop.simps [of t base n dst k])
  next
    case lt: True
    let ?c = "String_Printf n (base @ printf_d k)"
    show ?thesis
    proof (cases "GetContainsString t ?c")
      case False
      with lt "1.prems" have "nm = ?c"
        by (simp add: ChooseUniqueName_loop.simps [of t base n dst k])
      with False lt show ?thesis
        by (intro conjI exI [of _ k]) auto
    next
      case True
      with lt "1.prems" have rec: "ChooseUniqueName_loop t base n ?c (k + 1) = (True, nm)"
        by (simp add: ChooseUniqueName_loop.simps [of t base n dst k])
      from "1.IH" [OF lt refl _ rec] True
      obtain i where absent: "\<not> GetContainsString t nm"
        and i: "k + 1 \<le> i" "i < 1024" "nm = String_Printf n (base @ printf_d i)"
        and before: "\<forall>j. k + 1 \<le> j \<and> j < i \<longrightarrow>
                       GetContainsString t (String_Printf n (base @ printf_d j))"
        by auto
      have "\<forall>j. k \<le> j \<and> j < i \<longrightarrow> GetContainsString t (String_Printf n (base @ printf_d j))"
      proof (intro allI impI)
        fix j assume j: "k \<le> j \<and> j < i"
        show "GetContainsString t (String_Printf n (base @ printf_d j))"
        proof (cases "j = k")
          case True
          with \<open>GetContainsString t ?c\<close> show ?thesis by simp
        next
          case False
          with j have "k + 1 \<le> j \<and> j < i" by simp
          with before show ?thesis by blast
        qed
      qed
      with absent i show ?thesis
        by (intro conjI exI [of _ i]) auto
    qed
  qed
qed

lemma ChooseUniqueName_loop_exhausted:
  assumes "\<forall>j. k \<le> j \<and> j < 1024 \<longrightarrow> GetContainsString t (String_Printf n (base @ printf_d j))"
    and "k < 1024"
  shows "ChooseUniqueName_loop t base n dst k = (False, String_Printf n (base @ printf_d 1023))"
  using assms
proof (induction t base n dst k rule: ChooseUniqueName_loop.induct)
  case (1 t base n dst k)
  let ?c = "String_Printf n (base @ printf_d k)"
  from "1.prems" have here: "GetContainsString t ?c" by simp
  show ?case
  proof (cases "k = 1023")
    case True
    with here show ?thesis
      by (simp add: ChooseUniqueName_loop.simps [of t base n dst 1023]
          ChooseUniqueName_loop.simps [of t base n _ 1024])
  next
    case False
    with "1.prems" have lt: "k + 1 < 1024" by simp
    from "1.prems" have "\<forall>j. k + 1 \<le> j \<and> j < 1024 \<longrightarrow>
        GetContainsString t (String_Printf n (base @ printf_d j))" by simp
    from "1.IH" [OF \<open>k < 1024\<close> refl _ this lt] here
    have "ChooseUniqueName_loop t base n ?c (k + 1)
            = (False, String_Printf n (base @ printf_d 1023))" by simp
    with here \<open>k < 1024\<close> show ?thesis
      by (simp add: ChooseUniqueName_loop.simps [of t base n dst k])
  qed
qed

lemma numberedNames_member:
  "j < n \<Longrightarrow> base @ printf_d (int j) \<in> numberedNames base n"
  by (induction n) (auto simp: less_Suc_eq)

lemma decimalDigits_length:
  "n < 10000 \<Longrightarrow> length (decimalDigits n) \<le> 4"
  by (subst decimalDigits.simps, simp, subst decimalDigits.simps, simp,
      subst decimalDigits.simps, simp, subst decimalDigits.simps, simp)

lemma String_Printf_fits:
  "int (length s) < n \<Longrightarrow> String_Printf n s = s"
  by (simp add: String_Printf_def)

lemma ex_full_tree_contains:
  assumes "0 \<le> j" "j < 1024"
  shows "GetContainsString ex_full_tree (String_Printf 64 (''clip'' @ printf_d j))"
proof -
  from assms have len: "length (decimalDigits (nat j)) \<le> 4"
    by (intro decimalDigits_length) simp
  from assms have digits: "printf_d j = decimalDigits (nat j)"
    by (simp add: printf_d_def)
  from len digits have fits: "String_Printf 64 (''clip'' @ printf_d j) = ''clip'' @ printf_d j"
    by (intro String_Printf_fits) simp
  from assms have "''clip'' @ printf_d (int (nat j)) \<in> numberedNames ''clip'' 1024"
    by (intro numberedNames_member) simp
  with assms fits show ?thesis
    by (simp add: GetContainsString_def ex_full_tree_def)
qed

lemma printf_d_1023: "printf_d 1023 = ''1023''"
  by code_simp

text \<open>
  Claim C9, as stated, fails when the pool holds all of \<open>base0\<close>, ..., \<open>base1023\<close>: the
  procedure then returns \<open>false\<close> and leaves \<open>base1023\<close>, which is in the pool, as the name.
\<close>

theorem ChooseUniqueName_full_pool:
  "ChooseUniqueName ''clip'' [] 64 (GLSLGenerator_new \<lparr> m_tree := Some ex_full_tree \<rparr>)
     = Inr (False, ''clip1023'')
   \<and> GetContainsString ex_full_tree ''clip1023''"
proof -
  have all: "\<forall>j. 0 \<le> j \<and> j < 1024 \<longrightarrow>
      GetContainsString ex_full_tree (String_Printf 64 (''clip'' @ printf_d j))"
    using ex_full_tree_contains by blast
  have last: "String_Printf 64 (''clip'' @ printf_d 1023) = ''clip1023''"
    by (simp add: printf_d_1023 String_Printf_def)
  from ChooseUniqueName_loop_exhausted [OF all, of "[]"] last
  have "ChooseUniqueName_loop ex_full_tree ''clip'' 64 [] 0 = (False, ''clip1023'')"
    by simp
  moreover from ex_full_tree_contains [of 1023] last
  have "GetContainsString ex_full_tree ''clip1023''" by simp
  ultimately show ?thesis
    by (simp add: ChooseUniqueName_def GLSLGenerator_new_def)
qed

text \<open>
  Claim C9, amended. When \<open>ChooseUniqueName\<close> returns \<open>true\<close>, the name it produced is
  absent from the string pool, and it is the first of \<open>base0\<close>, ..., \<open>base1023\<close> (as
  printed into the buffer) that is absent.
\<close>

theorem ChooseUniqueName_first_absent:
  assumes "m_tree g = Some t"
    and "ChooseUniqueName base dst dstLength g = Inr (True, nm)"
  shows "\<not> GetContainsString t nm \<and>
         (\<exists>i. 0 \<le> i \<and> i < 1024 \<and> nm = String_Printf dstLength (base @ printf_d i) \<and>
              (\<forall>j. 0 \<le> j \<and> j < i \<longrightarrow>
                   GetContainsString t (String_Printf dstLength (base @ printf_d j))))"
proof -
  from assms have "ChooseUniqueName_loop t base dstLength dst 0 = (True, nm)"
    by (simp add: ChooseUniqueName_def)
  from ChooseUniqueName_loop_found [OF this] show ?thesis .
qed

lemma printf_d_0_1: "printf_d 0 = ''0''" "printf_d 1 = ''1''"
  by code_simp+

lemma ex_clip_run:
  "ChooseUniqueName ''clip'' [] 64 (GLSLGenerator_new \<lparr> m_tree := Some ex_clip_tree \<rparr>)
     = Inr (True, ''clip1'')"
  by (simp add: ChooseUniqueName_def GLSLGenerator_new_def ex_clip_tree_def HLSLTree_new_def
      ChooseUniqueName_loop.simps [of _ _ _ _ 0] ChooseUniqueName_loop.simps [of _ _ _ _ 1]
      GetContainsString_def String_Printf_def printf_d_0_1)

theorem ChooseUniqueName_first_absent_witness:
  "m_tree (GLSLGenerator_new \<lparr> m_tree := Some ex_clip_tree \<rparr>) = Some ex_clip_tree
   \<and> ChooseUniqueName ''clip'' [] 64 (GLSLGenerator_new \<lparr> m_tree := Some ex_clip_tree \<rparr>)
       = Inr (True, ''clip1'')
   \<and> \<not> GetContainsString ex_clip_tree ''clip1''"
  using ChooseUniqueName_first_absent [OF _ ex_clip_run] ex_clip_run
  by simp

end
